(* ===== verification/Prelude.thy ===== *)
theory Prelude
  imports Main "HOL-Library.AList"
begin

text \<open>
  Shared vocabulary of the development: the errors the runtime can raise, the three
  outcomes of an asynchronous step of the workflow (a value, the \<open>null\<close> of a
  user cancellation, a thrown error), the sequencing combinator that threads the
  world through such steps, JavaScript's \<open>||\<close> on optional strings, and the
  association-list lemmas the components share.
\<close>

section \<open>Errors and outcomes\<close>

text \<open>
  The errors that the Node runtime and the libraries raise in the code paths modelled:
  file-system errors by their errno names, a \<open>TypeError\<close> of a property access on
  \<open>null\<close>/\<open>undefined\<close> or an assignment to a primitive (the code runs as an ES
  module, hence in strict mode), a JSON parse error of \<open>fs.readJson\<close>, a rejected
  \<open>execa\<close> call and a failed \<open>degit\<close> download.
\<close>

datatype js_error =
    ENOENT
  | ENOTDIR
  | EEXIST
  | EISDIR
  | TypeError
  | JsonParseError
  | ExecFailed
  | FetchFailed

text \<open>
  An asynchronous function of the source either resolves with a value, resolves with
  \<open>null\<close> after the user backed out of a prompt, or rejects with an error.
\<close>

datatype 'a outcome = Done 'a | Cancelled | Thrown js_error

type_synonym ('s, 'a) act = "'s \<Rightarrow> 'a outcome \<times> 's"

definition return_act :: "'a \<Rightarrow> ('s, 'a) act" where
  "return_act x = (\<lambda>s. (Done x, s))"

definition throw_act :: "js_error \<Rightarrow> ('s, 'a) act" where
  "throw_act e = (\<lambda>s. (Thrown e, s))"

definition cancel_act :: "('s, 'a) act" where
  "cancel_act = (\<lambda>s. (Cancelled, s))"

text \<open>
  \<open>bind_act m f\<close> is \<open>const x = await m; f(x)\<close>: a cancellation returns \<open>null\<close>
  at once, an error propagates, and the world reached so far is kept in both cases.
\<close>

definition bind_act :: "('s, 'a) act \<Rightarrow> ('a \<Rightarrow> ('s, 'b) act) \<Rightarrow> ('s, 'b) act" where
  "bind_act m f = (\<lambda>s. case m s of
      (Done x, s') \<Rightarrow> f x s'
    | (Cancelled, s') \<Rightarrow> (Cancelled, s')
    | (Thrown e, s') \<Rightarrow> (Thrown e, s'))"

text \<open>Lifting a total step and a fallible step (an error as \<open>Inl\<close>) into \<open>act\<close>.\<close>

definition lift_act :: "('s \<Rightarrow> 'a \<times> 's) \<Rightarrow> ('s, 'a) act" where
  "lift_act f = (\<lambda>s. case f s of (x, s') \<Rightarrow> (Done x, s'))"

definition lift_err :: "('s \<Rightarrow> (js_error + 'a) \<times> 's) \<Rightarrow> ('s, 'a) act" where
  "lift_err f = (\<lambda>s. case f s of (Inl e, s') \<Rightarrow> (Thrown e, s') | (Inr x, s') \<Rightarrow> (Done x, s'))"

named_theorems act_simps "equations that evaluate the sequencing combinators"

lemma bind_act_Done [act_simps]:
  "m s = (Done x, s') \<Longrightarrow> bind_act m f s = f x s'"
  by (simp add: bind_act_def)

lemma bind_act_Cancelled [act_simps]:
  "m s = (Cancelled, s') \<Longrightarrow> bind_act m f s = (Cancelled, s')"
  by (simp add: bind_act_def)

lemma bind_act_Thrown [act_simps]:
  "m s = (Thrown e, s') \<Longrightarrow> bind_act m f s = (Thrown e, s')"
  by (simp add: bind_act_def)

lemma return_act_apply [act_simps, simp]: "return_act x s = (Done x, s)"
  by (simp add: return_act_def)

lemma throw_act_apply [act_simps, simp]: "throw_act e s = (Thrown e, s)"
  by (simp add: throw_act_def)

lemma cancel_act_apply [act_simps, simp]: "cancel_act s = (Cancelled, s)"
  by (simp add: cancel_act_def)

lemma bind_act_return [act_simps, simp]: "bind_act (return_act x) f = f x"
  by (simp add: bind_act_def return_act_def)

lemma bind_act_cancel [act_simps, simp]: "bind_act cancel_act f = cancel_act"
  by (simp add: bind_act_def cancel_act_def fun_eq_iff)

lemma bind_act_throw [act_simps, simp]: "bind_act (throw_act e) f = throw_act e"
  by (simp add: bind_act_def throw_act_def fun_eq_iff)

lemma bind_act_assoc:
  "bind_act (bind_act m f) g = bind_act m (\<lambda>x. bind_act (f x) g)"
  by (simp add: bind_act_def fun_eq_iff split: prod.splits outcome.splits)

lemma bind_act_Done_iff:
  "(fst (bind_act m f s) = Done y) \<longleftrightarrow>
     (\<exists>x s'. m s = (Done x, s') \<and> fst (f x s') = Done y)"
  by (auto simp: bind_act_def split: prod.splits outcome.splits)

lemma lift_act_apply [act_simps, simp]: "lift_act f s = (Done (fst (f s)), snd (f s))"
  by (simp add: lift_act_def split: prod.splits)

lemma lift_err_apply [act_simps, simp]:
  "lift_err f s = (case fst (f s) of Inl e \<Rightarrow> Thrown e | Inr x \<Rightarrow> Done x, snd (f s))"
  by (simp add: lift_err_def split: prod.splits sum.splits)

section \<open>Properties preserved along a sequence of steps\<close>

text \<open>
  \<open>act_keeps R m\<close>: every run of \<open>m\<close> relates its start and end state by \<open>R\<close>,
  whatever its outcome. For a reflexive and transitive \<open>R\<close> this composes through
  \<^const>\<open>bind_act\<close>, so a property of a whole workflow follows from the same property
  of each step. \<open>act_never_throws e m\<close>: no run of \<open>m\<close> throws \<open>e\<close>.
\<close>

definition act_keeps :: "('s \<Rightarrow> 's \<Rightarrow> bool) \<Rightarrow> ('s, 'a) act \<Rightarrow> bool" where
  "act_keeps R m = (\<forall>s. R s (snd (m s)))"

definition act_never_throws :: "js_error \<Rightarrow> ('s, 'a) act \<Rightarrow> bool" where
  "act_never_throws e m = (\<forall>s. fst (m s) \<noteq> Thrown e)"

named_theorems keeps_intros "rules that establish act_keeps for the steps of a workflow"

lemma act_keepsI: "(\<And>s. R s (snd (m s))) \<Longrightarrow> act_keeps R m"
  by (simp add: act_keeps_def)

lemma act_keepsD: "act_keeps R m \<Longrightarrow> R s (snd (m s))"
  by (simp add: act_keeps_def)

lemma act_keeps_bind [keeps_intros]:
  assumes "transp R" and "act_keeps R m" and "\<And>x. act_keeps R (f x)"
  shows "act_keeps R (bind_act m f)"
proof (rule act_keepsI)
  fix s
  obtain r s' where ms: "m s = (r, s')" by (cases "m s")
  have rs: "R s s'" using act_keepsD [OF assms(2), of s] ms by simp
  show "R s (snd (bind_act m f s))"
  proof (cases r)
    case (Done x)
    then have "R s' (snd (f x s'))" using act_keepsD [OF assms(3)] by blast
    with rs ms Done assms(1) show ?thesis by (simp add: bind_act_def transp_def)
  qed (use rs ms in \<open>simp_all add: bind_act_def\<close>)
qed

lemma act_keeps_return [keeps_intros]: "reflp R \<Longrightarrow> act_keeps R (return_act x)"
  by (simp add: act_keeps_def reflp_def)

lemma act_keeps_if [keeps_intros]:
  "act_keeps R a \<Longrightarrow> act_keeps R b \<Longrightarrow> act_keeps R (if c then a else b)"
  by simp

text \<open>A step that first inspects the state, as \<open>\<lambda>w. let p = f w in m p w\<close>.\<close>

lemma act_keeps_inspect:
  "(\<And>t. act_keeps R (g t)) \<Longrightarrow> act_keeps R (\<lambda>s. g s s)"
  by (simp add: act_keeps_def)

lemma act_keeps_guard:
  "act_keeps R m \<Longrightarrow> reflp R \<Longrightarrow> act_keeps R (\<lambda>s. if c s then m s else (Done x, s))"
  by (simp add: act_keeps_def reflp_def)

text \<open>\<open>act_result P m\<close>: every value \<open>m\<close> returns satisfies \<open>P\<close>.\<close>

definition act_result :: "('a \<Rightarrow> bool) \<Rightarrow> ('s, 'a) act \<Rightarrow> bool" where
  "act_result P m = (\<forall>s x s'. m s = (Done x, s') \<longrightarrow> P x)"

lemma act_result_bind: "(\<And>x. act_result P (f x)) \<Longrightarrow> act_result P (bind_act m f)"
  by (auto simp: act_result_def bind_act_def split: prod.splits outcome.splits)

lemma act_result_return: "P x \<Longrightarrow> act_result P (return_act x)"
  by (simp add: act_result_def)

lemma act_resultD: "act_result P m \<Longrightarrow> m s = (Done x, s') \<Longrightarrow> P x"
  unfolding act_result_def by blast

lemma bind_act_DoneE:
  assumes "fst (bind_act m f s) = Done y"
  obtains x s' where "m s = (Done x, s')" and "bind_act m f s = f x s'"
  using assms by (auto simp: bind_act_def split: prod.splits outcome.splits)

lemma act_keeps_after:
  assumes step: "\<And>w r w'. P w = (r, w') \<Longrightarrow> R w w'"
    and g: "\<And>r. act_keeps R (g r)" and tr: "transp R"
  shows "act_keeps R (\<lambda>w. case P w of (r, w') \<Rightarrow> g r w')"
proof (rule act_keepsI)
  fix w
  obtain r w' where pw: "P w = (r, w')" by (cases "P w")
  show "R w (snd (case P w of (r, w') \<Rightarrow> g r w'))"
    using transpD [OF tr step [OF pw] act_keepsD [OF g [of r], of w']] pw by simp
qed

definition act_completes :: "('s, 'a) act \<Rightarrow> bool" where
  "act_completes m = (\<forall>s. \<exists>x. fst (m s) = Done x)"

lemma act_completes_bind:
  "act_completes m \<Longrightarrow> (\<And>x. act_completes (f x)) \<Longrightarrow> act_completes (bind_act m f)"
proof -
  assume m: "act_completes m" and f: "\<And>x. act_completes (f x)"
  show "act_completes (bind_act m f)"
  proof (unfold act_completes_def, rule allI)
    fix s
    obtain x s' where ms: "m s = (Done x, s')"
      using m unfolding act_completes_def by (metis prod.collapse)
    obtain y where "fst (f x s') = Done y" using f unfolding act_completes_def by blast
    then show "\<exists>y. fst (bind_act m f s) = Done y" by (simp add: bind_act_def ms)
  qed
qed

lemma act_completes_return: "act_completes (return_act x)"
  by (simp add: act_completes_def return_act_def)

lemma act_never_throws_bind:
  assumes "act_never_throws e m" and "\<And>x. act_never_throws e (f x)"
  shows "act_never_throws e (bind_act m f)"
  unfolding act_never_throws_def
proof
  fix s
  obtain r s' where ms: "m s = (r, s')" by (cases "m s")
  with assms(1) have "r \<noteq> Thrown e" by (auto simp: act_never_throws_def dest: spec [of _ s])
  with ms assms(2) show "fst (bind_act m f s) \<noteq> Thrown e"
    by (cases r) (auto simp: bind_act_def act_never_throws_def)
qed

lemma act_never_throws_return: "act_never_throws e (return_act x)"
  by (simp add: act_never_throws_def)

lemma act_never_throws_inspect:
  "(\<And>t. act_never_throws e (g t)) \<Longrightarrow> act_never_throws e (\<lambda>s. g s s)"
  by (simp add: act_never_throws_def)

lemma act_never_throws_guard:
  "act_never_throws e m \<Longrightarrow> act_never_throws e (\<lambda>s. if c s then m s else (Done x, s))"
  by (simp add: act_never_throws_def)

section \<open>JavaScript truthiness on strings\<close>

text \<open>
  An optional string parameter (\<open>options.template\<close>, \<open>options.repo\<close>,
  \<open>options.branch\<close>) is \<open>undefined\<close> or a string; \<open>x || d\<close> falls back on \<open>d\<close>
  when \<open>x\<close> is \<open>undefined\<close> or the empty string.
\<close>

definition str_truthy :: "string option \<Rightarrow> bool" where
  "str_truthy x = (case x of None \<Rightarrow> False | Some s \<Rightarrow> s \<noteq> [])"

definition js_or :: "string option \<Rightarrow> string \<Rightarrow> string" where
  "js_or x d = (case x of Some s \<Rightarrow> if s \<noteq> [] then s else d | None \<Rightarrow> d)"

lemma str_truthy_simps [simp]:
  "str_truthy None = False" "str_truthy (Some s) = (s \<noteq> [])"
  by (simp_all add: str_truthy_def)

lemma js_or_simps [simp]:
  "js_or None d = d" "js_or (Some s) d = (if s = [] then d else s)"
  by (simp_all add: js_or_def)

lemma js_or_cases: "js_or x d = d \<or> (x = Some (js_or x d) \<and> js_or x d \<noteq> [])"
  by (cases x) auto

section \<open>Association lists\<close>

text \<open>
  JSON objects, the template table and the file system are association lists. The
  facts below about \<^const>\<open>AList.update\<close> and \<^const>\<open>map_of\<close> are the ones the
  components share.
\<close>

lemma map_of_update_same [simp]: "map_of (AList.update k v xs) k = Some v"
  by (simp add: update_conv')

lemma map_of_update_other [simp]: "k' \<noteq> k \<Longrightarrow> map_of (AList.update k v xs) k' = map_of xs k'"
  by (simp add: update_conv')

lemma distinct_update_keys [simp]: "distinct (map fst xs) \<Longrightarrow> distinct (map fst (AList.update k v xs))"
  by (simp add: distinct_update)

lemma update_keys_order:
  "k \<in> fst ` set xs \<Longrightarrow> map fst (AList.update k v xs) = map fst xs"
  by (induction xs) auto

lemma update_keys_append:
  "k \<notin> fst ` set xs \<Longrightarrow> AList.update k v xs = xs @ [(k, v)]"
  by (induction xs) auto

lemma update_same_value: "map_of xs k = Some v \<Longrightarrow> AList.update k v xs = xs"
  by (induction xs) (auto split: if_splits)

end
