(* ===== verification/Json.thy ===== *)
theory Json
  imports Prelude
begin

text \<open>
  JSON values as \<open>fs.readJson\<close> returns them and \<open>fs.writeJson\<close> stores them, and
  the JavaScript property reads and assignments that \<open>src/utils/helpers.ts\<close>
  performs on them: \<open>clientPkg.dependencies.hono\<close>, \<open>serverPkg.scripts.dev = ...\<close>
  and \<open>pkgJson.name = projectName\<close>. Objects are association lists in insertion
  order; \<open>JSON.parse\<close> never yields an object with a repeated key, which is the
  well-formedness invariant \<open>json_wf\<close>. Numbers are integers: no claim depends on
  their fractional part, only on their truthiness.
\<close>

datatype json =
    JNull
  | JBool bool
  | JNum int
  | JStr string
  | JArr "json list"
  | JObj "(string \<times> json) list"

fun json_wf :: "json \<Rightarrow> bool" where
  "json_wf (JArr xs) = list_all json_wf xs"
| "json_wf (JObj kvs) = (distinct (map fst kvs) \<and> list_all (\<lambda>kv. json_wf (snd kv)) kvs)"
| "json_wf _ = True"

text \<open>
  JavaScript truthiness of a property value, \<open>None\<close> being \<open>undefined\<close>.
\<close>

fun js_truthy :: "json option \<Rightarrow> bool" where
  "js_truthy None = False"
| "js_truthy (Some JNull) = False"
| "js_truthy (Some (JBool b)) = b"
| "js_truthy (Some (JNum n)) = (n \<noteq> 0)"
| "js_truthy (Some (JStr s)) = (s \<noteq> [])"
| "js_truthy (Some (JArr _)) = True"
| "js_truthy (Some (JObj _)) = True"

text \<open>
  \<open>base.k\<close>, with \<open>None\<close> for a base that is \<open>undefined\<close>: reading a property of
  \<open>undefined\<close> or \<open>null\<close> throws a \<open>TypeError\<close>; an object answers its own
  property; an array, string, number or boolean has none of the keys the code reads
  (\<open>dependencies\<close>, \<open>hono\<close>, \<open>scripts\<close>), so the read gives \<open>undefined\<close>.
\<close>

fun prop_get :: "json option \<Rightarrow> string \<Rightarrow> js_error + json option" where
  "prop_get None k = Inl TypeError"
| "prop_get (Some JNull) k = Inl TypeError"
| "prop_get (Some (JObj kvs)) k = Inr (map_of kvs k)"
| "prop_get (Some _) k = Inr None"

text \<open>
  \<open>base.k = v\<close> in strict mode: an object gets the property in place, or appended
  when new; an array gets a named property that \<open>JSON.stringify\<close> drops, so its
  JSON is unchanged; \<open>null\<close> and the primitives throw a \<open>TypeError\<close>.
\<close>

fun prop_set :: "json \<Rightarrow> string \<Rightarrow> json \<Rightarrow> js_error + json" where
  "prop_set (JObj kvs) k v = Inr (JObj (AList.update k v kvs))"
| "prop_set (JArr xs) k v = Inr (JArr xs)"
| "prop_set _ k v = Inl TypeError"

text \<open>
  \<open>base.a.b\<close>, a read through a read, as \<open>clientPkg.dependencies.hono\<close>.
\<close>

definition prop_get2 :: "json \<Rightarrow> string \<Rightarrow> string \<Rightarrow> js_error + json option" where
  "prop_get2 base a b = (case prop_get (Some base) a of
      Inl e \<Rightarrow> Inl e
    | Inr inner \<Rightarrow> prop_get inner b)"

text \<open>
  \<open>base.a.b = v\<close>, as \<open>serverPkg.scripts.dev = ...\<close>: \<open>base.a\<close> is read (a
  \<open>TypeError\<close> on \<open>undefined\<close>), the assignment mutates that inner value, and
  since an inner object is shared by reference the outer object sees the mutation.
\<close>

definition prop_set2 :: "json \<Rightarrow> string \<Rightarrow> string \<Rightarrow> json \<Rightarrow> js_error + json" where
  "prop_set2 base a b v = (case prop_get (Some base) a of
      Inl e \<Rightarrow> Inl e
    | Inr None \<Rightarrow> Inl TypeError
    | Inr (Some inner) \<Rightarrow>
        (case prop_set inner b v of
          Inl e \<Rightarrow> Inl e
        | Inr inner' \<Rightarrow>
            (case base of
              JObj kvs \<Rightarrow> Inr (JObj (AList.update a inner' kvs))
            | _ \<Rightarrow> Inr base)))"

section \<open>Properties of the property operations\<close>

named_theorems json_simps "evaluation of the JSON property operations"

declare prop_get2_def [json_simps] prop_set2_def [json_simps]

lemma list_all_snd_update:
  "list_all (\<lambda>kv. P (snd kv)) kvs \<Longrightarrow> P v \<Longrightarrow> list_all (\<lambda>kv. P (snd kv)) (AList.update k v kvs)"
  by (induction kvs) auto

lemma map_of_list_all_snd:
  "list_all (\<lambda>kv. P (snd kv)) kvs \<Longrightarrow> map_of kvs k = Some v \<Longrightarrow> P v"
  by (induction kvs) (auto split: if_splits)

text \<open>An assignment keeps a parsed value parsed: no key is ever repeated.\<close>

lemma prop_set_wf:
  assumes "json_wf b" and "json_wf v" and "prop_set b k v = Inr b'"
  shows "json_wf b'"
  using assms by (cases b) (auto intro: list_all_snd_update)

lemma prop_get_wf:
  "json_wf b \<Longrightarrow> prop_get (Some b) k = Inr (Some v) \<Longrightarrow> json_wf v"
  by (cases b) (auto intro: map_of_list_all_snd)

text \<open>Which bases make an assignment throw.\<close>

lemma prop_set_Inl_iff:
  "(\<exists>e. prop_set b k v = Inl e) \<longleftrightarrow> (\<forall>kvs xs. b \<noteq> JObj kvs \<and> b \<noteq> JArr xs)"
  by (cases b) auto

lemma prop_set_obj_get:
  "prop_set (JObj kvs) k v = Inr b' \<Longrightarrow> prop_get (Some b') k = Inr (Some v)"
  by auto

lemma prop_set_obj_get_other:
  "prop_set (JObj kvs) k v = Inr b' \<Longrightarrow> k' \<noteq> k \<Longrightarrow> prop_get (Some b') k' = prop_get (Some (JObj kvs)) k'"
  by auto

text \<open>
  An assignment to an existing key leaves the keys and their order as they were; a new
  key goes last. \<open>JSON.stringify\<close> prints the keys in this order, so a
  rewritten manifest differs from the fetched one only in the assigned field.
\<close>

lemma prop_set_keys:
  "prop_set (JObj kvs) k v = Inr (JObj kvs') \<Longrightarrow>
     map fst kvs' = (if k \<in> set (map fst kvs) then map fst kvs else map fst kvs @ [k])"
proof (cases "k \<in> fst ` set kvs")
  case True
  then show "prop_set (JObj kvs) k v = Inr (JObj kvs') \<Longrightarrow> ?thesis"
    using update_keys_order [OF True] by auto
next
  case False
  then show "prop_set (JObj kvs) k v = Inr (JObj kvs') \<Longrightarrow> ?thesis"
    using update_keys_append [OF False] by auto
qed

lemma prop_set2_obj:
  "map_of kvs a = Some (JObj ikvs) \<Longrightarrow>
     prop_set2 (JObj kvs) a b v = Inr (JObj (AList.update a (JObj (AList.update b v ikvs)) kvs))"
  by (simp add: prop_set2_def)

lemma prop_get_Some_obj:
  "prop_get (Some base) a = Inr (Some x) \<Longrightarrow> \<exists>kvs. base = JObj kvs \<and> map_of kvs a = Some x"
  by (cases base) auto

lemma prop_set2_wf:
  assumes base: "json_wf base" and v: "json_wf v" and ok: "prop_set2 base a b v = Inr b'"
  shows "json_wf b'"
proof (cases "prop_get (Some base) a")
  case (Inr r)
  then obtain inner where inner: "prop_get (Some base) a = Inr (Some inner)"
    using ok by (cases r) (auto simp: prop_set2_def)
  obtain kvs where kvs: "base = JObj kvs" "map_of kvs a = Some inner"
    using prop_get_Some_obj [OF inner] by blast
  obtain inner' where set: "prop_set inner b v = Inr inner'"
    using ok inner by (auto simp: prop_set2_def split: sum.splits)
  have "json_wf inner'" using prop_set_wf [OF prop_get_wf [OF base inner] v set] .
  then show ?thesis
    using ok inner set base kvs by (auto simp: prop_set2_def intro: list_all_snd_update)
qed (use ok in \<open>simp add: prop_set2_def\<close>)

end
