(* ===== verification/TemplateTexts.thy ===== *)
theory TemplateTexts
  imports Main
begin

text \<open>
  The five source texts exported by \<open>src/utils/templates.ts\<close>, transcribed
  line by line: each template literal is the list of its lines joined by newline
  characters, with the literal's escapes (\<open>\`\<close>, \<open>\$\<close>) resolved and
  its tab characters kept. \<open>split_lines\<close> reads a text back as its
  lines; the round trip between the two is proved at the end.
\<close>

section \<open>Texts as lines\<close>

fun join_lines :: "string list \<Rightarrow> string" where
  "join_lines [] = []"
| "join_lines [l] = l"
| "join_lines (l # ls) = l @ CHR 0x0A # join_lines ls"

fun split_lines :: "string \<Rightarrow> string list" where
  "split_lines [] = [[]]"
| "split_lines (c # cs) =
    (if c = CHR 0x0A then [] # split_lines cs
     else (case split_lines cs of l # ls \<Rightarrow> (c # l) # ls | [] \<Rightarrow> [[c]]))"

section \<open>\<open>honoRpcTemplate\<close> (lines 15--71)\<close>

definition honoRpcTemplate_lines :: "string list" where
  \<open>honoRpcTemplate_lines =
    [''import { Hono } from "hono";'',
     ''import { cors } from "hono/cors";'',
     ''import type { ApiResponse } from "shared/dist";'',
     ''import { createTestClient, http, publicActions, walletActions } from "viem";'',
     ''import { foundry } from 'viem/chains'' @ [CHR 0x27],
     ''import { counterAbi } from 'contracts'' @ [CHR 0x27],
     '''',
     ''const client = createTestClient({'',
     ''  chain: foundry,'',
     ''  mode: 'anvil','',
     ''  transport: http()'',
     ''})'',
     ''  .extend(publicActions)'',
     ''  .extend(walletActions);'',
     '''',
     ''export const app = new Hono()'',
     '''',
     ''.use(cors())'',
     '''',
     ''.get("/", (c) => {'',
     ''	return c.text("Hello Hono!");'',
     ''})'',
     '''',
     ''.get("/hello", async (c) => {'',
     ''	const data: ApiResponse = {'',
     ''		message: "Hello BHVR!",'',
     ''		success: true,'',
     ''	};'',
     '''',
     ''	return c.json(data, { status: 200 });'',
     ''});'',
     '''',
     ''.get('/contracts/:address/counter', async (c) => {'',
     ''  try {'',
     ''    const address = c.req.param('address') as `0x${ string }`'',
     '''',
     ''    const result = await client.readContract({'',
     ''      address,'',
     ''      abi: counterAbi,'',
     ''      functionName: 'number'' @ [CHR 0x27],
     ''    })'',
     '''',
     ''    const response: ApiResponse = {'',
     ''      message: `Counter value: ${ result } `,'',
     ''      success: true'',
     ''    }'',
     '''',
     ''    return c.json(response)'',
     ''  } catch (error) {'',
     ''    return c.json({'',
     ''      message: 'Failed to read contract','',
     ''      success: false'',
     ''    }, 500)'',
     ''  }'',
     ''})'',
     '''',
     ''export default app;'']\<close>

definition honoRpcTemplate :: string where
  "honoRpcTemplate = join_lines honoRpcTemplate_lines"

section \<open>\<open>honoClientTemplate\<close> (lines 73--80)\<close>

definition honoClientTemplate_lines :: "string list" where
  \<open>honoClientTemplate_lines =
    [''import { hc } from "hono/client";'',
     ''import type { app } from "./index";'',
     '''',
     ''export type AppType = typeof app;'',
     ''export type Client = ReturnType<typeof hc<AppType>>;'',
     '''',
     ''export const hcWithType = (...args: Parameters<typeof hc>): Client =>'',
     ''  hc<AppType>(...args);'']\<close>

definition honoClientTemplate :: string where
  "honoClientTemplate = join_lines honoClientTemplate_lines"

section \<open>\<open>defaultTemplate\<close> (lines 82--175)\<close>

definition defaultTemplate_lines :: "string list" where
  \<open>defaultTemplate_lines =
    [''import { useState } from 'react'' @ [CHR 0x27],
     ''import beaver from './assets/beaver.svg'' @ [CHR 0x27],
     ''import { hcWithType } from 'server/dist/client'' @ [CHR 0x27],
     ''import { createTestClient, http, publicActions, walletActions } from "viem";'',
     ''import { foundry } from 'viem/chains'' @ [CHR 0x27],
     ''import { counterAbi } from 'contracts'' @ [CHR 0x27],
     ''import './App.css'' @ [CHR 0x27],
     '''',
     ''const SERVER_URL = import.meta.env.VITE_SERVER_URL || "http://localhost:3000"'',
     ''const CONTRACT_ADDRESS = "0x742d35Cc6634C0532925a3b8D404fBaF464DfD85"'',
     '''',
     ''const client = hcWithType(SERVER_URL);'',
     ''const viemClient = createTestClient({'',
     ''  chain: foundry,'',
     ''  mode: 'anvil','',
     ''  transport: http()'',
     ''})'',
     ''  .extend(publicActions)'',
     ''  .extend(walletActions)'',
     '''',
     ''type ResponseType = Awaited<ReturnType<typeof client.hello.$get>>;'',
     '''',
     ''function App() {'',
     ''  const [data, setData] = useState<Awaited<ReturnType<ResponseType["json"]>> | undefined>()'',
     ''  const [counterValue, setCounterValue] = useState<bigint | undefined>()'',
     '''',
     ''  async function sendRequest() {'',
     ''    try {'',
     ''      const res = await client.hello.$get()'',
     ''      if (!res.ok) {'',
     ''        console.log("Error fetching data")'',
     ''        return'',
     ''      }'',
     ''      const data = await res.json()'',
     ''      setData(data)'',
     ''    } catch (error) {'',
     ''      console.log(error)'',
     ''    }'',
     ''  }'',
     '''',
     ''  async function readContract() {'',
     ''    try {'',
     ''      const result = await viemClient.readContract({'',
     ''        address: CONTRACT_ADDRESS,'',
     ''        abi: counterAbi,'',
     ''        functionName: "number"'',
     ''      })'',
     ''      setCounterValue(result)'',
     ''    } catch (error) {'',
     ''      console.log("Contract read error:", error)'',
     ''    }'',
     ''  }'',
     '''',
     ''  return ('',
     ''    <>'',
     ''      <div>'',
     ''        <a href="https://github.com/stevedylandev/bhvr-forge" target="_blank">'',
     ''          <img src={beaver} className="logo" alt="beaver logo" />'',
     ''        </a>'',
     ''      </div>'',
     ''      <h1>bhvr forge</h1>'',
     ''      <h2>Bun + Hono + Vite + React + Forge</h2>'',
     ''      <p>A typesafe fullstack monorepo with smart contracts</p>'',
     ''      <div className="card">'',
     ''        <div className='button-container'>'',
     ''          <button onClick={sendRequest}>'',
     ''            Call API'',
     ''          </button>'',
     ''          <button onClick={readContract}>'',
     ''            Read Contract'',
     ''          </button>'',
     ''          <a className='docs-link' target='_blank' href="https://forge.bhvr.dev">Docs</a>'',
     ''        </div>'',
     ''        {data && ('',
     ''          <pre className='response'>'',
     ''            <code>'',
     ''            Message: {data.message} <br />'',
     ''            Success: {data.success.toString()}'',
     ''            </code>'',
     ''          </pre>'',
     ''        )}'',
     ''        {counterValue !== undefined && ('',
     ''          <pre className='response'>'',
     ''            <code>'',
     ''            Counter Value: {counterValue.toString()}'',
     ''            </code>'',
     ''          </pre>'',
     ''        )}'',
     ''      </div>'',
     ''    </>'',
     ''  )'',
     ''}'',
     '''',
     ''export default App'']\<close>

definition defaultTemplate :: string where
  "defaultTemplate = join_lines defaultTemplate_lines"

section \<open>\<open>tailwindTemplate\<close> (lines 177--277)\<close>

definition tailwindTemplate_lines :: "string list" where
  \<open>tailwindTemplate_lines =
    [''import { useState } from 'react'' @ [CHR 0x27],
     ''import beaver from './assets/beaver.svg'' @ [CHR 0x27],
     ''import { hcWithType } from 'server/dist/client'' @ [CHR 0x27],
     ''import { createTestClient, http, publicActions, walletActions } from "viem";'',
     ''import { foundry } from 'viem/chains'' @ [CHR 0x27],
     ''import { counterAbi } from 'contracts'' @ [CHR 0x27],
     '''',
     ''const SERVER_URL = import.meta.env.VITE_SERVER_URL || "http://localhost:3000"'',
     ''const CONTRACT_ADDRESS = "0x742d35Cc6634C0532925a3b8D404fBaF464DfD85"'',
     '''',
     ''type ResponseType = Awaited<ReturnType<typeof client.hello.$get>>;'',
     '''',
     ''const client = hcWithType(SERVER_URL);'',
     ''const viemClient = createTestClient({'',
     ''  chain: foundry,'',
     ''  mode: 'anvil','',
     ''  transport: http()'',
     ''})'',
     ''  .extend(publicActions)'',
     ''  .extend(walletActions);'',
     '''',
     ''function App() {'',
     ''  const [data, setData] = useState<Awaited<ReturnType<ResponseType["json"]>> | undefined>()'',
     ''  const [counterValue, setCounterValue] = useState<bigint | undefined>()'',
     '''',
     ''  async function sendRequest() {'',
     ''    try {'',
     ''      const res = await client.hello.$get()'',
     ''      if (!res.ok) {'',
     ''        console.log("Error fetching data")'',
     ''        return'',
     ''      }'',
     ''      const data = await res.json()'',
     ''      setData(data)'',
     ''    } catch (error) {'',
     ''      console.log(error)'',
     ''    }'',
     ''  }'',
     '''',
     ''  async function readContract() {'',
     ''    try {'',
     ''      const result = await viemClient.readContract({'',
     ''        address: CONTRACT_ADDRESS,'',
     ''        abi: counterAbi,'',
     ''        functionName: "number"'',
     ''      })'',
     ''      setCounterValue(result)'',
     ''    } catch (error) {'',
     ''      console.log("Contract read error:", error)'',
     ''    }'',
     ''  }'',
     '''',
     ''  return ('',
     ''    <div className="max-w-xl mx-auto flex flex-col gap-6 items-center justify-center min-h-screen">'',
     ''      <a href="https://github.com/stevedylandev/bhvr-forge" target="_blank">'',
     ''        <img'',
     ''          src={beaver}'',
     ''          className="w-16 h-16 cursor-pointer"'',
     ''          alt="beaver logo"'',
     ''        />'',
     ''      </a>'',
     ''      <h1 className="text-5xl font-black">bhvr forge</h1>'',
     ''      <h2 className="text-2xl font-bold">Bun + Hono + Vite + React + Forge</h2>'',
     ''      <p>A typesafe fullstack monorepo with smart contracts</p>'',
     ''      <div className='flex items-center gap-4'>'',
     ''        <button'',
     ''          onClick={sendRequest}'',
     ''          className="bg-black text-white px-2.5 py-1.5 rounded-md"'',
     ''        >'',
     ''          Call API'',
     ''        </button>'',
     ''        <button'',
     ''          onClick={readContract}'',
     ''          className="bg-black text-white px-2.5 py-1.5 rounded-md"'',
     ''        >'',
     ''          Read Contract'',
     ''        </button>'',
     ''        <a target='_blank' href="https://forge.bhvr.dev" className='border-1 border-black text-black px-2.5 py-1.5 rounded-md'>'',
     ''          Docs'',
     ''        </a>'',
     ''      </div>'',
     ''        {data && ('',
     ''          <pre className="bg-gray-100 p-4 rounded-md">'',
     ''            <code>'',
     ''            Message: {data.message} <br />'',
     ''            Success: {data.success.toString()}'',
     ''            </code>'',
     ''          </pre>'',
     ''        )}'',
     ''        {counterValue !== undefined && ('',
     ''          <pre className="bg-gray-100 p-4 rounded-md">'',
     ''            <code>'',
     ''            Counter Value: {counterValue.toString()}'',
     ''            </code>'',
     ''          </pre>'',
     ''        )}'',
     ''    </div>'',
     ''  )'',
     ''}'',
     '''',
     ''export default App'']\<close>

definition tailwindTemplate :: string where
  "tailwindTemplate = join_lines tailwindTemplate_lines"

section \<open>\<open>shadcnTemplate\<close> (lines 279--383)\<close>

definition shadcnTemplate_lines :: "string list" where
  \<open>shadcnTemplate_lines =
    [''import { useState } from 'react'' @ [CHR 0x27],
     ''import beaver from './assets/beaver.svg'' @ [CHR 0x27],
     ''import { Button } from './components/ui/button'' @ [CHR 0x27],
     ''import { hcWithType } from 'server/dist/client'' @ [CHR 0x27],
     ''import { createTestClient, http, publicActions, walletActions } from "viem";'',
     ''import { forge } from 'viem/chains'' @ [CHR 0x27],
     ''import { counterAbi } from 'contracts'' @ [CHR 0x27],
     '''',
     ''const SERVER_URL = import.meta.env.VITE_SERVER_URL || "http://localhost:3000"'',
     ''const CONTRACT_ADDRESS = "0x742d35Cc6634C0532925a3b8D404fBaF464DfD85"'',
     '''',
     ''const client = hcWithType(SERVER_URL);'',
     ''const viemClient = createTestClient({'',
     ''  chain: forge,'',
     ''  mode: 'anvil','',
     ''  transport: http()'',
     ''})'',
     ''  .extend(publicActions)'',
     ''  .extend(walletActions);'',
     '''',
     ''type ResponseType = Awaited<ReturnType<typeof client.hello.$get>>;'',
     '''',
     ''function App() {'',
     ''  const [data, setData] = useState<Awaited<ReturnType<ResponseType["json"]>> | undefined>()'',
     ''  const [counterValue, setCounterValue] = useState<bigint | undefined>()'',
     '''',
     ''  async function sendRequest() {'',
     ''    try {'',
     ''      const res = await client.hello.$get()'',
     ''      if (!res.ok) {'',
     ''        console.log("Error fetching data")'',
     ''        return'',
     ''      }'',
     ''      const data = await res.json()'',
     ''      setData(data)'',
     ''    } catch (error) {'',
     ''      console.log(error)'',
     ''    }'',
     ''  }'',
     '''',
     ''  async function readContract() {'',
     ''    try {'',
     ''      const result = await viemClient.readContract({'',
     ''        address: CONTRACT_ADDRESS,'',
     ''        abi: counterAbi,'',
     ''        functionName: "number"'',
     ''      })'',
     ''      setCounterValue(result)'',
     ''    } catch (error) {'',
     ''      console.log("Contract read error:", error)'',
     ''    }'',
     ''  }'',
     '''',
     ''  return ('',
     ''    <div className="max-w-xl mx-auto flex flex-col gap-6 items-center justify-center min-h-screen">'',
     ''      <a href="https://github.com/stevedylandev/bhvr-forge" target="_blank">'',
     ''        <img'',
     ''          src={beaver}'',
     ''          className="w-16 h-16 cursor-pointer"'',
     ''          alt="beaver logo"'',
     ''        />'',
     ''      </a>'',
     ''      <h1 className="text-5xl font-black">bhvr forge</h1>'',
     ''      <h2 className="text-2xl font-bold">Bun + Hono + Vite + React + Forge</h2>'',
     ''      <p>A typesafe fullstack monorepo with smart contracts</p>'',
     ''      <div className='flex items-center gap-4'>'',
     ''        <Button'',
     ''          onClick={sendRequest}'',
     ''        >'',
     ''          Call API'',
     ''        </Button>'',
     ''        <Button'',
     ''          onClick={readContract}'',
     ''        >'',
     ''          Read Contract'',
     ''        </Button>'',
     ''        <Button'',
     ''          variant='secondary'' @ [CHR 0x27],
     ''          asChild'',
     ''        >'',
     ''          <a target='_blank' href="https://forge.bhvr.dev">'',
     ''          Docs'',
     ''          </a>'',
     ''        </Button>'',
     ''      </div>'',
     ''        {data && ('',
     ''          <pre className="bg-gray-100 p-4 rounded-md">'',
     ''            <code>'',
     ''            Message: {data.message} <br />'',
     ''            Success: {data.success.toString()}'',
     ''            </code>'',
     ''          </pre>'',
     ''        )}'',
     ''        {counterValue !== undefined && ('',
     ''          <pre className="bg-gray-100 p-4 rounded-md">'',
     ''            <code>'',
     ''            Counter Value: {counterValue.toString()}'',
     ''            </code>'',
     ''          </pre>'',
     ''        )}'',
     ''    </div>'',
     ''  )'',
     ''}'',
     '''',
     ''export default App'']\<close>

definition shadcnTemplate :: string where
  "shadcnTemplate = join_lines shadcnTemplate_lines"

section \<open>Reading the texts back\<close>

lemma split_lines_nonempty: "split_lines s \<noteq> []"
  by (induction s rule: split_lines.induct) (auto split: list.split)

lemma split_lines_append:
  "CHR 0x0A \<notin> set l \<Longrightarrow> split_lines (l @ cs) = (case split_lines cs of m # ms \<Rightarrow> (l @ m) # ms)"
  by (induction l) (auto split: list.split simp: split_lines_nonempty)

text \<open>Splitting a text joined from lines without newline characters gives the lines back.\<close>

lemma split_join_lines:
  "ls \<noteq> [] \<Longrightarrow> \<forall>l\<in>set ls. CHR 0x0A \<notin> set l \<Longrightarrow> split_lines (join_lines ls) = ls"
proof (induction ls rule: join_lines.induct)
  case (2 l)
  then show ?case using split_lines_append [of l "[]"] by simp
next
  case (3 l v va)
  then show ?case using split_lines_append [of l "CHR 0x0A # join_lines (v # va)"] by simp
qed simp

lemma honoRpcTemplate_split: "split_lines honoRpcTemplate = honoRpcTemplate_lines"
  unfolding honoRpcTemplate_def by (rule split_join_lines) (simp_all add: honoRpcTemplate_lines_def)

lemma honoClientTemplate_split: "split_lines honoClientTemplate = honoClientTemplate_lines"
  unfolding honoClientTemplate_def by (rule split_join_lines) (simp_all add: honoClientTemplate_lines_def)

lemma defaultTemplate_split: "split_lines defaultTemplate = defaultTemplate_lines"
  unfolding defaultTemplate_def by (rule split_join_lines) (simp_all add: defaultTemplate_lines_def)

lemma tailwindTemplate_split: "split_lines tailwindTemplate = tailwindTemplate_lines"
  unfolding tailwindTemplate_def by (rule split_join_lines) (simp_all add: tailwindTemplate_lines_def)

lemma shadcnTemplate_split: "split_lines shadcnTemplate = shadcnTemplate_lines"
  unfolding shadcnTemplate_def by (rule split_join_lines) (simp_all add: shadcnTemplate_lines_def)

lemmas template_split = honoRpcTemplate_split honoClientTemplate_split defaultTemplate_split tailwindTemplate_split shadcnTemplate_split

end
