(* ===== verification/Templates.thy ===== *)
theory Templates
  imports Prelude TemplateTexts
begin

text \<open>
  The data of \<open>src/types.ts\<close> and the template registry of
  \<open>src/utils/templates.ts\<close>: the records \<open>TemplateInfo\<close>, \<open>ProjectOptions\<close> and
  \<open>ProjectResult\<close>; the table \<open>TEMPLATES\<close> as an association list in declaration
  order (the order \<open>Object.keys\<close> gives); the five fixed source texts as named
  constants; and the lookups that \<open>createProject\<close> and \<open>patchFilesForRPC\<close> do on
  them: the branch a template name resolves to and the \<open>App.tsx\<close> variant it selects.
\<close>

section \<open>Records of src/types.ts\<close>

record template_info =
  info_branch :: string
  info_description :: string

text \<open>
  \<open>ProjectOptions\<close>: the optional booleans \<open>yes\<close>, \<open>typescript\<close> and \<open>rpc\<close>
  are \<open>true\<close> or \<open>undefined\<close> as commander sets them, so \<open>bool\<close>; the optional
  strings stay optional, since \<open>createProject\<close> is exported and may be called without
  commander's defaults.
\<close>

record project_options =
  yes :: bool
  typescript :: bool
  repo :: "string option"
  template :: "string option"
  branch :: "string option"
  rpc :: bool

text \<open>\<open>ProjectResult\<close>; its field \<open>template\<close> is \<open>result_template\<close> here.\<close>

record project_result =
  projectName :: string
  gitInitialized :: bool
  dependenciesInstalled :: bool
  result_template :: string

section \<open>The template registry\<close>

definition TEMPLATES :: "(string \<times> template_info) list" where
  "TEMPLATES =
    [(''default'', \<lparr>info_branch = ''main'',
        info_description = ''Basic setup with Bun, Hono, Vite and React''\<rparr>),
     (''tailwind'', \<lparr>info_branch = ''tailwindcss'',
        info_description = ''Basic setup + TailwindCSS''\<rparr>),
     (''shadcn'', \<lparr>info_branch = ''shadcn-ui'',
        info_description = ''Basic setup + TailwindCSS + shadcn/ui''\<rparr>)]"

definition DEFAULT_REPO :: string where
  "DEFAULT_REPO = ''stevedylandev/bhvr-forge''"

section \<open>Indexing TEMPLATES with an arbitrary string\<close>

text \<open>
  \<open>TEMPLATES[key]\<close> on a plain object literal: an own key gives its entry; a key that
  names a member of \<open>Object.prototype\<close> gives that inherited member, which is truthy
  and has no \<open>branch\<close>; any other key gives \<open>undefined\<close>.
\<close>

definition object_prototype_keys :: "string list" where
  "object_prototype_keys =
    [''constructor'', ''__proto__'', ''hasOwnProperty'', ''isPrototypeOf'',
     ''propertyIsEnumerable'', ''toString'', ''valueOf'', ''toLocaleString'',
     ''__defineGetter__'', ''__defineSetter__'', ''__lookupGetter__'', ''__lookupSetter__'']"

datatype template_entry = OwnEntry template_info | InheritedMember | NoEntry

definition templates_index :: "string \<Rightarrow> template_entry" where
  "templates_index key =
    (case map_of TEMPLATES key of
      Some t \<Rightarrow> OwnEntry t
    | None \<Rightarrow> if key \<in> set object_prototype_keys then InheritedMember else NoEntry)"

text \<open>
  \<open>templateConfig = TEMPLATES[choice] || TEMPLATES.default\<close>, then
  \<open>branch = options.branch || (templateConfig?.branch ?? "main")\<close>
  (helpers.ts lines 188--190); \<open>None\<close> stands for a \<open>templateConfig\<close> without a
  \<open>branch\<close> field.
\<close>

definition template_config :: "string \<Rightarrow> template_info option" where
  "template_config choice =
    (case templates_index choice of
      OwnEntry t \<Rightarrow> Some t
    | InheritedMember \<Rightarrow> None
    | NoEntry \<Rightarrow> map_of TEMPLATES ''default'')"

definition resolve_branch :: "string option \<Rightarrow> string \<Rightarrow> string" where
  "resolve_branch opt_branch choice =
    js_or opt_branch (case template_config choice of Some t \<Rightarrow> info_branch t | None \<Rightarrow> ''main'')"

definition repo_url :: "project_options \<Rightarrow> string \<Rightarrow> string" where
  "repo_url opts choice = js_or (repo opts) DEFAULT_REPO @ ''#'' @ resolve_branch (branch opts) choice"

text \<open>The choices of the template prompt: \<open>Object.keys(TEMPLATES)\<close>.\<close>

definition template_choices :: "string list" where
  "template_choices = map fst TEMPLATES"

text \<open>The \<open>switch (templateChoice)\<close> of \<open>patchFilesForRPC\<close>.\<close>

definition app_template :: "string \<Rightarrow> string" where
  "app_template choice =
    (if choice = ''shadcn'' then shadcnTemplate
     else if choice = ''tailwind'' then tailwindTemplate
     else defaultTemplate)"

section \<open>Properties of the registry lookups\<close>

lemma map_of_TEMPLATES_default:
  "map_of TEMPLATES ''default'' = Some \<lparr>info_branch = ''main'',
     info_description = ''Basic setup with Bun, Hono, Vite and React''\<rparr>"
  by (simp add: TEMPLATES_def)

text \<open>A property of every \<open>App.tsx\<close> variant holds of the one a choice selects.\<close>

lemma app_template_cases:
  "P defaultTemplate \<Longrightarrow> P tailwindTemplate \<Longrightarrow> P shadcnTemplate \<Longrightarrow> P (app_template choice)"
  by (simp add: app_template_def)

lemma TEMPLATES_keys_not_prototype:
  "map_of TEMPLATES k = Some t \<Longrightarrow> k \<notin> set object_prototype_keys"
  by (auto simp: TEMPLATES_def object_prototype_keys_def split: if_splits)

lemma template_config_own:
  "map_of TEMPLATES k = Some t \<Longrightarrow> template_config k = Some t"
  by (simp add: template_config_def templates_index_def)

text \<open>
  Without an override, a template name resolves to a branch of the registry: its own
  when registered, the default's otherwise, and the literal \<open>"main"\<close> for a name that
  hits an inherited member of \<open>Object.prototype\<close>, which is the default's branch too.
\<close>

lemma resolve_branch_registered_or_main:
  "resolve_branch None k = (case map_of TEMPLATES k of Some t \<Rightarrow> info_branch t | None \<Rightarrow> ''main'')"
  by (auto simp: resolve_branch_def template_config_def templates_index_def
      map_of_TEMPLATES_default split: option.splits)

text \<open>
  C1. For every template of the registry, with no branch override the branch that is
  downloaded is the branch the registry gives that template.
\<close>

theorem registered_branch_resolution:
  assumes "map_of TEMPLATES k = Some t"
  shows "resolve_branch None k = info_branch t"
  using assms by (simp add: resolve_branch_registered_or_main)

theorem registered_branch_resolution_witness:
  "map_of TEMPLATES ''tailwind'' = Some \<lparr>info_branch = ''tailwindcss'', info_description = ''Basic setup + TailwindCSS''\<rparr>
   \<and> resolve_branch None ''tailwind'' = ''tailwindcss''"
proof -
  have h: "map_of TEMPLATES ''tailwind'' =
      Some \<lparr>info_branch = ''tailwindcss'', info_description = ''Basic setup + TailwindCSS''\<rparr>"
    by (simp add: TEMPLATES_def)
  show ?thesis using h registered_branch_resolution [OF h] by simp
qed

text \<open>
  C2. A non-empty branch override is downloaded whatever the template, and without one
  the branch is always one of the registry's branches, also for names that are not
  templates.
\<close>

theorem branch_override_or_registry:
  "resolve_branch ob k = (if str_truthy ob then the ob else
     (case map_of TEMPLATES k of Some t \<Rightarrow> info_branch t | None \<Rightarrow> ''main''))
   \<and> resolve_branch None k \<in> set (map (info_branch \<circ> snd) TEMPLATES)"
proof
  show "resolve_branch ob k = (if str_truthy ob then the ob else
     (case map_of TEMPLATES k of Some t \<Rightarrow> info_branch t | None \<Rightarrow> ''main''))"
    using resolve_branch_registered_or_main [of k]
    by (cases ob) (simp_all add: resolve_branch_def)
  show "resolve_branch None k \<in> set (map (info_branch \<circ> snd) TEMPLATES)"
    unfolding resolve_branch_registered_or_main
    by (auto simp: TEMPLATES_def split: option.splits if_splits)
qed

end
