(* ===== verification/Runtime.thy ===== *)
theory Runtime
  imports Json Templates "HOL-Library.Sublist"
begin

text \<open>
  The world the workflow acts on, as the libraries it calls present it: the local file
  system (\<open>fs-extra\<close> and \<open>node:fs\<close>), the user answering \<open>prompts\<close>, the remote
  repositories \<open>degit\<close> downloads, the external commands \<open>execa\<close> runs and
  \<open>path.resolve\<close>. None of this is code of the repository; each operation follows
  the documented behaviour of the library on the calls the code makes. The world also
  records a trace of the prompts shown, commands run, downloads and messages, in order,
  so that claims about what the workflow asks and attempts are claims about the trace.
\<close>

section \<open>File system\<close>

type_synonym path = "string list"

text \<open>
  A file holds a JSON document (text that \<open>JSON.parse\<close> accepts, kept as its
  value) or other text, such as the template sources the RPC patch writes.
\<close>

datatype content = JsonDoc json | TextDoc string

datatype node = Dir | File content

type_synonym fsys = "(path \<times> node) list"

definition fs_lookup :: "fsys \<Rightarrow> path \<Rightarrow> node option" where
  "fs_lookup f p = map_of f p"

definition fs_exists :: "fsys \<Rightarrow> path \<Rightarrow> bool" where
  "fs_exists f p = (fs_lookup f p \<noteq> None)"

text \<open>
  Well-formed: every path occurs once, the root is a directory, and the parent of every
  other entry is a directory.
\<close>

definition fs_wf :: "fsys \<Rightarrow> bool" where
  "fs_wf f = (distinct (map fst f) \<and> fs_lookup f [] = Some Dir \<and>
     list_all (\<lambda>(q, _). q = [] \<or> fs_lookup f (butlast q) = Some Dir) f)"

definition is_child :: "path \<Rightarrow> path \<Rightarrow> bool" where
  "is_child p q = (q \<noteq> [] \<and> butlast q = p)"

definition is_below :: "path \<Rightarrow> path \<Rightarrow> bool" where
  "is_below p q = strict_prefix p q"

text \<open>\<open>fs.readdirSync(p)\<close>: the entries directly inside a directory.\<close>

definition readdir :: "fsys \<Rightarrow> path \<Rightarrow> js_error + path list" where
  "readdir f p = (case fs_lookup f p of
      None \<Rightarrow> Inl ENOENT
    | Some (File _) \<Rightarrow> Inl ENOTDIR
    | Some Dir \<Rightarrow> Inr [q. (q, _) \<leftarrow> f, is_child p q])"

text \<open>\<open>fs.emptyDir(p)\<close> on an existing directory: everything below it is deleted.\<close>

definition empty_dir :: "fsys \<Rightarrow> path \<Rightarrow> fsys" where
  "empty_dir f p = filter (\<lambda>(q, _). \<not> is_below p q) f"

text \<open>\<open>fs.remove(p)\<close>: \<open>rm -rf\<close>, no error on a missing path.\<close>

definition remove_tree :: "fsys \<Rightarrow> path \<Rightarrow> fsys" where
  "remove_tree f p = filter (\<lambda>(q, _). \<not> prefix p q) f"

text \<open>
  \<open>fs.ensureDirSync(p)\<close>, that is \<open>mkdir -p\<close>: a file on the way is \<open>ENOTDIR\<close>,
  a file at \<open>p\<close> itself is \<open>EEXIST\<close>, the missing directories are created
  outermost first.
\<close>

fun is_file :: "node option \<Rightarrow> bool" where
  "is_file (Some (File _)) = True"
| "is_file _ = False"

definition ensure_dir :: "fsys \<Rightarrow> path \<Rightarrow> js_error + fsys" where
  "ensure_dir f p =
    (if list_ex (\<lambda>q. is_file (fs_lookup f q)) (butlast (prefixes p)) then Inl ENOTDIR
     else if is_file (fs_lookup f p) then Inl EEXIST
     else Inr (f @ map (\<lambda>q. (q, Dir)) (filter (\<lambda>q. fs_lookup f q = None) (prefixes p))))"

text \<open>
  \<open>fs.writeFile(p, c)\<close> and \<open>fs.writeJson(p, v)\<close>: the parent must be a
  directory; a directory at \<open>p\<close> is \<open>EISDIR\<close>; an existing file is replaced.
\<close>

definition write_file :: "fsys \<Rightarrow> path \<Rightarrow> content \<Rightarrow> js_error + fsys" where
  "write_file f p c =
    (if p = [] then Inl EISDIR
     else case fs_lookup f (butlast p) of
       None \<Rightarrow> Inl ENOENT
     | Some (File _) \<Rightarrow> Inl ENOTDIR
     | Some Dir \<Rightarrow> (case fs_lookup f p of
         Some Dir \<Rightarrow> Inl EISDIR
       | _ \<Rightarrow> Inr (AList.update p (File c) f)))"

text \<open>\<open>fs.readJson(p)\<close>.\<close>

definition read_json :: "fsys \<Rightarrow> path \<Rightarrow> js_error + json" where
  "read_json f p = (case fs_lookup f p of
      None \<Rightarrow> Inl ENOENT
    | Some Dir \<Rightarrow> Inl EISDIR
    | Some (File (JsonDoc v)) \<Rightarrow> Inr v
    | Some (File _) \<Rightarrow> Inl JsonParseError)"

text \<open>
  \<open>degit(url, {force: true}).clone(dest)\<close> extracts a downloaded tree of entries,
  paths relative to \<open>dest\<close>, directories before their contents; an existing file is
  overwritten, a clash between a file and a directory fails and leaves what was
  extracted before it.
\<close>

fun extract_tree :: "fsys \<Rightarrow> path \<Rightarrow> (path \<times> node) list \<Rightarrow> (js_error + unit) \<times> fsys" where
  "extract_tree f d [] = (Inr (), f)"
| "extract_tree f d ((r, Dir) # es) =
     (case ensure_dir f (d @ r) of Inl e \<Rightarrow> (Inl e, f) | Inr f' \<Rightarrow> extract_tree f' d es)"
| "extract_tree f d ((r, File c) # es) =
     (case write_file f (d @ r) c of Inl e \<Rightarrow> (Inl e, f) | Inr f' \<Rightarrow> extract_tree f' d es)"

text \<open>
  A tree as a well-formed tarball lists it: relative paths, each once, every entry
  after the directory that holds it. \<open>seen\<close> are the directories listed so far.
\<close>

fun tree_ok :: "path list \<Rightarrow> (path \<times> node) list \<Rightarrow> bool" where
  "tree_ok seen [] = True"
| "tree_ok seen ((r, n) # es) =
     (r \<noteq> [] \<and> (butlast r = [] \<or> butlast r \<in> set seen) \<and> r \<notin> set (map fst es) \<and>
      tree_ok (if n = Dir then r # seen else seen) es)"

text \<open>The entries of a tree placed under a directory \<open>d\<close>.\<close>

definition placed :: "path \<Rightarrow> (path \<times> node) list \<Rightarrow> (path \<times> node) list" where
  "placed d es = map (\<lambda>(r, n). (d @ r, n)) es"

section \<open>path.resolve\<close>

text \<open>
  \<open>path.resolve(cwd, name)\<close> on POSIX: an absolute \<open>name\<close> restarts at the root;
  empty and \<open>.\<close> segments are dropped, \<open>..\<close> goes one level up (never above the root).
\<close>

fun split_slash :: "string \<Rightarrow> string list" where
  "split_slash [] = [[]]"
| "split_slash (c # cs) =
     (if c = CHR ''/'' then [] # split_slash cs
      else (case split_slash cs of s # ss \<Rightarrow> (c # s) # ss | [] \<Rightarrow> [[c]]))"

fun norm_segments :: "path \<Rightarrow> string list \<Rightarrow> path" where
  "norm_segments acc [] = acc"
| "norm_segments acc (s # ss) =
     (if s = [] \<or> s = ''.'' then norm_segments acc ss
      else if s = ''..'' then norm_segments (butlast acc) ss
      else norm_segments (acc @ [s]) ss)"

definition resolve_path :: "path \<Rightarrow> string \<Rightarrow> path" where
  "resolve_path cwd name =
    norm_segments (if take 1 name = ''/'' then [] else cwd) (split_slash name)"

section \<open>The world and its trace\<close>

text \<open>
  A user's answer to one prompt: text typed and submitted (an empty submission takes
  the prompt's \<open>initial\<close>), the index of a choice, a yes/no, Enter on the
  preselected value, or an abort (Ctrl-C, Esc, closed input), after which
  \<open>prompts\<close> leaves the answer \<open>undefined\<close>. An answer of the wrong kind for a
  prompt counts as an abort.
\<close>

datatype answer = Typed string | Chosen nat | Confirmed bool | Enter | Abort

datatype prompt =
    TextPrompt string string
  | SelectPrompt string "string list" nat
  | ConfirmPrompt string bool

text \<open>
  The console lines the program prints, by what they say; colours, the spinner and
  the banner's figlet art are not kept. The first five come from
  \<open>src/utils/helpers.ts\<close>, the others from \<open>src/index.ts\<close>; the last three are
  what commander prints for the argument vector: its two usage errors and the help.
\<close>

datatype message =
    MsgCancelled
  | MsgRemovedGit
  | MsgRpcFailed
  | MsgGitFailed
  | MsgDepsFailed
  | MsgBanner
  | MsgCreated
  | MsgNextSteps
  | MsgCd string
  | MsgInstallHint
  | MsgDevClient
  | MsgDevServer
  | MsgDevAll
  | MsgCreateError js_error
  | MsgUnknownOption string
  | MsgMissingArgument string
  | MsgHelp

datatype event =
    EvPrompt prompt
  | EvExec "string list"
  | EvFetch string
  | EvLog message

record world =
  files :: fsys
  cwd :: path
  answers :: "answer list"
  remote :: "string \<Rightarrow> (path \<times> node) list option"
  tools :: "string list \<Rightarrow> bool"
  trace :: "event list"

definition emit :: "event \<Rightarrow> world \<Rightarrow> world" where
  "emit e w = w\<lparr>trace := trace w @ [e]\<rparr>"

definition log_msg :: "message \<Rightarrow> world \<Rightarrow> world" where
  "log_msg m w = emit (EvLog m) w"

text \<open>Showing a prompt consumes the next answer; with none left the input is closed.\<close>

definition ask :: "prompt \<Rightarrow> world \<Rightarrow> answer \<times> world" where
  "ask p w = (case answers w of
      [] \<Rightarrow> (Abort, emit (EvPrompt p) w)
    | a # as \<Rightarrow> (a, emit (EvPrompt p) (w\<lparr>answers := as\<rparr>)))"

definition text_value :: "string \<Rightarrow> answer \<Rightarrow> string option" where
  "text_value initial a = (case a of
      Typed s \<Rightarrow> Some (if s = [] then initial else s)
    | Enter \<Rightarrow> Some initial
    | _ \<Rightarrow> None)"

definition select_value :: "string list \<Rightarrow> nat \<Rightarrow> answer \<Rightarrow> string option" where
  "select_value choices initial a = (case a of
      Chosen i \<Rightarrow> if i < length choices then Some (choices ! i) else None
    | Enter \<Rightarrow> if initial < length choices then Some (choices ! initial) else None
    | _ \<Rightarrow> None)"

definition confirm_value :: "bool \<Rightarrow> answer \<Rightarrow> bool option" where
  "confirm_value initial a = (case a of
      Confirmed b \<Rightarrow> Some b
    | Enter \<Rightarrow> Some initial
    | _ \<Rightarrow> None)"

definition prompt_text :: "string \<Rightarrow> string \<Rightarrow> world \<Rightarrow> string option \<times> world" where
  "prompt_text name initial w =
    (case ask (TextPrompt name initial) w of (a, w') \<Rightarrow> (text_value initial a, w'))"

definition prompt_select :: "string \<Rightarrow> string list \<Rightarrow> nat \<Rightarrow> world \<Rightarrow> string option \<times> world" where
  "prompt_select name choices initial w =
    (case ask (SelectPrompt name choices initial) w of (a, w') \<Rightarrow> (select_value choices initial a, w'))"

definition prompt_confirm :: "string \<Rightarrow> bool \<Rightarrow> world \<Rightarrow> bool option \<times> world" where
  "prompt_confirm name initial w =
    (case ask (ConfirmPrompt name initial) w of (a, w') \<Rightarrow> (confirm_value initial a, w'))"

text \<open>\<open>await execa(cmd, args)\<close>: \<open>True\<close> when it resolves, \<open>False\<close> when it rejects.\<close>

definition run_cmd :: "string list \<Rightarrow> world \<Rightarrow> bool \<times> world" where
  "run_cmd cmd w = (tools w cmd, emit (EvExec cmd) w)"

text \<open>File-system operations on the world, failing with the library's error.\<close>

definition w_write :: "path \<Rightarrow> content \<Rightarrow> world \<Rightarrow> (js_error + unit) \<times> world" where
  "w_write p c w = (case write_file (files w) p c of
      Inl e \<Rightarrow> (Inl e, w)
    | Inr f \<Rightarrow> (Inr (), w\<lparr>files := f\<rparr>))"

definition w_read_json :: "path \<Rightarrow> world \<Rightarrow> (js_error + json) \<times> world" where
  "w_read_json p w = (read_json (files w) p, w)"

definition w_ensure_dir :: "path \<Rightarrow> world \<Rightarrow> (js_error + unit) \<times> world" where
  "w_ensure_dir p w = (case ensure_dir (files w) p of
      Inl e \<Rightarrow> (Inl e, w)
    | Inr f \<Rightarrow> (Inr (), w\<lparr>files := f\<rparr>))"

text \<open>\<open>degit(url).clone(dest)\<close>: download, then extract.\<close>

definition w_clone :: "string \<Rightarrow> path \<Rightarrow> world \<Rightarrow> (js_error + unit) \<times> world" where
  "w_clone url d w =
    (let w1 = emit (EvFetch url) w in
     case remote w url of
       None \<Rightarrow> (Inl FetchFailed, w1)
     | Some tree \<Rightarrow> (case extract_tree (files w1) d tree of
         (r, f) \<Rightarrow> (r, w1\<lparr>files := f\<rparr>)))"

section \<open>The operations as steps of the workflow\<close>

text \<open>
  The calls of the code as steps of \<^typ>\<open>(world, 'a) act\<close>: an awaited call that
  rejects throws its error into the enclosing \<open>try\<close>.
\<close>

definition read_json_act :: "path \<Rightarrow> (world, json) act" where
  "read_json_act p = lift_err (w_read_json p)"

definition write_act :: "path \<Rightarrow> content \<Rightarrow> (world, unit) act" where
  "write_act p c = lift_err (w_write p c)"

definition ensure_dir_act :: "path \<Rightarrow> (world, unit) act" where
  "ensure_dir_act p = lift_err (w_ensure_dir p)"

definition clone_act :: "string \<Rightarrow> path \<Rightarrow> (world, unit) act" where
  "clone_act url p = lift_err (w_clone url p)"

text \<open>A pure computation that may throw, such as a property assignment.\<close>

definition pure_act :: "js_error + 'a \<Rightarrow> (world, 'a) act" where
  "pure_act r = (\<lambda>w. (case r of Inl e \<Rightarrow> Thrown e | Inr x \<Rightarrow> Done x, w))"

text \<open>\<open>await execa(cmd, args)\<close> where a rejection propagates.\<close>

definition exec_act :: "string list \<Rightarrow> (world, unit) act" where
  "exec_act cmd = (\<lambda>w. (if tools w cmd then Done () else Thrown ExecFailed, emit (EvExec cmd) w))"

definition log_act :: "message \<Rightarrow> (world, unit) act" where
  "log_act m = (\<lambda>w. (Done (), log_msg m w))"

lemma pure_act_simps [act_simps, simp]:
  "pure_act (Inr x) w = (Done x, w)" "pure_act (Inl e) w = (Thrown e, w)"
  by (simp_all add: pure_act_def)

section \<open>What the steps show the user\<close>

text \<open>The prompts of a trace, in the order they were shown.\<close>

fun prompts_of :: "event list \<Rightarrow> prompt list" where
  "prompts_of [] = []"
| "prompts_of (EvPrompt q # es) = q # prompts_of es"
| "prompts_of (_ # es) = prompts_of es"

lemma prompts_of_append [simp]: "prompts_of (xs @ ys) = prompts_of xs @ prompts_of ys"
  by (induction xs rule: prompts_of.induct) auto

definition same_prompts :: "world \<Rightarrow> world \<Rightarrow> bool" where
  "same_prompts w w' = (prompts_of (trace w') = prompts_of (trace w))"

lemma same_prompts_order [simp]: "reflp same_prompts" "transp same_prompts"
  by (auto simp: same_prompts_def reflp_def transp_def)

lemma emit_trace [simp]: "trace (emit e w) = trace w @ [e]"
  by (simp add: emit_def)

lemma emit_files [simp]: "files (emit e w) = files w"
  by (simp add: emit_def)

lemma emit_cwd [simp]: "cwd (emit e w) = cwd w"
  by (simp add: emit_def)

lemma log_msg_simps [simp]:
  "trace (log_msg m w) = trace w @ [EvLog m]" "files (log_msg m w) = files w" "cwd (log_msg m w) = cwd w"
  by (simp_all add: log_msg_def)

lemma run_cmd_simps [simp]:
  "fst (run_cmd c w) = tools w c" "trace (snd (run_cmd c w)) = trace w @ [EvExec c]"
  "files (snd (run_cmd c w)) = files w" "cwd (snd (run_cmd c w)) = cwd w"
  by (simp_all add: run_cmd_def)

text \<open>No file-system, command or logging step shows a prompt.\<close>

lemma keeps_prompts_prims [keeps_intros]:
  "act_keeps same_prompts (read_json_act p)"
  "act_keeps same_prompts (write_act p c)"
  "act_keeps same_prompts (ensure_dir_act p)"
  "act_keeps same_prompts (clone_act u p)"
  "act_keeps same_prompts (pure_act r)"
  "act_keeps same_prompts (exec_act cmd)"
  "act_keeps same_prompts (log_act m)"
  by (auto simp: act_keeps_def same_prompts_def read_json_act_def w_read_json_def write_act_def
      w_write_def ensure_dir_act_def w_ensure_dir_def clone_act_def w_clone_def pure_act_def
      exec_act_def log_act_def Let_def split: sum.splits prod.splits option.splits)

text \<open>A prompt changes only the answers left and the trace.\<close>

lemma prompt_frame:
  "prompt_text n i w = (r, w') \<Longrightarrow> files w' = files w \<and> cwd w' = cwd w"
  "prompt_select n cs j w = (r', w') \<Longrightarrow> files w' = files w \<and> cwd w' = cwd w"
  "prompt_confirm n b w = (r'', w') \<Longrightarrow> files w' = files w \<and> cwd w' = cwd w"
  by (auto simp: prompt_text_def prompt_select_def prompt_confirm_def ask_def emit_def
      split: list.splits)

lemma prompt_remote:
  "prompt_text n i w = (r, w') \<Longrightarrow> remote w' = remote w"
  "prompt_select n cs j w = (r', w') \<Longrightarrow> remote w' = remote w"
  "prompt_confirm n b w = (r'', w') \<Longrightarrow> remote w' = remote w"
  by (auto simp: prompt_text_def prompt_select_def prompt_confirm_def ask_def emit_def
      split: list.splits)

section \<open>Which errors the file-system steps raise\<close>

text \<open>
  The file-system operations and the download fail only with file-system, parse,
  type and download errors, never with the rejection of an external command.
\<close>

lemma fs_ops_not_exec_failed:
  "ensure_dir f p \<noteq> Inl ExecFailed" "write_file f p c \<noteq> Inl ExecFailed"
  "read_json f p \<noteq> Inl ExecFailed" "readdir f p \<noteq> Inl ExecFailed"
  by (auto simp: ensure_dir_def write_file_def read_json_def readdir_def
      split: option.splits node.splits content.splits)

lemma extract_tree_not_exec_failed: "extract_tree f d es \<noteq> (Inl ExecFailed, f')"
  by (induction f d es arbitrary: f' rule: extract_tree.induct)
    (auto simp: fs_ops_not_exec_failed split: sum.splits)

lemma never_exec_failed_prims:
  "act_never_throws ExecFailed (read_json_act p)"
  "act_never_throws ExecFailed (write_act p c)"
  "act_never_throws ExecFailed (ensure_dir_act p)"
  "act_never_throws ExecFailed (clone_act u p)"
  using fs_ops_not_exec_failed extract_tree_not_exec_failed
  by (auto simp: act_never_throws_def read_json_act_def w_read_json_def write_act_def
      w_write_def ensure_dir_act_def w_ensure_dir_def clone_act_def w_clone_def Let_def
      split: sum.splits prod.splits option.splits)

section \<open>Well-formedness of the file system\<close>

text \<open>
  Every file-system operation the workflow performs keeps the file system well formed:
  no path twice, the root a directory, no entry without its parent directory.
\<close>

lemma fs_lookup_update:
  "fs_lookup (AList.update k v f) q = (if q = k then Some v else fs_lookup f q)"
  by (simp add: fs_lookup_def update_conv')

lemma set_update_subset: "set (AList.update k v xs) \<subseteq> insert (k, v) (set xs)"
  by (induction xs) auto

lemma map_of_filter_fst:
  "map_of (filter (\<lambda>(q, _). P q) xs) k = (if P k then map_of xs k else None)"
  by (induction xs) auto

lemma fs_wf_entry:
  "fs_wf f \<Longrightarrow> (q, n) \<in> set f \<Longrightarrow> q \<noteq> [] \<Longrightarrow> fs_lookup f (butlast q) = Some Dir"
  by (auto simp: fs_wf_def list_all_iff)

lemma fs_wf_lookup_parent:
  "fs_wf f \<Longrightarrow> fs_lookup f q = Some n \<Longrightarrow> q \<noteq> [] \<Longrightarrow> fs_lookup f (butlast q) = Some Dir"
  using fs_wf_entry [of f q n] map_of_SomeD [of f q n] by (simp add: fs_lookup_def)

lemma butlast_neq: "p \<noteq> [] \<Longrightarrow> butlast p \<noteq> p"
  by (metis length_butlast diff_less length_greater_0_conv less_irrefl zero_less_one)

lemma write_file_Inr:
  assumes "write_file f p c = Inr f'"
  shows "p \<noteq> [] \<and> fs_lookup f (butlast p) = Some Dir \<and> fs_lookup f p \<noteq> Some Dir \<and>
    f' = AList.update p (File c) f"
proof -
  have p: "p \<noteq> []" using assms by (auto simp: write_file_def)
  consider (nd) "fs_lookup f (butlast p) = None" | (fl) c' where "fs_lookup f (butlast p) = Some (File c')"
    | (dr) "fs_lookup f (butlast p) = Some Dir"
    by (metis node.exhaust option.exhaust)
  then show ?thesis
  proof cases
    case dr
    then show ?thesis using assms p
      by (cases "fs_lookup f p") (auto simp: write_file_def split: node.splits)
  qed (use assms p in \<open>simp_all add: write_file_def\<close>)
qed

lemma fs_wf_intro:
  assumes "distinct (map fst f)" and "fs_lookup f [] = Some Dir"
    and "\<And>q n. (q, n) \<in> set f \<Longrightarrow> q \<noteq> [] \<Longrightarrow> fs_lookup f (butlast q) = Some Dir"
  shows "fs_wf f"
  using assms unfolding fs_wf_def list_all_iff by fast

lemma write_file_wf:
  assumes wf: "fs_wf f" and ok: "write_file f p c = Inr f'"
  shows "fs_wf f'"
proof -
  from write_file_Inr [OF ok] have p: "p \<noteq> []" and par: "fs_lookup f (butlast p) = Some Dir"
    and notdir: "fs_lookup f p \<noteq> Some Dir" and f': "f' = AList.update p (File c) f"
    by simp_all
  show ?thesis
  proof (rule fs_wf_intro)
    show "distinct (map fst f')" using wf f' by (simp add: fs_wf_def)
    show "fs_lookup f' [] = Some Dir" using wf f' p by (simp add: fs_wf_def fs_lookup_update)
    fix q n assume qn: "(q, n) \<in> set f'" and q: "q \<noteq> []"
    have "(q, n) \<in> insert (p, File c) (set f)"
      using set_update_subset qn unfolding f' by (rule subsetD)
    then have "(q, n) = (p, File c) \<or> (q, n) \<in> set f" by simp
    then show "fs_lookup f' (butlast q) = Some Dir"
    proof
      assume "(q, n) = (p, File c)"
      then show ?thesis using par f' butlast_neq [OF p] by (simp add: fs_lookup_update)
    next
      assume "(q, n) \<in> set f"
      with wf q have "fs_lookup f (butlast q) = Some Dir" by (simp add: fs_wf_entry)
      then show ?thesis using notdir f' by (auto simp: fs_lookup_update)
    qed
  qed
qed

lemma strict_prefix_snoc_iff: "strict_prefix r (xs @ [x]) \<longleftrightarrow> prefix r xs"
proof
  assume "prefix r xs"
  moreover then have "length r < length (xs @ [x])" using prefix_length_le by fastforce
  ultimately show "strict_prefix r (xs @ [x])" by (auto simp: strict_prefix_def)
qed (auto simp: strict_prefix_def)

lemma set_butlast_prefixes: "set (butlast (prefixes p)) = {r. strict_prefix r p}"
proof (cases p rule: rev_exhaust)
  case (snoc xs x)
  then show ?thesis by (simp add: strict_prefix_snoc_iff set_prefixes_eq)
qed simp

lemma map_of_dirs:
  "map_of (map (\<lambda>q. (q, Dir)) (filter P xs)) k = (if k \<in> set xs \<and> P k then Some Dir else None)"
  by (induction xs) auto

lemma fs_lookup_append:
  "fs_lookup (f @ g) q = (case fs_lookup f q of Some n \<Rightarrow> Some n | None \<Rightarrow> map_of g q)"
  by (simp add: fs_lookup_def map_add_def split: option.splits)

lemma strict_prefix_butlast:
  assumes "q \<noteq> []" and "prefix q p"
  shows "strict_prefix (butlast q) p"
proof -
  have "prefix (butlast q) p" using prefixeq_butlast assms(2) by (rule prefix_order.order_trans)
  moreover have "length (butlast q) < length p"
    using prefix_length_le [OF assms(2)] assms(1) by (cases q) auto
  ultimately show ?thesis by (auto simp: strict_prefix_def)
qed

lemma ensure_dir_Inr:
  assumes "ensure_dir f p = Inr f'"
  shows "\<forall>r. strict_prefix r p \<longrightarrow> \<not> is_file (fs_lookup f r)"
    and "\<not> is_file (fs_lookup f p)"
    and "f' = f @ map (\<lambda>q. (q, Dir)) (filter (\<lambda>q. fs_lookup f q = None) (prefixes p))"
  using assms by (auto simp: ensure_dir_def list_ex_iff set_butlast_prefixes split: if_splits)

lemma ensure_dir_lookup:
  assumes "ensure_dir f p = Inr f'"
  shows "fs_lookup f' q = (case fs_lookup f q of Some n \<Rightarrow> Some n | None \<Rightarrow> if prefix q p then Some Dir else None)"
  using ensure_dir_Inr(3) [OF assms] by (simp add: fs_lookup_append map_of_dirs split: option.splits)

lemma ensure_dir_wf:
  assumes wf: "fs_wf f" and ok: "ensure_dir f p = Inr f'"
  shows "fs_wf f'"
proof (rule fs_wf_intro)
  note lk = ensure_dir_lookup [OF ok]
  have new: "f' = f @ map (\<lambda>q. (q, Dir)) (filter (\<lambda>q. fs_lookup f q = None) (prefixes p))"
    by (rule ensure_dir_Inr(3) [OF ok])
  have "distinct (map fst (map (\<lambda>q. (q, Dir)) (filter (\<lambda>q. fs_lookup f q = None) (prefixes p))))"
    by (simp add: comp_def distinct_prefixes)
  moreover have "set (map fst f) \<inter> set (map fst (map (\<lambda>q. (q, Dir)) (filter (\<lambda>q. fs_lookup f q = None) (prefixes p)))) = {}"
    by (force simp: fs_lookup_def map_of_eq_None_iff)
  ultimately show "distinct (map fst f')" using wf new by (simp add: fs_wf_def)
  show "fs_lookup f' [] = Some Dir" using wf lk by (simp add: fs_wf_def)
  fix q n assume qn: "(q, n) \<in> set f'" and q: "q \<noteq> []"
  show "fs_lookup f' (butlast q) = Some Dir"
  proof (cases "(q, n) \<in> set f")
    case True
    with wf q have "fs_lookup f (butlast q) = Some Dir" by (simp add: fs_wf_entry)
    with lk show ?thesis by simp
  next
    case False
    with qn new have pq: "prefix q p" by auto
    have sp: "strict_prefix (butlast q) p" using q pq by (rule strict_prefix_butlast)
    show ?thesis
    proof (cases "fs_lookup f (butlast q)")
      case None
      with lk sp show ?thesis by (simp add: strict_prefix_def)
    next
      case (Some m)
      with ensure_dir_Inr(1) [OF ok] sp have "m = Dir" by (cases m) force+
      with Some lk show ?thesis by simp
    qed
  qed
qed

lemma fs_wf_filter:
  assumes wf: "fs_wf f" and root: "P []"
    and up: "\<And>q. q \<noteq> [] \<Longrightarrow> P q \<Longrightarrow> P (butlast q)"
  shows "fs_wf (filter (\<lambda>(q, _). P q) f)"
proof (rule fs_wf_intro)
  show "distinct (map fst (filter (\<lambda>(q, _). P q) f))"
    using wf by (simp add: fs_wf_def distinct_map_filter)
  show "fs_lookup (filter (\<lambda>(q, _). P q) f) [] = Some Dir"
    using wf root by (simp add: fs_wf_def fs_lookup_def map_of_filter_fst)
  fix q n assume qn: "(q, n) \<in> set (filter (\<lambda>(q, _). P q) f)" and q: "q \<noteq> []"
  then have "(q, n) \<in> set f" and "P q" by auto
  with wf q have "fs_lookup f (butlast q) = Some Dir" by (simp add: fs_wf_entry)
  with up [OF q \<open>P q\<close>] show "fs_lookup (filter (\<lambda>(q, _). P q) f) (butlast q) = Some Dir"
    by (simp add: fs_lookup_def map_of_filter_fst)
qed

lemma empty_dir_wf: "fs_wf f \<Longrightarrow> fs_wf (empty_dir f p)"
  unfolding empty_dir_def is_below_def
proof (rule fs_wf_filter)
  fix q :: path assume "q \<noteq> []" and nb: "\<not> strict_prefix p q"
  show "\<not> strict_prefix p (butlast q)"
  proof
    assume "strict_prefix p (butlast q)"
    then have "strict_prefix p q" using prefixeq_butlast
      by (rule prefix_order.less_le_trans)
    with nb show False by simp
  qed
qed simp_all

lemma remove_tree_wf: "fs_wf f \<Longrightarrow> p \<noteq> [] \<Longrightarrow> fs_wf (remove_tree f p)"
  unfolding remove_tree_def
proof (rule fs_wf_filter)
  fix q :: path assume "q \<noteq> []" and nb: "\<not> prefix p q"
  show "\<not> prefix p (butlast q)"
  proof
    assume "prefix p (butlast q)"
    then have "prefix p q" using prefixeq_butlast by (rule prefix_order.order_trans)
    with nb show False by simp
  qed
qed simp_all

lemma extract_tree_wf: "fs_wf f \<Longrightarrow> fs_wf (snd (extract_tree f d es))"
proof (induction f d es rule: extract_tree.induct)
  case (2 f d r es)
  then show ?case by (auto split: sum.splits intro: ensure_dir_wf)
next
  case (3 f d r c es)
  then show ?case by (auto split: sum.splits intro: write_file_wf)
qed simp

section \<open>The steps keep the file system well formed\<close>

lemma extract_tree_wf_pair: "fs_wf f \<Longrightarrow> extract_tree f d es = (r, f') \<Longrightarrow> fs_wf f'"
  using extract_tree_wf [of f d es] by simp

definition wf_kept :: "world \<Rightarrow> world \<Rightarrow> bool" where
  "wf_kept w w' = (fs_wf (files w) \<longrightarrow> fs_wf (files w'))"

lemma wf_kept_order [simp]: "reflp wf_kept" "transp wf_kept"
  by (auto simp: wf_kept_def reflp_def transp_def)

lemma wf_kept_same_files: "files w' = files w \<Longrightarrow> wf_kept w w'"
  by (simp add: wf_kept_def)

lemma keeps_wf_prims [keeps_intros]:
  "act_keeps wf_kept (read_json_act p)"
  "act_keeps wf_kept (write_act p c)"
  "act_keeps wf_kept (ensure_dir_act p)"
  "act_keeps wf_kept (clone_act u p)"
  "act_keeps wf_kept (pure_act r)"
  "act_keeps wf_kept (exec_act cmd)"
  "act_keeps wf_kept (log_act m)"
  by (auto simp: act_keeps_def wf_kept_def read_json_act_def w_read_json_def write_act_def
      w_write_def ensure_dir_act_def w_ensure_dir_def clone_act_def w_clone_def pure_act_def
      exec_act_def log_act_def Let_def
      intro: write_file_wf ensure_dir_wf extract_tree_wf_pair
      split: sum.splits prod.splits option.splits)

section \<open>Directories survive the steps\<close>

definition dir_kept :: "path \<Rightarrow> world \<Rightarrow> world \<Rightarrow> bool" where
  "dir_kept q w w' = (fs_lookup (files w) q = Some Dir \<longrightarrow> fs_lookup (files w') q = Some Dir)"

lemma dir_kept_order [simp]: "reflp (dir_kept q)" "transp (dir_kept q)"
  by (auto simp: dir_kept_def reflp_def transp_def)

lemma write_file_keeps_dir:
  "write_file f p c = Inr f' \<Longrightarrow> fs_lookup f q = Some Dir \<Longrightarrow> fs_lookup f' q = Some Dir"
  using write_file_Inr [of f p c f'] by (auto simp: fs_lookup_update)

lemma ensure_dir_keeps_dir:
  "ensure_dir f p = Inr f' \<Longrightarrow> fs_lookup f q = Some Dir \<Longrightarrow> fs_lookup f' q = Some Dir"
  by (simp add: ensure_dir_lookup)

lemma ensure_dir_makes_dir: "ensure_dir f p = Inr f' \<Longrightarrow> fs_lookup f' p = Some Dir"
  using ensure_dir_Inr(2) [of f p f'] ensure_dir_lookup [of f p f' p]
  by (cases "fs_lookup f p" rule: option.exhaust; cases "the (fs_lookup f p)") auto

lemma extract_tree_keeps_dir:
  "extract_tree f d es = (r, f') \<Longrightarrow> fs_lookup f q = Some Dir \<Longrightarrow> fs_lookup f' q = Some Dir"
proof (induction f d es arbitrary: r f' rule: extract_tree.induct)
  case (2 f d r' es)
  then show ?case by (auto split: sum.splits dest: ensure_dir_keeps_dir)
next
  case (3 f d r' c es)
  then show ?case by (auto split: sum.splits dest: write_file_keeps_dir)
qed simp

lemma keeps_dir_prims [keeps_intros]:
  "act_keeps (dir_kept q) (read_json_act p)"
  "act_keeps (dir_kept q) (write_act p c)"
  "act_keeps (dir_kept q) (ensure_dir_act p)"
  "act_keeps (dir_kept q) (clone_act u p)"
  "act_keeps (dir_kept q) (pure_act r)"
  "act_keeps (dir_kept q) (exec_act cmd)"
  "act_keeps (dir_kept q) (log_act m)"
  by (auto simp: act_keeps_def dir_kept_def read_json_act_def w_read_json_def write_act_def
      w_write_def ensure_dir_act_def w_ensure_dir_def clone_act_def w_clone_def pure_act_def
      exec_act_def log_act_def Let_def
      intro: write_file_keeps_dir ensure_dir_keeps_dir extract_tree_keeps_dir
      split: sum.splits prod.splits option.splits)

section \<open>Entries the steps do not touch\<close>

definition same_at :: "path \<Rightarrow> world \<Rightarrow> world \<Rightarrow> bool" where
  "same_at q w w' = (fs_lookup (files w') q = fs_lookup (files w) q)"

lemma same_at_order [simp]: "reflp (same_at q)" "transp (same_at q)"
  by (auto simp: same_at_def reflp_def transp_def)

lemma write_file_lookup:
  "write_file f p c = Inr f' \<Longrightarrow> fs_lookup f' q = (if q = p then Some (File c) else fs_lookup f q)"
  using write_file_Inr [of f p c f'] by (simp add: fs_lookup_update)

lemma read_json_Inr: "read_json f p = Inr v \<Longrightarrow> fs_lookup f p = Some (File (JsonDoc v))"
  by (auto simp: read_json_def split: option.splits node.splits content.splits)

lemma keeps_same_at_prims [keeps_intros]:
  "act_keeps (same_at q) (read_json_act p)"
  "act_keeps (same_at q) (pure_act r)"
  "act_keeps (same_at q) (exec_act cmd)"
  "act_keeps (same_at q) (log_act m)"
  by (auto simp: act_keeps_def same_at_def read_json_act_def w_read_json_def pure_act_def
      exec_act_def log_act_def split: sum.splits)

lemma write_act_same_at:
  "p \<noteq> q \<Longrightarrow> act_keeps (same_at q) (write_act p c)"
  by (auto simp: act_keeps_def same_at_def write_act_def w_write_def write_file_lookup split: sum.splits)

text \<open>Writing back the content a file already has changes nothing.\<close>

lemma write_same_content:
  "fs_lookup (files w) p = Some (File c) \<Longrightarrow> same_at p w (snd (write_act p c w))"
  by (auto simp: same_at_def write_act_def w_write_def write_file_lookup split: sum.splits)

section \<open>When a write succeeds\<close>

lemma write_act_Done:
  assumes "q \<noteq> []" "fs_lookup (files w) (butlast q) = Some Dir" "fs_lookup (files w) q \<noteq> Some Dir"
  shows "write_act q c w = (Done (), w\<lparr>files := AList.update q (File c) (files w)\<rparr>)"
  using assms by (cases "fs_lookup (files w) q")
    (auto simp: write_act_def w_write_def write_file_def split: node.splits)

lemma write_act_Done_at:
  "write_act q c w = (Done x, w') \<Longrightarrow>
   fs_lookup (files w') r = (if r = q then Some (File c) else fs_lookup (files w) r)"
  by (auto simp: write_act_def w_write_def write_file_lookup split: sum.splits)

section \<open>Extracting a downloaded tree into a fresh directory\<close>

lemma fs_wf_prefix_dir:
  assumes wf: "fs_wf f"
  shows "fs_lookup f q \<noteq> None \<Longrightarrow> strict_prefix q' q \<Longrightarrow> fs_lookup f q' = Some Dir"
proof (induction q rule: rev_induct)
  case Nil
  then show ?case by simp
next
  case (snoc x q)
  then obtain n where "fs_lookup f (q @ [x]) = Some n" by blast
  then have qd: "fs_lookup f q = Some Dir"
    using fs_wf_lookup_parent [OF wf, of "q @ [x]" n] by simp
  from snoc.prems(2) have "q' = q \<or> strict_prefix q' q"
    by (metis prefix_order.dual_order.strict_implies_order prefix_snoc strict_prefix_def)
  then show ?case using qd snoc.IH by auto
qed

lemma ensure_dir_fresh:
  assumes wf: "fs_wf f" and par: "fs_lookup f (butlast q) = Some Dir" and q: "q \<noteq> []"
    and new: "fs_lookup f q = None"
  shows "\<exists>f'. ensure_dir f q = Inr f' \<and> (\<forall>x. fs_lookup f' x = (if x = q then Some Dir else fs_lookup f x))"
proof -
  obtain b where qb: "q = butlast q @ [b]" using q by (metis append_butlast_last_id)
  have dirs: "fs_lookup f x = Some Dir" if "x \<in> set (prefixes (butlast q))" for x
  proof (cases "x = butlast q")
    case False
    with that have "strict_prefix x (butlast q)" by (simp add: strict_prefix_def)
    then show ?thesis using fs_wf_prefix_dir [OF wf, of "butlast q" x] par by simp
  qed (use par in simp)
  have pq: "prefixes q = prefixes (butlast q) @ [q]" by (subst qb, simp only: prefixes_snoc, simp add: qb [symmetric])
  have nf: "\<not> list_ex (\<lambda>x. is_file (fs_lookup f x)) (butlast (prefixes q))"
    using dirs by (simp add: pq list_ex_iff)
  let ?f' = "f @ map (\<lambda>x. (x, Dir)) (filter (\<lambda>x. fs_lookup f x = None) (prefixes q))"
  have "ensure_dir f q = Inr ?f'" using nf new by (simp add: ensure_dir_def)
  moreover have "fs_lookup ?f' x = (if x = q then Some Dir else fs_lookup f x)" for x
    using dirs new by (auto simp: fs_lookup_append map_of_dirs pq split: option.splits)
  ultimately show ?thesis by blast
qed

lemma write_file_fresh:
  assumes par: "fs_lookup f (butlast q) = Some Dir" and q: "q \<noteq> []" and nd: "fs_lookup f q \<noteq> Some Dir"
  shows "write_file f q c = Inr (AList.update q (File c) f)"
  using assms by (cases "fs_lookup f q") (auto simp: write_file_def split: node.splits)

lemma map_of_placed_Cons:
  "map_of (placed d ((r, n) # es)) x = (if x = d @ r then Some n else map_of (placed d es) x)"
  by (simp add: placed_def)

lemma map_of_placed_notin:
  "r \<notin> set (map fst es) \<Longrightarrow> map_of (placed d es) (d @ r) = None"
  by (induction es) (auto simp: placed_def)

lemma extract_tree_ok:
  assumes "fs_wf f" and "fs_lookup f d = Some Dir"
    and "\<forall>r\<in>set seen. fs_lookup f (d @ r) = Some Dir"
    and "\<forall>r\<in>set (map fst es). fs_lookup f (d @ r) = None"
    and "tree_ok seen es"
  shows "\<exists>f'. extract_tree f d es = (Inr (), f') \<and>
     (\<forall>x. fs_lookup f' x = (case map_of (placed d es) x of Some n \<Rightarrow> Some n | None \<Rightarrow> fs_lookup f x))"
  using assms
proof (induction es arbitrary: f seen)
  case Nil
  then show ?case by (simp add: placed_def)
next
  case (Cons e es)
  obtain r n where e: "e = (r, n)" by (cases e)
  from Cons.prems e have r: "r \<noteq> []" and nin: "r \<notin> set (map fst es)"
    and ok: "tree_ok (if n = Dir then r # seen else seen) es" and new: "fs_lookup f (d @ r) = None"
    by auto
  have par: "fs_lookup f (butlast (d @ r)) = Some Dir"
    using Cons.prems e r by (auto simp: butlast_append)
  have dr: "d @ r \<noteq> []" using r by simp
  obtain f1 where step: "(if n = Dir then ensure_dir f (d @ r) else write_file f (d @ r) (case n of File c \<Rightarrow> c)) = Inr f1"
    and lk: "\<forall>x. fs_lookup f1 x = (if x = d @ r then Some n else fs_lookup f x)"
  proof (cases n)
    case Dir
    then show ?thesis using ensure_dir_fresh [OF Cons.prems(1) par dr new] that by auto
  next
    case (File c)
    then show ?thesis using write_file_fresh [OF par dr, of c] new that by (auto simp: fs_lookup_update)
  qed
  have wf1: "fs_wf f1"
    using step Cons.prems(1) by (auto intro: ensure_dir_wf write_file_wf split: if_splits)
  have "\<exists>f'. extract_tree f1 d es = (Inr (), f') \<and>
     (\<forall>x. fs_lookup f' x = (case map_of (placed d es) x of Some n \<Rightarrow> Some n | None \<Rightarrow> fs_lookup f1 x))"
  proof (rule Cons.IH [OF wf1 _ _ _ ok])
    show "fs_lookup f1 d = Some Dir" using lk Cons.prems(2) r by simp
    show "\<forall>r'\<in>set (if n = Dir then r # seen else seen). fs_lookup f1 (d @ r') = Some Dir"
      using lk Cons.prems(3) new by auto
    show "\<forall>r'\<in>set (map fst es). fs_lookup f1 (d @ r') = None"
      using lk Cons.prems(4) e nin by auto
  qed
  then obtain f' where ex: "extract_tree f1 d es = (Inr (), f')"
    and lk': "\<forall>x. fs_lookup f' x = (case map_of (placed d es) x of Some n \<Rightarrow> Some n | None \<Rightarrow> fs_lookup f1 x)"
    by blast
  have "extract_tree f d (e # es) = (Inr (), f')"
    using step ex e by (cases n) (simp_all split: if_splits)
  moreover have "\<forall>x. fs_lookup f' x =
      (case map_of (placed d (e # es)) x of Some n \<Rightarrow> Some n | None \<Rightarrow> fs_lookup f x)"
    using lk lk' map_of_placed_notin [OF nin, of d] by (auto simp: e map_of_placed_Cons split: option.splits)
  ultimately show ?case by blast
qed

end
