(* ===== verification/RpcPatch.thy ===== *)
theory RpcPatch
  imports Runtime
begin

text \<open>
  \<open>patchFilesForRPC(projectPath, templateChoice)\<close> of \<open>src/utils/helpers.ts\<close>
  (lines 43--113): five file updates in sequence inside one \<open>try\<close>; any error ends the
  sequence, is reported, and turns into the result \<open>false\<close>. Files written before the
  error stay written. The steps are \<open>rpc_steps\<close>; \<open>patchFilesForRPC\<close> adds the
  \<open>catch\<close>.
\<close>

definition client_pkg_path :: "path \<Rightarrow> path" where
  "client_pkg_path p = p @ [''client'', ''package.json'']"

definition server_pkg_path :: "path \<Rightarrow> path" where
  "server_pkg_path p = p @ [''server'', ''package.json'']"

definition server_index_path :: "path \<Rightarrow> path" where
  "server_index_path p = p @ [''server'', ''src'', ''index.ts'']"

definition server_client_path :: "path \<Rightarrow> path" where
  "server_client_path p = p @ [''server'', ''src'', ''client.ts'']"

definition app_tsx_path :: "path \<Rightarrow> path" where
  "app_tsx_path p = p @ [''client'', ''src'', ''App.tsx'']"

definition rpc_dev_script :: string where
  "rpc_dev_script = ''bun --watch run src/index.ts && tsc --watch''"

text \<open>
  Step 1 (lines 50--58) reads the client manifest, runs \<open>bun install hono\<close> in the
  project root when \<open>clientPkg.dependencies.hono\<close> is falsy, and writes back the
  value it read.
\<close>

definition rpc_client_pkg_step :: "path \<Rightarrow> (world, unit) act" where
  "rpc_client_pkg_step p =
    bind_act (read_json_act (client_pkg_path p)) (\<lambda>clientPkg.
    bind_act (pure_act (prop_get2 clientPkg ''dependencies'' ''hono'')) (\<lambda>hono.
    bind_act (if js_truthy hono then return_act () else exec_act [''bun'', ''install'', ''hono'']) (\<lambda>_.
    write_act (client_pkg_path p) (JsonDoc clientPkg))))"

text \<open>Step 2 (lines 60--67) sets \<open>serverPkg.scripts.dev\<close> and writes the manifest.\<close>

definition rpc_server_pkg_step :: "path \<Rightarrow> (world, unit) act" where
  "rpc_server_pkg_step p =
    bind_act (read_json_act (server_pkg_path p)) (\<lambda>serverPkg.
    bind_act (pure_act (prop_set2 serverPkg ''scripts'' ''dev'' (JStr rpc_dev_script))) (\<lambda>serverPkg'.
    write_act (server_pkg_path p) (JsonDoc serverPkg')))"

text \<open>Steps 3 to 5 (lines 69--101) write the fixed texts.\<close>

definition rpc_steps :: "path \<Rightarrow> string \<Rightarrow> (world, unit) act" where
  "rpc_steps p choice =
    bind_act (rpc_client_pkg_step p) (\<lambda>_.
    bind_act (rpc_server_pkg_step p) (\<lambda>_.
    bind_act (write_act (server_index_path p) (TextDoc honoRpcTemplate)) (\<lambda>_.
    bind_act (write_act (server_client_path p) (TextDoc honoClientTemplate)) (\<lambda>_.
    write_act (app_tsx_path p) (TextDoc (app_template choice))))))"

definition patchFilesForRPC :: "path \<Rightarrow> string \<Rightarrow> world \<Rightarrow> bool \<times> world" where
  "patchFilesForRPC p choice w =
    (case rpc_steps p choice w of
      (Done _, w') \<Rightarrow> (True, w')
    | (_, w') \<Rightarrow> (False, log_msg MsgRpcFailed w'))"

section \<open>Properties\<close>

lemma rpc_steps_keeps [keeps_intros]:
  assumes "reflp R" "transp R"
    and "\<And>p. act_keeps R (read_json_act p)" "\<And>p c. act_keeps R (write_act p c)"
    and "\<And>r :: js_error + json option. act_keeps R (pure_act r)"
    and "\<And>r :: js_error + json. act_keeps R (pure_act r)"
    and "\<And>cmd. act_keeps R (exec_act cmd)"
  shows "act_keeps R (rpc_steps p choice)"
  unfolding rpc_steps_def rpc_client_pkg_step_def rpc_server_pkg_step_def by (intro keeps_intros assms)

lemma patch_same_prompts: "same_prompts w (snd (patchFilesForRPC p choice w))"
proof -
  have "same_prompts w (snd (rpc_steps p choice w))"
    by (rule act_keepsD, rule rpc_steps_keeps) (simp_all add: keeps_prompts_prims)
  then show ?thesis
    by (auto simp: patchFilesForRPC_def same_prompts_def split: prod.splits outcome.splits)
qed

lemma patch_wf_kept: "wf_kept w (snd (patchFilesForRPC p choice w))"
proof -
  have "wf_kept w (snd (rpc_steps p choice w))"
    by (rule act_keepsD, rule rpc_steps_keeps) (simp_all add: keeps_wf_prims)
  then show ?thesis
    by (auto simp: patchFilesForRPC_def wf_kept_def split: prod.splits outcome.splits)
qed

lemma patch_dir_kept: "dir_kept q w (snd (patchFilesForRPC p choice w))"
proof -
  have "dir_kept q w (snd (rpc_steps p choice w))"
    by (rule act_keepsD, rule rpc_steps_keeps) (simp_all add: keeps_dir_prims)
  then show ?thesis
    by (auto simp: patchFilesForRPC_def dir_kept_def split: prod.splits outcome.splits)
qed

lemma rpc_paths_distinct:
  "client_pkg_path p \<noteq> server_pkg_path p" "client_pkg_path p \<noteq> server_index_path p"
  "client_pkg_path p \<noteq> server_client_path p" "client_pkg_path p \<noteq> app_tsx_path p"
  "server_pkg_path p \<noteq> server_index_path p" "server_pkg_path p \<noteq> server_client_path p"
  "server_pkg_path p \<noteq> app_tsx_path p" "server_index_path p \<noteq> server_client_path p"
  "server_index_path p \<noteq> app_tsx_path p" "server_client_path p \<noteq> app_tsx_path p"
  by (simp_all add: client_pkg_path_def server_pkg_path_def server_index_path_def
      server_client_path_def app_tsx_path_def)

text \<open>A patch that reports success leaves the three fixed texts it wrote last.\<close>

lemma patch_true_texts:
  assumes "fst (patchFilesForRPC p choice w)"
  shows "fs_lookup (files (snd (patchFilesForRPC p choice w))) (server_index_path p) = Some (File (TextDoc honoRpcTemplate))
    \<and> fs_lookup (files (snd (patchFilesForRPC p choice w))) (server_client_path p) = Some (File (TextDoc honoClientTemplate))
    \<and> fs_lookup (files (snd (patchFilesForRPC p choice w))) (app_tsx_path p) = Some (File (TextDoc (app_template choice)))"
proof -
  obtain w' where rs: "rpc_steps p choice w = (Done (), w')" and st: "snd (patchFilesForRPC p choice w) = w'"
    using assms by (cases "rpc_steps p choice w") (auto simp: patchFilesForRPC_def split: outcome.splits)
  obtain s2 s3 s4 where
    w3: "write_act (server_index_path p) (TextDoc honoRpcTemplate) s2 = (Done (), s3)" and
    w4: "write_act (server_client_path p) (TextDoc honoClientTemplate) s3 = (Done (), s4)" and
    w5: "write_act (app_tsx_path p) (TextDoc (app_template choice)) s4 = (Done (), w')"
    using rs by (auto simp: rpc_steps_def bind_act_def split: prod.splits outcome.splits)
  show ?thesis
    using write_act_Done_at [OF w3] write_act_Done_at [OF w4] write_act_Done_at [OF w5] st
    by (simp add: rpc_paths_distinct rpc_paths_distinct [THEN not_sym])
qed

lemma client_pkg_step_same_at: "act_keeps (same_at (client_pkg_path p)) (rpc_client_pkg_step p)"
proof (rule act_keepsI)
  fix w
  let ?q = "client_pkg_path p"
  show "same_at ?q w (snd (rpc_client_pkg_step p w))"
  proof (cases "read_json (files w) ?q")
    case (Inl e)
    then show ?thesis
      by (simp add: rpc_client_pkg_step_def bind_act_def read_json_act_def w_read_json_def same_at_def)
  next
    case (Inr v)
    then have lk: "fs_lookup (files w) ?q = Some (File (JsonDoc v))" by (rule read_json_Inr)
    let ?pre = "bind_act (pure_act (prop_get2 v ''dependencies'' ''hono'')) (\<lambda>hono.
        if js_truthy hono then return_act () else exec_act [''bun'', ''install'', ''hono''])"
    have rd: "read_json_act ?q w = (Done v, w)"
      using Inr by (simp add: read_json_act_def w_read_json_def)
    have eq: "rpc_client_pkg_step p w = bind_act ?pre (\<lambda>_. write_act ?q (JsonDoc v)) w"
      unfolding rpc_client_pkg_step_def bind_act_Done [where m = "read_json_act ?q", OF rd]
      by (simp only: bind_act_assoc)
    obtain r w1 where pre: "?pre w = (r, w1)" by (cases "?pre w")
    have files1: "files w1 = files w"
      using pre by (auto simp: bind_act_def pure_act_def exec_act_def split: sum.splits if_splits)
    show ?thesis
    proof (cases r)
      case Done
      with eq pre have "rpc_client_pkg_step p w = write_act ?q (JsonDoc v) w1"
        by (simp add: bind_act_def)
      moreover have "same_at ?q w1 (snd (write_act ?q (JsonDoc v) w1))"
        using lk files1 by (intro write_same_content) simp
      ultimately show ?thesis using files1 by (simp add: same_at_def)
    qed (use eq pre files1 in \<open>simp_all add: bind_act_def same_at_def\<close>)
  qed
qed

lemma client_pkg_step_Done:
  assumes "fs_wf (files w)" "fs_lookup (files w) (client_pkg_path p) = Some (File (JsonDoc cpkg))"
    "prop_get2 cpkg ''dependencies'' ''hono'' = Inr h" "js_truthy h \<or> tools w [''bun'', ''install'', ''hono'']"
  shows "fst (rpc_client_pkg_step p w) = Done () \<and> files (snd (rpc_client_pkg_step p w)) = files w"
proof -
  let ?q = "client_pkg_path p"
  have par: "fs_lookup (files w) (butlast ?q) = Some Dir"
    using fs_wf_lookup_parent [OF assms(1,2)] by (simp add: client_pkg_path_def)
  let ?w1 = "if js_truthy h then w else emit (EvExec [''bun'', ''install'', ''hono'']) w"
  let ?pre = "bind_act (pure_act (prop_get2 cpkg ''dependencies'' ''hono'')) (\<lambda>hono.
        if js_truthy hono then return_act () else exec_act [''bun'', ''install'', ''hono''])"
  have pre: "?pre w = (Done (), ?w1)"
    using assms(3,4) by (auto simp: bind_act_def exec_act_def)
  have f1: "files ?w1 = files w" by simp
  have rd: "read_json_act ?q w = (Done cpkg, w)"
    using assms(2) by (simp add: read_json_act_def w_read_json_def read_json_def)
  have "rpc_client_pkg_step p w = write_act ?q (JsonDoc cpkg) ?w1"
    unfolding rpc_client_pkg_step_def bind_act_Done [where m = "read_json_act ?q", OF rd]
    by (simp only: bind_act_assoc [symmetric] bind_act_Done [where m = ?pre, OF pre])
  moreover have "write_act ?q (JsonDoc cpkg) ?w1 = (Done (), ?w1)"
    using write_act_Done [of ?q ?w1 "JsonDoc cpkg"] par assms(2) f1
      update_same_value [of "files w" ?q "File (JsonDoc cpkg)"]
    by (simp add: client_pkg_path_def fs_lookup_def)
  ultimately show ?thesis using f1 by simp
qed

lemma server_pkg_step_Done:
  assumes "fs_wf (files w)" "fs_lookup (files w) (server_pkg_path p) = Some (File (JsonDoc spkg))"
    "prop_set2 spkg ''scripts'' ''dev'' (JStr rpc_dev_script) = Inr spkg'"
  shows "rpc_server_pkg_step p w =
    (Done (), w\<lparr>files := AList.update (server_pkg_path p) (File (JsonDoc spkg')) (files w)\<rparr>)"
proof -
  have par: "fs_lookup (files w) (butlast (server_pkg_path p)) = Some Dir"
    using fs_wf_lookup_parent [OF assms(1,2)] by (simp add: server_pkg_path_def)
  have rd: "read_json_act (server_pkg_path p) w = (Done spkg, w)"
    using assms(2) by (simp add: read_json_act_def w_read_json_def read_json_def)
  show ?thesis
    using write_act_Done [of "server_pkg_path p" w "JsonDoc spkg'"] par assms(2,3)
    by (simp add: rpc_server_pkg_step_def bind_act_Done [where m = "read_json_act (server_pkg_path p)", OF rd])
      (simp add: server_pkg_path_def bind_act_def)
qed

text \<open>
  C9. When both manifests are JSON files, the server manifest has a \<open>scripts\<close>
  object, the two \<open>src\<close> directories exist, no target is a directory, and
  \<open>bun install hono\<close> is either not needed or succeeds, the patch reports success and
  leaves the server manifest with the new \<open>dev\<close> script, the two Hono RPC sources in
  \<open>server/src\<close> and the \<open>App.tsx\<close> variant of the chosen template.
\<close>

theorem patch_success:
  assumes wf: "fs_wf (files w)"
    and cl: "fs_lookup (files w) (client_pkg_path p) = Some (File (JsonDoc cpkg))"
    and hono: "prop_get2 cpkg ''dependencies'' ''hono'' = Inr h"
      "js_truthy h \<or> tools w [''bun'', ''install'', ''hono'']"
    and sv: "fs_lookup (files w) (server_pkg_path p) = Some (File (JsonDoc spkg))"
    and dev: "prop_set2 spkg ''scripts'' ''dev'' (JStr rpc_dev_script) = Inr spkg'"
    and srv_src: "fs_lookup (files w) (p @ [''server'', ''src'']) = Some Dir"
    and cl_src: "fs_lookup (files w) (p @ [''client'', ''src'']) = Some Dir"
    and nd: "fs_lookup (files w) (server_index_path p) \<noteq> Some Dir"
      "fs_lookup (files w) (server_client_path p) \<noteq> Some Dir"
      "fs_lookup (files w) (app_tsx_path p) \<noteq> Some Dir"
  shows "fst (patchFilesForRPC p choice w)
    \<and> fs_lookup (files (snd (patchFilesForRPC p choice w))) (server_pkg_path p) = Some (File (JsonDoc spkg'))
    \<and> fs_lookup (files (snd (patchFilesForRPC p choice w))) (server_index_path p) = Some (File (TextDoc honoRpcTemplate))
    \<and> fs_lookup (files (snd (patchFilesForRPC p choice w))) (server_client_path p) = Some (File (TextDoc honoClientTemplate))
    \<and> fs_lookup (files (snd (patchFilesForRPC p choice w))) (app_tsx_path p) = Some (File (TextDoc (app_template choice)))"
proof -
  define w1 where "w1 = snd (rpc_client_pkg_step p w)"
  have c1: "rpc_client_pkg_step p w = (Done (), w1)" and f1: "files w1 = files w"
    using client_pkg_step_Done [OF wf cl hono] unfolding w1_def by (metis prod.collapse)+
  define w2 where "w2 = w1\<lparr>files := AList.update (server_pkg_path p) (File (JsonDoc spkg')) (files w1)\<rparr>"
  have c2: "rpc_server_pkg_step p w1 = (Done (), w2)"
    unfolding w2_def by (rule server_pkg_step_Done) (use wf sv dev f1 in simp_all)
  define w3 where "w3 = w2\<lparr>files := AList.update (server_index_path p) (File (TextDoc honoRpcTemplate)) (files w2)\<rparr>"
  have c3: "write_act (server_index_path p) (TextDoc honoRpcTemplate) w2 = (Done (), w3)"
    unfolding w3_def using srv_src nd(1) f1
    by (intro write_act_Done) (simp_all add: butlast_append w2_def fs_lookup_update server_index_path_def server_pkg_path_def)
  define w4 where "w4 = w3\<lparr>files := AList.update (server_client_path p) (File (TextDoc honoClientTemplate)) (files w3)\<rparr>"
  have c4: "write_act (server_client_path p) (TextDoc honoClientTemplate) w3 = (Done (), w4)"
    unfolding w4_def using srv_src nd(2) f1
    by (intro write_act_Done) (simp_all add: butlast_append w2_def w3_def fs_lookup_update server_index_path_def
        server_client_path_def server_pkg_path_def)
  define w5 where "w5 = w4\<lparr>files := AList.update (app_tsx_path p) (File (TextDoc (app_template choice))) (files w4)\<rparr>"
  have c5: "write_act (app_tsx_path p) (TextDoc (app_template choice)) w4 = (Done (), w5)"
    unfolding w5_def using cl_src nd(3) f1
    by (intro write_act_Done) (simp_all add: butlast_append w2_def w3_def w4_def fs_lookup_update server_index_path_def
        server_client_path_def server_pkg_path_def app_tsx_path_def)
  have "rpc_steps p choice w = (Done (), w5)"
    by (simp add: rpc_steps_def bind_act_def c1 c2 c3 c4 c5)
  then show ?thesis
    by (simp add: patchFilesForRPC_def w5_def w4_def w3_def w2_def fs_lookup_update
        rpc_paths_distinct rpc_paths_distinct [THEN not_sym])
qed

theorem patch_success_witness:
  "fst (patchFilesForRPC [''app''] ''tailwind'' \<lparr>files = [([], Dir), ([''app''], Dir), ([''app'', ''client''], Dir),
        ([''app'', ''client'', ''package.json''], File (JsonDoc (JObj [(''dependencies'', JObj [(''hono'', JStr ''^4'')])]))),
        ([''app'', ''client'', ''src''], Dir), ([''app'', ''server''], Dir),
        ([''app'', ''server'', ''package.json''], File (JsonDoc (JObj [(''scripts'', JObj [(''dev'', JStr ''bun run'')])]))),
        ([''app'', ''server'', ''src''], Dir)],
      cwd = [], answers = [], remote = (\<lambda>_. None), tools = (\<lambda>_. False), trace = []\<rparr>)
   \<and> fs_lookup (files (snd (patchFilesForRPC [''app''] ''tailwind'' \<lparr>files = [([], Dir), ([''app''], Dir), ([''app'', ''client''], Dir),
        ([''app'', ''client'', ''package.json''], File (JsonDoc (JObj [(''dependencies'', JObj [(''hono'', JStr ''^4'')])]))),
        ([''app'', ''client'', ''src''], Dir), ([''app'', ''server''], Dir),
        ([''app'', ''server'', ''package.json''], File (JsonDoc (JObj [(''scripts'', JObj [(''dev'', JStr ''bun run'')])]))),
        ([''app'', ''server'', ''src''], Dir)],
      cwd = [], answers = [], remote = (\<lambda>_. None), tools = (\<lambda>_. False), trace = []\<rparr>))) (server_pkg_path [''app'']) =
       Some (File (JsonDoc (JObj [(''scripts'', JObj [(''dev'', JStr rpc_dev_script)])])))
   \<and> fs_lookup (files (snd (patchFilesForRPC [''app''] ''tailwind'' \<lparr>files = [([], Dir), ([''app''], Dir), ([''app'', ''client''], Dir),
        ([''app'', ''client'', ''package.json''], File (JsonDoc (JObj [(''dependencies'', JObj [(''hono'', JStr ''^4'')])]))),
        ([''app'', ''client'', ''src''], Dir), ([''app'', ''server''], Dir),
        ([''app'', ''server'', ''package.json''], File (JsonDoc (JObj [(''scripts'', JObj [(''dev'', JStr ''bun run'')])]))),
        ([''app'', ''server'', ''src''], Dir)],
      cwd = [], answers = [], remote = (\<lambda>_. None), tools = (\<lambda>_. False), trace = []\<rparr>))) (server_index_path [''app'']) =
       Some (File (TextDoc honoRpcTemplate))
   \<and> fs_lookup (files (snd (patchFilesForRPC [''app''] ''tailwind'' \<lparr>files = [([], Dir), ([''app''], Dir), ([''app'', ''client''], Dir),
        ([''app'', ''client'', ''package.json''], File (JsonDoc (JObj [(''dependencies'', JObj [(''hono'', JStr ''^4'')])]))),
        ([''app'', ''client'', ''src''], Dir), ([''app'', ''server''], Dir),
        ([''app'', ''server'', ''package.json''], File (JsonDoc (JObj [(''scripts'', JObj [(''dev'', JStr ''bun run'')])]))),
        ([''app'', ''server'', ''src''], Dir)],
      cwd = [], answers = [], remote = (\<lambda>_. None), tools = (\<lambda>_. False), trace = []\<rparr>))) (server_client_path [''app'']) =
       Some (File (TextDoc honoClientTemplate))
   \<and> fs_lookup (files (snd (patchFilesForRPC [''app''] ''tailwind'' \<lparr>files = [([], Dir), ([''app''], Dir), ([''app'', ''client''], Dir),
        ([''app'', ''client'', ''package.json''], File (JsonDoc (JObj [(''dependencies'', JObj [(''hono'', JStr ''^4'')])]))),
        ([''app'', ''client'', ''src''], Dir), ([''app'', ''server''], Dir),
        ([''app'', ''server'', ''package.json''], File (JsonDoc (JObj [(''scripts'', JObj [(''dev'', JStr ''bun run'')])]))),
        ([''app'', ''server'', ''src''], Dir)],
      cwd = [], answers = [], remote = (\<lambda>_. None), tools = (\<lambda>_. False), trace = []\<rparr>))) (app_tsx_path [''app'']) =
       Some (File (TextDoc tailwindTemplate))"
proof -
  let ?w = "\<lparr>files = [([], Dir), ([''app''], Dir), ([''app'', ''client''], Dir),
        ([''app'', ''client'', ''package.json''], File (JsonDoc (JObj [(''dependencies'', JObj [(''hono'', JStr ''^4'')])]))),
        ([''app'', ''client'', ''src''], Dir), ([''app'', ''server''], Dir),
        ([''app'', ''server'', ''package.json''], File (JsonDoc (JObj [(''scripts'', JObj [(''dev'', JStr ''bun run'')])]))),
        ([''app'', ''server'', ''src''], Dir)],
      cwd = [], answers = [], remote = (\<lambda>_. None), tools = (\<lambda>_. False), trace = []\<rparr>"
  have h: "fs_wf (files ?w)"
    "fs_lookup (files ?w) (client_pkg_path [''app'']) =
       Some (File (JsonDoc (JObj [(''dependencies'', JObj [(''hono'', JStr ''^4'')])])))"
    "prop_get2 (JObj [(''dependencies'', JObj [(''hono'', JStr ''^4'')])]) ''dependencies'' ''hono'' =
       Inr (Some (JStr ''^4''))"
    "js_truthy (Some (JStr ''^4'')) \<or> tools ?w [''bun'', ''install'', ''hono'']"
    "fs_lookup (files ?w) (server_pkg_path [''app'']) =
       Some (File (JsonDoc (JObj [(''scripts'', JObj [(''dev'', JStr ''bun run'')])])))"
    "prop_set2 (JObj [(''scripts'', JObj [(''dev'', JStr ''bun run'')])]) ''scripts'' ''dev'' (JStr rpc_dev_script) =
       Inr (JObj [(''scripts'', JObj [(''dev'', JStr rpc_dev_script)])])"
    "fs_lookup (files ?w) ([''app''] @ [''server'', ''src'']) = Some Dir"
    "fs_lookup (files ?w) ([''app''] @ [''client'', ''src'']) = Some Dir"
    "fs_lookup (files ?w) (server_index_path [''app'']) \<noteq> Some Dir"
    "fs_lookup (files ?w) (server_client_path [''app'']) \<noteq> Some Dir"
    "fs_lookup (files ?w) (app_tsx_path [''app'']) \<noteq> Some Dir"
    by (simp_all add: fs_wf_def fs_lookup_def client_pkg_path_def server_pkg_path_def
        server_index_path_def server_client_path_def app_tsx_path_def prop_get2_def prop_set2_def)
  show ?thesis using patch_success [where choice = "''tailwind''", OF h] by (simp add: app_template_def)
qed

text \<open>
  C10. \<open>patchFilesForRPC\<close> never changes the client manifest
  \<open>client/package.json\<close>: it writes back exactly the value it read, so a
  \<open>hono\<close> dependency is never added there by the code, whatever the outcome.
\<close>

theorem patch_client_manifest_unchanged:
  "fs_lookup (files (snd (patchFilesForRPC p choice w))) (client_pkg_path p) =
   fs_lookup (files w) (client_pkg_path p)"
proof -
  have "act_keeps (same_at (client_pkg_path p)) (rpc_steps p choice)"
    unfolding rpc_steps_def rpc_server_pkg_step_def
    by (intro keeps_intros client_pkg_step_same_at write_act_same_at;
        simp add: rpc_paths_distinct rpc_paths_distinct [THEN not_sym])
  then have "same_at (client_pkg_path p) w (snd (rpc_steps p choice w))" by (rule act_keepsD)
  then show ?thesis
    by (auto simp: patchFilesForRPC_def same_at_def split: prod.splits outcome.splits)
qed

end
