(* ===== verification/Workflow.thy ===== *)
theory Workflow
  imports RpcPatch
begin

text \<open>
  \<open>createProject(projectDirectory, options)\<close> of \<open>src/utils/helpers.ts\<close>
  (lines 115--341), one definition per step in the order of the code, composed with
  \<^const>\<open>bind_act\<close>: each step either continues with a value, returns \<open>null\<close>
  (\<^const>\<open>Cancelled\<close>, after printing "Project creation cancelled.") or throws
  (\<^const>\<open>Thrown\<close>). An absent \<open>projectDirectory\<close> is the empty string: both
  are falsy and the code only tests truthiness.
\<close>

definition default_name :: string where
  "default_name = ''my-bhvr-app''"

text \<open>Cancelling: print the message, resolve with \<open>null\<close>.\<close>

definition cancel_with_msg :: "(world, 'a) act" where
  "cancel_with_msg = (\<lambda>w. (Cancelled, log_msg MsgCancelled w))"

section \<open>Step 1: the project name (lines 119--137)\<close>

definition resolve_name :: "string \<Rightarrow> project_options \<Rightarrow> (world, string) act" where
  "resolve_name dir opts =
    (if dir = [] \<and> \<not> yes opts then
       (\<lambda>w. case prompt_text ''projectName'' default_name w of
          (Some s, w') \<Rightarrow> if s \<noteq> [] then (Done s, w') else cancel_with_msg w'
        | (None, w') \<Rightarrow> cancel_with_msg w')
     else if dir = [] then return_act default_name
     else return_act dir)"

section \<open>Step 2: the template (lines 139--161)\<close>

definition resolve_template :: "project_options \<Rightarrow> (world, string) act" where
  "resolve_template opts =
    (if \<not> yes opts \<and> \<not> str_truthy (branch opts) then
       (\<lambda>w. case prompt_select ''template'' template_choices 0 w of
          (Some k, w') \<Rightarrow> (Done k, w')
        | (None, w') \<Rightarrow> cancel_with_msg w')
     else return_act (js_or (template opts) ''default''))"

section \<open>Step 3: the target directory (lines 163--185)\<close>

text \<open>
  An existing path is listed (\<open>readdirSync\<close> throws on a file); a non-empty
  directory in interactive mode needs the overwrite confirmation (initially \<open>false\<close>),
  and is emptied when given. Then \<open>ensureDirSync\<close>.
\<close>

definition confirm_overwrite :: "path \<Rightarrow> (world, unit) act" where
  "confirm_overwrite p =
    (\<lambda>w. case prompt_confirm ''overwrite'' False w of
       (Some True, w') \<Rightarrow> (Done (), w'\<lparr>files := empty_dir (files w') p\<rparr>)
     | (_, w') \<Rightarrow> cancel_with_msg w')"

definition check_existing :: "path \<Rightarrow> project_options \<Rightarrow> (world, unit) act" where
  "check_existing p opts =
    (\<lambda>w. if fs_exists (files w) p then
       (case readdir (files w) p of
         Inl e \<Rightarrow> (Thrown e, w)
       | Inr entries \<Rightarrow>
           if entries \<noteq> [] \<and> \<not> yes opts then confirm_overwrite p w else (Done (), w))
     else (Done (), w))"

definition prepare_dir :: "string \<Rightarrow> project_options \<Rightarrow> (world, path) act" where
  "prepare_dir name opts =
    (\<lambda>w. let p = resolve_path (cwd w) name in
      bind_act (check_existing p opts) (\<lambda>_.
      bind_act (ensure_dir_act p) (\<lambda>_. return_act p)) w)"

section \<open>Step 4: the download (lines 187--204)\<close>

definition download :: "path \<Rightarrow> string \<Rightarrow> project_options \<Rightarrow> (world, unit) act" where
  "download p choice opts = clone_act (repo_url opts choice) p"

section \<open>Step 5: normalising the fetched tree (lines 206--217)\<close>

definition pkg_json_path :: "path \<Rightarrow> path" where
  "pkg_json_path p = p @ [''package.json'']"

definition git_dir_path :: "path \<Rightarrow> path" where
  "git_dir_path p = p @ [''.git'']"

definition rename_package :: "path \<Rightarrow> string \<Rightarrow> (world, unit) act" where
  "rename_package p name =
    (\<lambda>w. if fs_exists (files w) (pkg_json_path p) then
       bind_act (read_json_act (pkg_json_path p)) (\<lambda>pkg.
       bind_act (pure_act (prop_set pkg ''name'' (JStr name))) (\<lambda>pkg'.
       write_act (pkg_json_path p) (JsonDoc pkg'))) w
     else (Done (), w))"

definition remove_git :: "path \<Rightarrow> (world, unit) act" where
  "remove_git p =
    (\<lambda>w. if fs_exists (files w) (git_dir_path p) then
       (Done (), log_msg MsgRemovedGit (w\<lparr>files := remove_tree (files w) (git_dir_path p)\<rparr>))
     else (Done (), w))"

section \<open>Step 6: the RPC client (lines 219--239)\<close>

text \<open>
  The prompt is shown unless \<open>options.yes\<close> or \<open>options.rpc\<close>; an undefined
  answer cancels, although the files are already on disk. The result of
  \<^const>\<open>patchFilesForRPC\<close> is ignored.
\<close>

definition run_patch :: "path \<Rightarrow> string \<Rightarrow> (world, unit) act" where
  "run_patch p choice = (\<lambda>w. (Done (), snd (patchFilesForRPC p choice w)))"

definition rpc_step :: "path \<Rightarrow> string \<Rightarrow> project_options \<Rightarrow> (world, unit) act" where
  "rpc_step p choice opts =
    (if \<not> yes opts \<and> \<not> rpc opts then
       (\<lambda>w. case prompt_confirm ''useRpc'' False w of
          (None, w') \<Rightarrow> cancel_with_msg w'
        | (Some b, w') \<Rightarrow> if b then run_patch p choice w' else (Done (), w'))
     else if rpc opts then run_patch p choice
     else return_act ())"

section \<open>Step 7: git (lines 241--277)\<close>

definition try_git_init :: "(world, bool) act" where
  "try_git_init =
    (\<lambda>w. case run_cmd [''git'', ''init''] w of
       (True, w') \<Rightarrow> (Done True, w')
     | (False, w') \<Rightarrow> (Done False, log_msg MsgGitFailed w'))"

text \<open>
  The copy in the \<open>else\<close> branch (lines 269--276), taken with \<open>--yes\<close>: its
  \<open>catch\<close> only stops the spinner and prints no error.
\<close>

definition try_git_init_yes :: "(world, bool) act" where
  "try_git_init_yes =
    (\<lambda>w. case run_cmd [''git'', ''init''] w of
       (True, w') \<Rightarrow> (Done True, w')
     | (False, w') \<Rightarrow> (Done False, w'))"

definition git_step :: "project_options \<Rightarrow> (world, bool) act" where
  "git_step opts =
    (if \<not> yes opts then
       (\<lambda>w. case prompt_confirm ''initGit'' True w of
          (Some True, w') \<Rightarrow> try_git_init w'
        | (_, w') \<Rightarrow> (Done False, w'))
     else try_git_init_yes)"

section \<open>Step 8: dependencies (lines 279--329)\<close>

text \<open>\<open>bun install\<close>, and \<open>npm install\<close> when it rejects.\<close>

definition install_deps :: "(world, bool) act" where
  "install_deps =
    (\<lambda>w. case run_cmd [''bun'', ''install''] w of
       (True, w') \<Rightarrow> (Done True, w')
     | (False, w') \<Rightarrow> (case run_cmd [''npm'', ''install''] w' of
         (True, w'') \<Rightarrow> (Done True, w'')
       | (False, w'') \<Rightarrow> (Done False, log_msg MsgDepsFailed w'')))"

text \<open>
  The copy in the \<open>else\<close> branch (lines 312--328), taken with \<open>--yes\<close>: when
  both managers fail it only stops the spinner, without the hint printed by the
  interactive copy.
\<close>

definition install_deps_yes :: "(world, bool) act" where
  "install_deps_yes =
    (\<lambda>w. case run_cmd [''bun'', ''install''] w of
       (True, w') \<Rightarrow> (Done True, w')
     | (False, w') \<Rightarrow> (case run_cmd [''npm'', ''install''] w' of
         (True, w'') \<Rightarrow> (Done True, w'')
       | (False, w'') \<Rightarrow> (Done False, w'')))"

definition deps_step :: "project_options \<Rightarrow> (world, bool) act" where
  "deps_step opts =
    (if \<not> yes opts then
       (\<lambda>w. case prompt_confirm ''installDeps'' True w of
          (Some True, w') \<Rightarrow> install_deps w'
        | (_, w') \<Rightarrow> (Done False, w'))
     else install_deps_yes)"

section \<open>The whole workflow (lines 115--341)\<close>

text \<open>
  The \<open>try\<close> block of lines 194--340: download, normalise, RPC, git, dependencies
  and the result. Its \<open>catch\<close> only rethrows, so an error propagates unchanged.
\<close>

definition setup_project ::
  "path \<Rightarrow> string \<Rightarrow> string \<Rightarrow> project_options \<Rightarrow> (world, project_result) act" where
  "setup_project p name choice opts =
    bind_act (download p choice opts) (\<lambda>_.
    bind_act (rename_package p name) (\<lambda>_.
    bind_act (remove_git p) (\<lambda>_.
    bind_act (rpc_step p choice opts) (\<lambda>_.
    bind_act (git_step opts) (\<lambda>g.
    bind_act (deps_step opts) (\<lambda>d.
    return_act \<lparr>projectName = name, gitInitialized = g,
                dependenciesInstalled = d, result_template = choice\<rparr>))))))"

definition createProject :: "string \<Rightarrow> project_options \<Rightarrow> (world, project_result) act" where
  "createProject dir opts =
    bind_act (resolve_name dir opts) (\<lambda>name.
    bind_act (resolve_template opts) (\<lambda>choice.
    bind_act (prepare_dir name opts) (\<lambda>p.
    setup_project p name choice opts)))"

section \<open>Evaluating concrete runs\<close>

text \<open>The equations that evaluate a run of the workflow on a concrete world.\<close>

lemmas createProject_eval =
  createProject_def setup_project_def resolve_name_def resolve_template_def prepare_dir_def
  check_existing_def confirm_overwrite_def download_def rename_package_def remove_git_def
  rpc_step_def run_patch_def git_step_def try_git_init_def try_git_init_yes_def deps_step_def install_deps_def install_deps_yes_def
  cancel_with_msg_def pkg_json_path_def git_dir_path_def default_name_def
  patchFilesForRPC_def rpc_steps_def rpc_client_pkg_step_def rpc_server_pkg_step_def client_pkg_path_def server_pkg_path_def server_index_path_def
  server_client_path_def app_tsx_path_def app_template_def
  bind_act_def return_act_def lift_err_def pure_act_def exec_act_def Let_def
  read_json_act_def write_act_def ensure_dir_act_def clone_act_def
  w_read_json_def w_write_def w_ensure_dir_def w_clone_def
  resolve_path_def fs_exists_def fs_lookup_def readdir_def is_child_def empty_dir_def is_below_def
  remove_tree_def ensure_dir_def write_file_def read_json_def
  repo_url_def resolve_branch_def template_config_def templates_index_def TEMPLATES_def
  DEFAULT_REPO_def object_prototype_keys_def template_choices_def
  prompt_text_def prompt_select_def prompt_confirm_def ask_def text_value_def select_value_def
  confirm_value_def run_cmd_def emit_def log_msg_def prop_get2_def prop_set2_def

section \<open>Non-interactive runs show no prompt\<close>

lemma run_patch_keeps_prompts [keeps_intros]: "act_keeps same_prompts (run_patch p choice)"
  by (simp add: act_keeps_def run_patch_def patch_same_prompts)

lemma try_git_init_keeps_prompts [keeps_intros]: "act_keeps same_prompts try_git_init"
  by (auto simp: act_keeps_def try_git_init_def run_cmd_def same_prompts_def split: bool.splits)

lemma try_git_init_yes_keeps_prompts [keeps_intros]: "act_keeps same_prompts try_git_init_yes"
  by (auto simp: act_keeps_def try_git_init_yes_def run_cmd_def same_prompts_def split: bool.splits)

lemma install_deps_yes_keeps_prompts [keeps_intros]: "act_keeps same_prompts install_deps_yes"
  by (auto simp: act_keeps_def install_deps_yes_def run_cmd_def same_prompts_def split: bool.splits)

lemma install_deps_keeps_prompts [keeps_intros]: "act_keeps same_prompts install_deps"
  by (auto simp: act_keeps_def install_deps_def run_cmd_def same_prompts_def split: bool.splits)

lemma remove_git_keeps_prompts [keeps_intros]: "act_keeps same_prompts (remove_git p)"
  by (simp add: act_keeps_def remove_git_def same_prompts_def)

lemma rename_package_keeps_prompts [keeps_intros]: "act_keeps same_prompts (rename_package p name)"
  unfolding rename_package_def
  by (rule act_keeps_guard; (intro keeps_intros keeps_prompts_prims)?; simp)

lemma check_existing_yes_keeps_prompts:
  "yes opts \<Longrightarrow> act_keeps same_prompts (check_existing p opts)"
  by (simp add: act_keeps_def check_existing_def same_prompts_def split: sum.splits)

lemma noninteractive_steps_keep_prompts:
  assumes "yes opts"
  shows "act_keeps same_prompts (resolve_name dir opts)"
    and "act_keeps same_prompts (resolve_template opts)"
    and "act_keeps same_prompts (prepare_dir name opts)"
    and "act_keeps same_prompts (rpc_step p choice opts)"
    and "act_keeps same_prompts (git_step opts)"
    and "act_keeps same_prompts (deps_step opts)"
  using assms
  by (simp_all add: resolve_name_def resolve_template_def rpc_step_def git_step_def deps_step_def
      keeps_intros)
    (unfold prepare_dir_def Let_def, rule act_keeps_inspect,
     intro keeps_intros check_existing_yes_keeps_prompts keeps_prompts_prims; simp add: assms)

lemma createProject_yes_keeps_prompts:
  "yes opts \<Longrightarrow> act_keeps same_prompts (createProject dir opts)"
  unfolding createProject_def setup_project_def download_def
  by (intro keeps_intros noninteractive_steps_keep_prompts keeps_prompts_prims; simp)

text \<open>
  C3. With \<open>--yes\<close> the workflow never shows a prompt, whatever the world: no step of
  any run, successful, cancelled or failing, adds a prompt to the trace.
\<close>

theorem createProject_noninteractive_no_prompt:
  assumes "yes opts"
  shows "prompts_of (trace (snd (createProject dir opts w))) = prompts_of (trace w)"
  using act_keepsD [OF createProject_yes_keeps_prompts [OF assms, of dir], of w]
  by (simp add: same_prompts_def)

theorem createProject_noninteractive_no_prompt_witness:
  "yes \<lparr>yes = True, typescript = False, repo = None, template = None, branch = None, rpc = True\<rparr> \<and>
   prompts_of (trace (snd (createProject [] \<lparr>yes = True, typescript = False, repo = None,
        template = None, branch = None, rpc = True\<rparr>
      \<lparr>files = [([], Dir)], cwd = [], answers = [Abort], remote = (\<lambda>_. None),
       tools = (\<lambda>_. False), trace = []\<rparr>))) = prompts_of []"
  using createProject_noninteractive_no_prompt [of "\<lparr>yes = True, typescript = False, repo = None,
        template = None, branch = None, rpc = True\<rparr>" "[]"
      "\<lparr>files = [([], Dir)], cwd = [], answers = [Abort], remote = (\<lambda>_. None),
       tools = (\<lambda>_. False), trace = []\<rparr>"]
  by simp

section \<open>Dependency installation\<close>

text \<open>
  C4. Dependency installation tries \<open>bun install\<close> first and \<open>npm install\<close> only when
  it fails; it reports success when either succeeds, and prints the failure message
  exactly when both fail. No other effect.
\<close>

theorem install_deps_fallback:
  "install_deps w =
    (Done (tools w [''bun'', ''install''] \<or> tools w [''npm'', ''install'']),
     w\<lparr>trace := trace w @ [EvExec [''bun'', ''install'']] @
        (if tools w [''bun'', ''install''] then []
         else EvExec [''npm'', ''install''] #
           (if tools w [''npm'', ''install''] then [] else [EvLog MsgDepsFailed]))\<rparr>)"
  by (simp add: install_deps_def run_cmd_def emit_def log_msg_def)

text \<open>
  C12. The interactive and the \<open>--yes\<close> copies of the git and the dependency
  steps (lines 252--266 and 269--276, 290--309 and 312--328) run the same commands in
  the same order and give the same result; the worlds they leave differ only in the
  failure message the interactive copy prints when the step fails.
\<close>

theorem duplicated_steps_agree:
  "fst (try_git_init_yes w) = fst (try_git_init w)
   \<and> snd (try_git_init w) = (if fst (try_git_init w) = Done False
        then log_msg MsgGitFailed (snd (try_git_init_yes w)) else snd (try_git_init_yes w))
   \<and> fst (install_deps_yes w) = fst (install_deps w)
   \<and> snd (install_deps w) = (if fst (install_deps w) = Done False
        then log_msg MsgDepsFailed (snd (install_deps_yes w)) else snd (install_deps_yes w))"
  by (simp add: try_git_init_def try_git_init_yes_def install_deps_def install_deps_yes_def
      run_cmd_def split: bool.splits)

section \<open>Cancellation at the name prompt\<close>

text \<open>
  C5. In interactive mode without a directory argument, an undefined answer to the name
  prompt ends the run with \<open>null\<close> after that one prompt and the cancellation
  message: nothing is written, downloaded or run.
\<close>

theorem createProject_cancel_at_name:
  assumes "\<not> yes opts" and "answers w = a # as" and "text_value default_name a = None"
  shows "createProject [] opts w =
    (Cancelled, w\<lparr>answers := as,
       trace := trace w @ [EvPrompt (TextPrompt ''projectName'' default_name), EvLog MsgCancelled]\<rparr>)"
  using assms
  by (simp add: createProject_def setup_project_def bind_act_def resolve_name_def prompt_text_def ask_def
      cancel_with_msg_def log_msg_def emit_def)

theorem createProject_cancel_at_name_witness:
  "\<not> yes \<lparr>yes = False, typescript = False, repo = None, template = None, branch = None, rpc = False\<rparr> \<and>
   answers \<lparr>files = [([], Dir)], cwd = [], answers = [Abort], remote = (\<lambda>_. None),
       tools = (\<lambda>_. True), trace = []\<rparr> = Abort # [] \<and>
   text_value default_name Abort = None \<and>
   createProject [] \<lparr>yes = False, typescript = False, repo = None, template = None, branch = None, rpc = False\<rparr>
      \<lparr>files = [([], Dir)], cwd = [], answers = [Abort], remote = (\<lambda>_. None),
       tools = (\<lambda>_. True), trace = []\<rparr> =
    (Cancelled, \<lparr>files = [([], Dir)], cwd = [], answers = [], remote = (\<lambda>_. None),
       tools = (\<lambda>_. True), trace = [EvPrompt (TextPrompt ''projectName'' default_name), EvLog MsgCancelled]\<rparr>)"
proof -
  let ?o = "\<lparr>yes = False, typescript = False, repo = None, template = None, branch = None, rpc = False\<rparr>"
  let ?w = "\<lparr>files = [([], Dir)], cwd = [], answers = [Abort], remote = (\<lambda>_. None),
       tools = (\<lambda>_. True), trace = []\<rparr>"
  have h: "\<not> yes ?o" "answers ?w = Abort # []" "text_value default_name Abort = None"
    by (simp_all add: text_value_def)
  show ?thesis using h createProject_cancel_at_name [OF h] by simp
qed

section \<open>Failing external commands are never fatal\<close>

lemma prop_set_not_exec_failed: "prop_set b k v \<noteq> Inl ExecFailed"
  by (cases b) auto

lemma steps_never_exec_failed:
  "act_never_throws ExecFailed (resolve_name dir opts)"
  "act_never_throws ExecFailed (resolve_template opts)"
  "act_never_throws ExecFailed (prepare_dir name opts)"
  "act_never_throws ExecFailed (download p choice opts)"
  "act_never_throws ExecFailed (rename_package p name)"
  "act_never_throws ExecFailed (remove_git p)"
  "act_never_throws ExecFailed (rpc_step p choice opts)"
  "act_never_throws ExecFailed (git_step opts)"
  "act_never_throws ExecFailed (deps_step opts)"
proof -
  have cancel: "fst (cancel_with_msg w :: 'a outcome \<times> world) \<noteq> Thrown e" for w e
    by (simp add: cancel_with_msg_def)
  show "act_never_throws ExecFailed (resolve_name dir opts)"
    by (auto simp: act_never_throws_def resolve_name_def cancel split: prod.splits option.splits)
  show "act_never_throws ExecFailed (resolve_template opts)"
    by (auto simp: act_never_throws_def resolve_template_def cancel split: prod.splits option.splits)
  have conf: "act_never_throws ExecFailed (confirm_overwrite p)" for p
    by (auto simp: act_never_throws_def confirm_overwrite_def cancel split: prod.splits option.splits bool.splits)
  have ce: "act_never_throws ExecFailed (check_existing p opts)" for p
    unfolding act_never_throws_def
  proof
    fix s
    show "fst (check_existing p opts s) \<noteq> Thrown ExecFailed"
    proof (cases "readdir (files s) p")
      case (Inl e)
      with fs_ops_not_exec_failed(4) [of "files s" p] show ?thesis
        by (simp add: check_existing_def)
    next
      case (Inr es)
      with conf [of p] show ?thesis
        by (simp add: check_existing_def act_never_throws_def)
    qed
  qed
  show "act_never_throws ExecFailed (prepare_dir name opts)"
    unfolding prepare_dir_def Let_def
    by (rule act_never_throws_inspect)
      (intro act_never_throws_bind act_never_throws_return never_exec_failed_prims ce)
  show "act_never_throws ExecFailed (download p choice opts)"
    by (simp add: download_def never_exec_failed_prims)
  have "act_never_throws ExecFailed (pure_act (prop_set b k v))" for b k v
    using prop_set_not_exec_failed by (auto simp: act_never_throws_def pure_act_def split: sum.splits)
  note ps = this
  show "act_never_throws ExecFailed (rename_package p name)"
    unfolding rename_package_def
    by (rule act_never_throws_guard) (intro act_never_throws_bind never_exec_failed_prims ps)
  show "act_never_throws ExecFailed (remove_git p)"
    by (simp add: act_never_throws_def remove_git_def)
  show "act_never_throws ExecFailed (rpc_step p choice opts)"
    by (auto simp: act_never_throws_def rpc_step_def run_patch_def cancel split: prod.splits option.splits)
  show "act_never_throws ExecFailed (git_step opts)"
    by (auto simp: act_never_throws_def git_step_def try_git_init_def try_git_init_yes_def split: prod.splits option.splits bool.splits)
  show "act_never_throws ExecFailed (deps_step opts)"
    by (auto simp: act_never_throws_def deps_step_def install_deps_def install_deps_yes_def split: prod.splits option.splits bool.splits)
qed

lemma createProject_never_exec_failed: "act_never_throws ExecFailed (createProject dir opts)"
  unfolding createProject_def setup_project_def
  by (intro act_never_throws_bind steps_never_exec_failed act_never_throws_return)

text \<open>
  C6. A failing \<open>git init\<close>, \<open>bun install\<close>, \<open>npm install\<close> or
  \<open>bun install hono\<close> never makes the workflow throw: whatever the world, no run ends in
  the rejection of an external command.
\<close>

theorem createProject_exec_never_fatal: "fst (createProject dir opts w) \<noteq> Thrown ExecFailed"
  using createProject_never_exec_failed by (simp add: act_never_throws_def)

section \<open>Declining the overwrite\<close>

lemma readdir_Inr_exists: "readdir f p = Inr es \<Longrightarrow> fs_exists f p"
  by (auto simp: readdir_def fs_exists_def split: option.splits node.splits)

text \<open>The name and template steps only ask: they leave the file system, the directory and the remote trees alone.\<close>

lemma resolve_steps_frame:
  "files (snd (resolve_name dir opts w)) = files w \<and> cwd (snd (resolve_name dir opts w)) = cwd w
     \<and> remote (snd (resolve_name dir opts w)) = remote w"
  "files (snd (resolve_template opts w)) = files w \<and> cwd (snd (resolve_template opts w)) = cwd w
     \<and> remote (snd (resolve_template opts w)) = remote w"
proof -
  obtain r w' where pt: "prompt_text ''projectName'' default_name w = (r, w')"
    by (cases "prompt_text ''projectName'' default_name w")
  have "files w' = files w \<and> cwd w' = cwd w \<and> remote w' = remote w"
    using prompt_frame(1) [OF pt] prompt_remote(1) [OF pt] by simp
  then show "files (snd (resolve_name dir opts w)) = files w \<and> cwd (snd (resolve_name dir opts w)) = cwd w
     \<and> remote (snd (resolve_name dir opts w)) = remote w"
    by (cases r) (simp_all add: resolve_name_def pt cancel_with_msg_def log_msg_def emit_def)
next
  obtain r w' where pt: "prompt_select ''template'' template_choices 0 w = (r, w')"
    by (cases "prompt_select ''template'' template_choices 0 w")
  have "files w' = files w \<and> cwd w' = cwd w \<and> remote w' = remote w"
    using prompt_frame(2) [OF pt] prompt_remote(2) [OF pt] by simp
  then show "files (snd (resolve_template opts w)) = files w \<and> cwd (snd (resolve_template opts w)) = cwd w
     \<and> remote (snd (resolve_template opts w)) = remote w"
    by (cases r) (simp_all add: resolve_template_def pt cancel_with_msg_def log_msg_def emit_def)
qed

text \<open>
  Once the name and the template are resolved, the run continues with the target
  directory in a world whose file system, working directory and remote trees are those
  it started with.
\<close>

lemma createProject_resolved:
  assumes n: "fst (resolve_name dir opts w) = Done name"
    and t: "fst (resolve_template opts (snd (resolve_name dir opts w))) = Done choice"
  shows "createProject dir opts w = bind_act (prepare_dir name opts) (\<lambda>p. setup_project p name choice opts)
           (snd (resolve_template opts (snd (resolve_name dir opts w))))"
    and "files (snd (resolve_template opts (snd (resolve_name dir opts w)))) = files w"
    and "cwd (snd (resolve_template opts (snd (resolve_name dir opts w)))) = cwd w"
    and "remote (snd (resolve_template opts (snd (resolve_name dir opts w)))) = remote w"
proof -
  obtain w1 where rn: "resolve_name dir opts w = (Done name, w1)"
    using n by (cases "resolve_name dir opts w") simp
  obtain w2 where rt: "resolve_template opts w1 = (Done choice, w2)"
    using t rn by (cases "resolve_template opts w1") simp
  show "createProject dir opts w = bind_act (prepare_dir name opts) (\<lambda>p. setup_project p name choice opts)
           (snd (resolve_template opts (snd (resolve_name dir opts w))))"
    unfolding createProject_def
    by (simp add: rn rt bind_act_Done [where m = "resolve_name dir opts", OF rn]
        bind_act_Done [where m = "resolve_template opts", OF rt])
  show "files (snd (resolve_template opts (snd (resolve_name dir opts w)))) = files w"
    "cwd (snd (resolve_template opts (snd (resolve_name dir opts w)))) = cwd w"
    "remote (snd (resolve_template opts (snd (resolve_name dir opts w)))) = remote w"
    using resolve_steps_frame(1) [of dir opts w] resolve_steps_frame(2) [of opts w1] rn by simp_all
qed

text \<open>
  C7. In interactive mode, however the project name and the template were obtained
  (given on the command line, or answered at their prompts), when the target
  directory exists and is not empty and the next answer does not confirm the
  overwrite (declined, defaulted with Enter, or aborted), the run returns \<open>null\<close>
  and the file system is exactly as it was: nothing is emptied, created or downloaded.
\<close>

theorem createProject_decline_overwrite:
  assumes ny: "\<not> yes opts"
    and n: "fst (resolve_name dir opts w) = Done name"
    and t: "fst (resolve_template opts (snd (resolve_name dir opts w))) = Done choice"
    and ne: "readdir (files w) (resolve_path (cwd w) name) = Inr (e # es)"
    and a: "answers (snd (resolve_template opts (snd (resolve_name dir opts w)))) = a # as"
    and d: "confirm_value False a \<noteq> Some True"
  shows "fst (createProject dir opts w) = Cancelled \<and> files (snd (createProject dir opts w)) = files w"
proof -
  define w2 where "w2 = snd (resolve_template opts (snd (resolve_name dir opts w)))"
  let ?p = "resolve_path (cwd w) name"
  have steps: "createProject dir opts w = bind_act (prepare_dir name opts) (\<lambda>p. setup_project p name choice opts) w2"
    and f2: "files w2 = files w" "cwd w2 = cwd w"
    using createProject_resolved [OF n t] by (simp_all add: w2_def)
  have a2: "answers w2 = a # as" using a by (simp add: w2_def)
  have ex: "fs_exists (files w2) ?p" using ne f2 by (simp add: readdir_Inr_exists)
  have co: "fst (confirm_overwrite ?p w2) = Cancelled \<and> files (snd (confirm_overwrite ?p w2)) = files w2"
    using a2 d
    by (cases "confirm_value False a")
      (auto simp: confirm_overwrite_def prompt_confirm_def ask_def emit_def cancel_with_msg_def log_msg_def)
  have "check_existing ?p opts w2 = confirm_overwrite ?p w2"
    using ny ex ne f2 by (simp add: check_existing_def)
  then obtain w3 where c3: "check_existing ?p opts w2 = (Cancelled, w3)" and f3: "files w3 = files w"
    using co f2 by (cases "confirm_overwrite ?p w2") auto
  have "prepare_dir name opts w2 = (Cancelled, w3)"
    by (simp add: prepare_dir_def Let_def f2(2) bind_act_def c3)
  then show ?thesis by (simp add: steps bind_act_def f3)
qed

theorem createProject_decline_overwrite_witness:
  "fst (createProject [] \<lparr>yes = False, typescript = False, repo = None, template = None, branch = None, rpc = False\<rparr>
     \<lparr>files = [([], Dir), ([''my-bhvr-app''], Dir), ([''my-bhvr-app'', ''notes.txt''], File (TextDoc ''keep''))],
      cwd = [], answers = [Enter, Enter, Enter], remote = (\<lambda>_. None), tools = (\<lambda>_. True), trace = []\<rparr>) = Cancelled \<and>
   files (snd (createProject [] \<lparr>yes = False, typescript = False, repo = None, template = None, branch = None, rpc = False\<rparr>
     \<lparr>files = [([], Dir), ([''my-bhvr-app''], Dir), ([''my-bhvr-app'', ''notes.txt''], File (TextDoc ''keep''))],
      cwd = [], answers = [Enter, Enter, Enter], remote = (\<lambda>_. None), tools = (\<lambda>_. True), trace = []\<rparr>)) =
   files \<lparr>files = [([], Dir), ([''my-bhvr-app''], Dir), ([''my-bhvr-app'', ''notes.txt''], File (TextDoc ''keep''))],
      cwd = [], answers = [Enter, Enter, Enter], remote = (\<lambda>_. None), tools = (\<lambda>_. True), trace = []\<rparr>"
  by (rule createProject_decline_overwrite [where name = "''my-bhvr-app''" and choice = "''default''"
        and e = "[''my-bhvr-app'', ''notes.txt'']" and es = "[]" and a = Enter and as = "[]"])
    (simp_all add: resolve_name_def resolve_template_def prompt_text_def prompt_select_def ask_def
      text_value_def select_value_def template_choices_def TEMPLATES_def default_name_def
      readdir_def fs_lookup_def resolve_path_def is_child_def confirm_value_def emit_def)

section \<open>The file system stays well formed\<close>

lemma cancel_frame: "cancel_with_msg w = (r, w') \<Longrightarrow> files w' = files w \<and> cwd w' = cwd w"
  by (auto simp: cancel_with_msg_def)

lemma cancel_with_msg_simps [simp]:
  "fst (cancel_with_msg w) = Cancelled" "files (snd (cancel_with_msg w)) = files w"
  "cwd (snd (cancel_with_msg w)) = cwd w"
  by (simp_all add: cancel_with_msg_def)

lemma steps_keep_wf:
  "act_keeps wf_kept (resolve_name dir opts)"
  "act_keeps wf_kept (resolve_template opts)"
  "act_keeps wf_kept (prepare_dir name opts)"
  "act_keeps wf_kept (rename_package p name)"
  "act_keeps wf_kept (remove_git p)"
  "act_keeps wf_kept (rpc_step p choice opts)"
  "act_keeps wf_kept (git_step opts)"
  "act_keeps wf_kept (deps_step opts)"
proof -
  show "act_keeps wf_kept (resolve_name dir opts)"
    unfolding resolve_name_def
    by (auto simp: act_keeps_def wf_kept_def dest!: prompt_frame cancel_frame
        split: prod.splits option.splits if_splits)
  show "act_keeps wf_kept (resolve_template opts)"
    unfolding resolve_template_def
    by (auto simp: act_keeps_def wf_kept_def dest!: prompt_frame cancel_frame
        split: prod.splits option.splits)
  have co: "act_keeps wf_kept (confirm_overwrite q)" for q
    by (auto simp: act_keeps_def wf_kept_def confirm_overwrite_def intro: empty_dir_wf
        dest!: prompt_frame cancel_frame split: prod.splits option.splits bool.splits)
  have ce: "act_keeps wf_kept (check_existing q opts)" for q
    using co by (auto simp: act_keeps_def check_existing_def wf_kept_def split: sum.splits)
  show "act_keeps wf_kept (prepare_dir name opts)"
    unfolding prepare_dir_def Let_def
    by (rule act_keeps_inspect) (intro keeps_intros ce keeps_wf_prims; simp)
  show "act_keeps wf_kept (rename_package p name)"
    unfolding rename_package_def
    by (rule act_keeps_guard; (intro keeps_intros keeps_wf_prims)?; simp)
  show "act_keeps wf_kept (remove_git p)"
    by (auto simp: act_keeps_def wf_kept_def remove_git_def git_dir_path_def intro: remove_tree_wf)
  have rp: "act_keeps wf_kept (run_patch p choice)"
    by (simp add: act_keeps_def run_patch_def patch_wf_kept)
  show "act_keeps wf_kept (rpc_step p choice opts)"
    using rp by (auto simp: act_keeps_def wf_kept_def rpc_step_def dest!: prompt_frame cancel_frame
        split: prod.splits option.splits)
  show "act_keeps wf_kept (git_step opts)"
    by (auto simp: act_keeps_def wf_kept_def git_step_def try_git_init_def try_git_init_yes_def run_cmd_def
        dest!: prompt_frame split: prod.splits option.splits bool.splits)
  show "act_keeps wf_kept (deps_step opts)"
    by (auto simp: act_keeps_def wf_kept_def deps_step_def install_deps_def install_deps_yes_def run_cmd_def
        dest!: prompt_frame split: prod.splits option.splits bool.splits)
qed

text \<open>
  Every run of the workflow keeps a well-formed file system well formed.
\<close>

lemma createProject_wf:
  assumes "fs_wf (files w)"
  shows "fs_wf (files (snd (createProject dir opts w)))"
proof -
  have "act_keeps wf_kept (createProject dir opts)"
    unfolding createProject_def setup_project_def download_def
    by (intro keeps_intros steps_keep_wf keeps_wf_prims; simp)
  with assms show ?thesis by (auto dest: act_keepsD simp: wf_kept_def)
qed

section \<open>The project directory exists after a successful run\<close>

lemma resolve_steps_cwd:
  "resolve_name dir opts w = (r, w') \<Longrightarrow> cwd w' = cwd w"
  "resolve_template opts w = (r', w') \<Longrightarrow> cwd w' = cwd w"
  by (auto simp: resolve_name_def resolve_template_def dest!: prompt_frame cancel_frame
      split: if_splits prod.splits option.splits)

text \<open>A successful run passes through the three resolution steps and the \<open>try\<close> block.\<close>

lemma createProject_Done_split:
  assumes "fst (createProject dir opts w) = Done r"
  shows "\<exists>name w1 choice w2 p w3. resolve_name dir opts w = (Done name, w1) \<and>
    resolve_template opts w1 = (Done choice, w2) \<and> prepare_dir name opts w2 = (Done p, w3) \<and>
    createProject dir opts w = setup_project p name choice opts w3"
  using assms
  by (auto simp: createProject_def bind_act_def split: prod.splits outcome.splits)

lemma prepare_dir_Done:
  assumes "prepare_dir name opts w = (Done p, w')"
  shows "p = resolve_path (cwd w) name \<and> fs_lookup (files w') p = Some Dir"
proof -
  let ?p = "resolve_path (cwd w) name"
  have eq: "bind_act (check_existing ?p opts) (\<lambda>_. bind_act (ensure_dir_act ?p) (\<lambda>_. return_act ?p)) w
      = (Done p, w')"
    using assms by (simp add: prepare_dir_def Let_def)
  obtain r1 w1 where ce: "check_existing ?p opts w = (r1, w1)" by (cases "check_existing ?p opts w")
  have rest: "bind_act (ensure_dir_act ?p) (\<lambda>_. return_act ?p) w1 = (Done p, w')"
  proof (cases r1)
    case (Done x)
    with eq ce show ?thesis by (simp add: bind_act_def)
  qed (use eq ce in \<open>simp_all add: bind_act_def\<close>)
  show ?thesis
  proof (cases "ensure_dir (files w1) ?p")
    case (Inl e)
    with rest show ?thesis by (simp add: bind_act_def ensure_dir_act_def w_ensure_dir_def)
  next
    case (Inr f')
    with rest have "p = ?p" and "w' = w1\<lparr>files := f'\<rparr>"
      by (simp_all add: bind_act_def ensure_dir_act_def w_ensure_dir_def)
    with Inr show ?thesis by (simp add: ensure_dir_makes_dir)
  qed
qed

lemma setup_project_keeps_dir: "act_keeps (dir_kept p) (setup_project p name choice opts)"
proof -
  have rg: "act_keeps (dir_kept p) (remove_git p)"
  proof -
    have "\<not> prefix (git_dir_path p) p" by (auto simp: git_dir_path_def dest: prefix_length_le)
    then show ?thesis
      by (auto simp: act_keeps_def dir_kept_def remove_git_def remove_tree_def fs_lookup_def
          map_of_filter_fst)
  qed
  have rn: "act_keeps (dir_kept p) (rename_package p name)"
    unfolding rename_package_def
    by (rule act_keeps_guard; (intro keeps_intros keeps_dir_prims)?; simp)
  have rp: "act_keeps (dir_kept p) (rpc_step p choice opts)"
    using patch_dir_kept [of p]
    by (auto simp: act_keeps_def dir_kept_def rpc_step_def run_patch_def dest!: prompt_frame cancel_frame
        split: prod.splits option.splits)
  have gd: "act_keeps (dir_kept p) (git_step opts)" "act_keeps (dir_kept p) (deps_step opts)"
    by (auto simp: act_keeps_def dir_kept_def git_step_def try_git_init_def try_git_init_yes_def deps_step_def
        install_deps_def install_deps_yes_def run_cmd_def dest!: prompt_frame split: prod.splits option.splits bool.splits)
  show ?thesis
    unfolding setup_project_def download_def
    by (intro keeps_intros keeps_dir_prims rg rn rp gd; simp)
qed

lemma setup_project_name: "act_result (\<lambda>r. projectName r = name) (setup_project p name choice opts)"
  unfolding setup_project_def
  by (intro act_result_bind act_result_return) simp

text \<open>
  C8. After a successful run the project directory exists: the directory the project
  name resolves to under the working directory is a directory of the final file system,
  whether it existed before or not.
\<close>

theorem createProject_dir_exists:
  assumes "fst (createProject dir opts w) = Done r"
  shows "fs_lookup (files (snd (createProject dir opts w))) (resolve_path (cwd w) (projectName r)) = Some Dir"
proof -
  from createProject_Done_split [OF assms] obtain name w1 choice w2 p w3
    where n: "resolve_name dir opts w = (Done name, w1)"
      and t: "resolve_template opts w1 = (Done choice, w2)"
      and pd: "prepare_dir name opts w2 = (Done p, w3)"
      and e3: "createProject dir opts w = setup_project p name choice opts w3"
    by blast
  have cw: "cwd w2 = cwd w" using resolve_steps_cwd(1) [OF n] resolve_steps_cwd(2) [OF t] by simp
  from prepare_dir_Done [OF pd] cw have p: "p = resolve_path (cwd w) name"
    and d: "fs_lookup (files w3) p = Some Dir" by auto
  have "projectName r = name"
    using assms e3 act_resultD [OF setup_project_name, where s = w3 and x = r] by (cases "setup_project p name choice opts w3") simp
  moreover have "dir_kept p w3 (snd (setup_project p name choice opts w3))"
    by (rule act_keepsD [OF setup_project_keeps_dir])
  ultimately show ?thesis using d e3 p by (simp add: dir_kept_def)
qed

theorem createProject_dir_exists_witness:
  "fst (createProject ''my-app'' \<lparr>yes = True, typescript = False, repo = None, template = None,
       branch = None, rpc = False\<rparr>
     \<lparr>files = [([], Dir)], cwd = [], answers = [],
      remote = (\<lambda>u. if u = ''stevedylandev/bhvr-forge#main'' then Some [([''src''], Dir)] else None),
      tools = (\<lambda>_. True), trace = []\<rparr>) =
     Done \<lparr>projectName = ''my-app'', gitInitialized = True, dependenciesInstalled = True,
       result_template = ''default''\<rparr> \<and>
   fs_lookup (files (snd (createProject ''my-app'' \<lparr>yes = True, typescript = False, repo = None,
       template = None, branch = None, rpc = False\<rparr>
     \<lparr>files = [([], Dir)], cwd = [], answers = [],
      remote = (\<lambda>u. if u = ''stevedylandev/bhvr-forge#main'' then Some [([''src''], Dir)] else None),
      tools = (\<lambda>_. True), trace = []\<rparr>)))
     (resolve_path [] ''my-app'') = Some Dir"
proof -
  let ?o = "\<lparr>yes = True, typescript = False, repo = None, template = None, branch = None, rpc = False\<rparr>"
  let ?w = "\<lparr>files = [([], Dir)], cwd = [], answers = [],
      remote = (\<lambda>u. if u = ''stevedylandev/bhvr-forge#main'' then Some [([''src''], Dir)] else None),
      tools = (\<lambda>_. True), trace = []\<rparr>"
  have h: "fst (createProject ''my-app'' ?o ?w) = Done \<lparr>projectName = ''my-app'', gitInitialized = True,
      dependenciesInstalled = True, result_template = ''default''\<rparr>"
    by (simp add: createProject_eval)
  show ?thesis using h createProject_dir_exists [OF h] by simp
qed

section \<open>Which template a run reports\<close>

lemma prompt_select_in: "prompt_select n cs j w = (Some k, w') \<Longrightarrow> k \<in> set cs"
  by (auto simp: prompt_select_def select_value_def split: answer.splits if_splits prod.splits)

lemma resolve_template_Done:
  "resolve_template opts w = (Done c, w') \<Longrightarrow>
     (if \<not> yes opts \<and> \<not> str_truthy (branch opts) then c \<in> set template_choices
      else c = js_or (template opts) ''default'')"
  by (auto simp: resolve_template_def cancel_with_msg_def dest: prompt_select_in
      split: if_splits prod.splits option.splits)

lemma setup_project_template:
  "act_result (\<lambda>r. result_template r = choice) (setup_project p name choice opts)"
  unfolding setup_project_def
  by (intro act_result_bind act_result_return) simp

text \<open>
  C21. The template a successful run reports is one of the registry's names when it
  was chosen at the prompt (the index of the answer is bounded by the choices); with
  \<open>--yes\<close> or \<open>--branch\<close> it is the \<open>--template\<close> argument as given, which
  nothing checks against the registry.
\<close>

theorem createProject_result_template:
  assumes "fst (createProject dir opts w) = Done r"
  shows "if \<not> yes opts \<and> \<not> str_truthy (branch opts) then result_template r \<in> set template_choices
         else result_template r = js_or (template opts) ''default''"
proof -
  from createProject_Done_split [OF assms] obtain name w1 choice w2 p w3
    where rt: "resolve_template opts w1 = (Done choice, w2)"
      and cp: "createProject dir opts w = setup_project p name choice opts w3" by blast
  have "setup_project p name choice opts w3 = (Done r, snd (createProject dir opts w))"
    using assms cp by (metis prod.collapse)
  then have "result_template r = choice"
    using act_resultD [OF setup_project_template] by blast
  then show ?thesis using resolve_template_Done [OF rt] by simp
qed

theorem createProject_result_template_witness:
  "fst (createProject ''app'' \<lparr>yes = False, typescript = False, repo = None, template = None, branch = None, rpc = False\<rparr>
     \<lparr>files = [([], Dir)], cwd = [], answers = [Chosen 1, Confirmed False, Confirmed False, Confirmed False],
      remote = (\<lambda>u. if u = ''stevedylandev/bhvr-forge#tailwindcss'' then Some [([''src''], Dir)] else None),
      tools = (\<lambda>_. True), trace = []\<rparr>) =
     Done \<lparr>projectName = ''app'', gitInitialized = False, dependenciesInstalled = False,
       result_template = ''tailwind''\<rparr>
   \<and> ''tailwind'' \<in> set template_choices"
proof -
  have h: "fst (createProject ''app'' \<lparr>yes = False, typescript = False, repo = None, template = None, branch = None, rpc = False\<rparr>
     \<lparr>files = [([], Dir)], cwd = [], answers = [Chosen 1, Confirmed False, Confirmed False, Confirmed False],
      remote = (\<lambda>u. if u = ''stevedylandev/bhvr-forge#tailwindcss'' then Some [([''src''], Dir)] else None),
      tools = (\<lambda>_. True), trace = []\<rparr>) =
     Done \<lparr>projectName = ''app'', gitInitialized = False, dependenciesInstalled = False,
       result_template = ''tailwind''\<rparr>"
    by (simp add: createProject_eval)
  show ?thesis using h createProject_result_template [OF h] by simp
qed

end
