(* ===== verification/Cli.thy ===== *)
theory Cli
  imports Workflow
begin

text \<open>
  The command-line entry point \<open>src/index.ts\<close>: the options commander builds from
  the flags (with the defaults the program declares), the banner, the call of
  \<open>createProject\<close>, the next-steps text on success and the exit status. A run
  here starts from the flags as commander reports them; the theory \<open>Argv\<close> reads
  them from the argument vector.
\<close>

section \<open>Options (lines 8--25)\<close>

text \<open>
  The flags the program declares. Commander sets \<open>yes\<close>, \<open>typescript\<close> and
  \<open>rpc\<close> to \<open>true\<close> when given, keeps the last value of a repeated option, and
  starts from the declared defaults: \<open>--repo\<close> \<open>DEFAULT_REPO\<close> and
  \<open>--template\<close> \<open>"default"\<close>.
\<close>

datatype cli_flag =
    FlagYes
  | FlagTs
  | FlagRepo string
  | FlagTemplate string
  | FlagBranch string
  | FlagRpc

definition cli_defaults :: project_options where
  "cli_defaults = \<lparr>yes = False, typescript = False, repo = Some DEFAULT_REPO,
     template = Some ''default'', branch = None, rpc = False\<rparr>"

fun apply_flag :: "project_options \<Rightarrow> cli_flag \<Rightarrow> project_options" where
  "apply_flag opts FlagYes = opts\<lparr>yes := True\<rparr>"
| "apply_flag opts FlagTs = opts\<lparr>typescript := True\<rparr>"
| "apply_flag opts (FlagRepo r) = opts\<lparr>repo := Some r\<rparr>"
| "apply_flag opts (FlagTemplate t) = opts\<lparr>template := Some t\<rparr>"
| "apply_flag opts (FlagBranch b) = opts\<lparr>branch := Some b\<rparr>"
| "apply_flag opts FlagRpc = opts\<lparr>rpc := True\<rparr>"

definition parse_flags :: "cli_flag list \<Rightarrow> project_options" where
  "parse_flags fs = foldl apply_flag cli_defaults fs"

section \<open>The banner (helpers.ts lines 21--41)\<close>

text \<open>
  \<open>displayBanner\<close> prints fixed text; its \<open>try\<close> falls back to plain text when
  figlet throws, so it never throws itself.
\<close>

definition displayBanner :: "world \<Rightarrow> world" where
  "displayBanner w = log_msg MsgBanner w"

section \<open>The action (lines 26--54)\<close>

text \<open>The next-steps text printed after a successful run (lines 31--47).\<close>

definition next_steps :: "project_result \<Rightarrow> message list" where
  "next_steps r =
    [MsgCreated, MsgNextSteps, MsgCd (projectName r)] @
    (if \<not> dependenciesInstalled r then [MsgInstallHint] else []) @
    [MsgDevClient, MsgDevServer, MsgDevAll]"

text \<open>
  The action: \<open>Some c\<close> is a call \<open>process.exit(c)\<close>, \<open>None\<close> an action that
  returns, after which the process ends by itself. A \<open>null\<close> result (a
  cancellation) prints nothing more and calls no \<open>exit\<close>; an error thrown by
  \<open>createProject\<close> is printed and exits with 1.
\<close>

definition cli_action :: "string \<Rightarrow> project_options \<Rightarrow> world \<Rightarrow> nat option \<times> world" where
  "cli_action dir opts w =
    (case createProject dir opts (displayBanner w) of
      (Done r, w') \<Rightarrow> (Some 0, fold log_msg (next_steps r) w')
    | (Cancelled, w') \<Rightarrow> (None, w')
    | (Thrown e, w') \<Rightarrow> (Some 1, log_msg (MsgCreateError e) w'))"

text \<open>
  The status the process ends with: the argument of \<open>process.exit\<close>, or 0 when
  Node.js runs out of work after the action returns.
\<close>

definition exit_status :: "nat option \<Rightarrow> nat" where
  "exit_status r = (case r of Some c \<Rightarrow> c | None \<Rightarrow> 0)"

definition cli_run :: "cli_flag list \<Rightarrow> string \<Rightarrow> world \<Rightarrow> nat option \<times> world" where
  "cli_run fs dir w = cli_action dir (parse_flags fs) w"

section \<open>Evaluating concrete runs\<close>

lemmas cli_eval = cli_run_def cli_action_def parse_flags_def cli_defaults_def displayBanner_def
  next_steps_def DEFAULT_REPO_def createProject_eval

section \<open>Properties\<close>

lemma foldl_apply_flag:
  "yes (foldl apply_flag opts fs) = (yes opts \<or> FlagYes \<in> set fs)
   \<and> rpc (foldl apply_flag opts fs) = (rpc opts \<or> FlagRpc \<in> set fs)
   \<and> (template (foldl apply_flag opts fs) = None) = (template opts = None \<and> (\<forall>t. FlagTemplate t \<notin> set fs))
   \<and> (repo (foldl apply_flag opts fs) = None) = (repo opts = None \<and> (\<forall>r. FlagRepo r \<notin> set fs))
   \<and> (branch (foldl apply_flag opts fs) = None) = (branch opts = None \<and> (\<forall>b. FlagBranch b \<notin> set fs))"
proof (induction fs arbitrary: opts)
  case (Cons f fs)
  then show ?case by (cases f) auto
qed simp

lemma displayBanner_frame [simp]:
  "files (displayBanner w) = files w" "cwd (displayBanner w) = cwd w"
  "answers (displayBanner w) = answers w" "prompts_of (trace (displayBanner w)) = prompts_of (trace w)"
  by (simp_all add: displayBanner_def log_msg_def emit_def)

lemma fold_log_msg_trace:
  "trace (fold log_msg ms w) = trace w @ map EvLog ms"
  by (induction ms arbitrary: w) (simp_all add: log_msg_def)

lemma fold_log_msg_prompts [simp]:
  "prompts_of (trace (fold log_msg ms w)) = prompts_of (trace w)"
  by (induction ms) (simp_all add: fold_log_msg_trace)

lemma apply_flag_typescript:
  "apply_flag (opts\<lparr>typescript := b\<rparr>) f =
     (if f = FlagTs then (apply_flag opts f) else (apply_flag opts f)\<lparr>typescript := b\<rparr>)"
  by (cases f) simp_all

lemma foldl_apply_flag_typescript:
  "foldl apply_flag (opts\<lparr>typescript := b\<rparr>) fs =
     (foldl apply_flag opts fs)\<lparr>typescript := b \<or> FlagTs \<in> set fs\<rparr>"
proof (induction fs arbitrary: opts b)
  case (Cons f fs)
  show ?case
  proof (cases "f = FlagTs")
    case True
    then show ?thesis using Cons.IH [where opts = opts and b = True] by simp
  next
    case False
    then show ?thesis using Cons.IH [where opts = "apply_flag opts f" and b = b] by (simp add: apply_flag_typescript)
  qed
qed simp

lemma check_existing_typescript:
  "check_existing p (opts\<lparr>typescript := b\<rparr>) = check_existing p opts"
  by (simp add: check_existing_def cong: if_cong sum.case_cong)

lemma steps_typescript:
  "resolve_name dir (opts\<lparr>typescript := b\<rparr>) = resolve_name dir opts"
  "resolve_template (opts\<lparr>typescript := b\<rparr>) = resolve_template opts"
  "prepare_dir name (opts\<lparr>typescript := b\<rparr>) = prepare_dir name opts"
  "download p choice (opts\<lparr>typescript := b\<rparr>) = download p choice opts"
  "rpc_step p choice (opts\<lparr>typescript := b\<rparr>) = rpc_step p choice opts"
  "git_step (opts\<lparr>typescript := b\<rparr>) = git_step opts"
  "deps_step (opts\<lparr>typescript := b\<rparr>) = deps_step opts"
  by (simp_all add: resolve_name_def resolve_template_def prepare_dir_def check_existing_typescript
      download_def repo_url_def rpc_step_def git_step_def deps_step_def)

lemma createProject_typescript:
  "createProject dir (opts\<lparr>typescript := b\<rparr>) = createProject dir opts"
  by (simp only: createProject_def setup_project_def steps_typescript)

text \<open>
  C13. A run with \<open>-y\<close>/\<open>--yes\<close> among its flags never shows a prompt,
  whatever the other flags, the directory argument and the world.
\<close>

theorem cli_yes_no_prompt:
  assumes "FlagYes \<in> set fs"
  shows "prompts_of (trace (snd (cli_run fs dir w))) = prompts_of (trace w)"
proof -
  have y: "yes (parse_flags fs)"
    using foldl_apply_flag [of cli_defaults fs] assms by (simp add: parse_flags_def)
  obtain r w' where cp: "createProject dir (parse_flags fs) (displayBanner w) = (r, w')"
    by (cases "createProject dir (parse_flags fs) (displayBanner w)")
  have "prompts_of (trace w') = prompts_of (trace w)"
    using act_keepsD [OF createProject_yes_keeps_prompts [OF y, of dir], of "displayBanner w"] cp
    by (simp add: same_prompts_def)
  then show ?thesis
    by (cases r) (simp_all add: cli_run_def cli_action_def cp log_msg_def emit_def)
qed

theorem cli_yes_no_prompt_witness:
  "FlagYes \<in> set [FlagYes, FlagTemplate ''tailwind'']
   \<and> prompts_of (trace (snd (cli_run [FlagYes, FlagTemplate ''tailwind''] [] \<lparr>files = [([], Dir)], cwd = [],
         answers = [], remote = (\<lambda>_. None), tools = (\<lambda>_. True), trace = []\<rparr>))) = []"
  using cli_yes_no_prompt [of "[FlagYes, FlagTemplate ''tailwind'']" "[]"
      "\<lparr>files = [([], Dir)], cwd = [], answers = [], remote = (\<lambda>_. None), tools = (\<lambda>_. True), trace = []\<rparr>"]
  by simp

text \<open>
  C14. The process ends with status 1 exactly when \<open>createProject\<close> throws, and
  with 0 after a success (an explicit \<open>process.exit(0)\<close>) or a cancellation (no
  call of \<open>exit\<close>); a failing external command is never the cause of status 1.
\<close>

theorem cli_exit_status:
  "exit_status (fst (cli_run fs dir w)) =
     (case fst (createProject dir (parse_flags fs) (displayBanner w)) of Thrown e \<Rightarrow> 1 | _ \<Rightarrow> 0)
   \<and> (fst (cli_run fs dir w) = Some 0) = (\<exists>r. fst (createProject dir (parse_flags fs) (displayBanner w)) = Done r)
   \<and> fst (createProject dir (parse_flags fs) (displayBanner w)) \<noteq> Thrown ExecFailed"
  using createProject_never_exec_failed [of dir "parse_flags fs"]
  by (auto simp: cli_run_def cli_action_def exit_status_def act_never_throws_def
      split: prod.splits outcome.splits)

text \<open>
  C15. After a successful run the program prints the success line and the next steps
  after everything \<open>createProject\<close> printed; the \<open>bun install\<close> hint is among
  them exactly when the dependencies were not installed.
\<close>

theorem cli_next_steps:
  assumes "fst (createProject dir (parse_flags fs) (displayBanner w)) = Done r"
  shows "trace (snd (cli_run fs dir w)) =
           trace (snd (createProject dir (parse_flags fs) (displayBanner w))) @ map EvLog (next_steps r)
         \<and> (MsgInstallHint \<in> set (next_steps r)) = (\<not> dependenciesInstalled r)"
  using assms
  by (auto simp: cli_run_def cli_action_def next_steps_def fold_log_msg_trace split: prod.splits)

theorem cli_next_steps_witness:
  "fst (createProject ''my-app'' (parse_flags [FlagYes]) (displayBanner
     \<lparr>files = [([], Dir)], cwd = [], answers = [],
      remote = (\<lambda>u. if u = ''stevedylandev/bhvr-forge#main'' then Some [([''src''], Dir)] else None),
      tools = (\<lambda>c. c = [''git'', ''init'']), trace = []\<rparr>)) =
     Done \<lparr>projectName = ''my-app'', gitInitialized = True, dependenciesInstalled = False, result_template = ''default''\<rparr>
   \<and> MsgInstallHint \<in> set (next_steps \<lparr>projectName = ''my-app'', gitInitialized = True, dependenciesInstalled = False, result_template = ''default''\<rparr>)"
proof -
  have h: "fst (createProject ''my-app'' (parse_flags [FlagYes]) (displayBanner
     \<lparr>files = [([], Dir)], cwd = [], answers = [],
      remote = (\<lambda>u. if u = ''stevedylandev/bhvr-forge#main'' then Some [([''src''], Dir)] else None),
      tools = (\<lambda>c. c = [''git'', ''init'']), trace = []\<rparr>)) =
     Done \<lparr>projectName = ''my-app'', gitInitialized = True, dependenciesInstalled = False, result_template = ''default''\<rparr>"
    by (simp add: createProject_eval parse_flags_def cli_defaults_def displayBanner_def
        log_msg_def emit_def DEFAULT_REPO_def)
  show ?thesis using h cli_next_steps [OF h] by simp
qed

text \<open>
  C16. The options commander builds: \<open>yes\<close> and \<open>rpc\<close> are set exactly when
  their flag is given, \<open>branch\<close> only by \<open>--branch\<close>, and \<open>repo\<close> and
  \<open>template\<close> are always defined, so the fallbacks of \<open>createProject\<close> for a
  missing repository or template are only reached through an empty argument.
\<close>

theorem parse_flags_options:
  "yes (parse_flags fs) = (FlagYes \<in> set fs)
   \<and> rpc (parse_flags fs) = (FlagRpc \<in> set fs)
   \<and> (branch (parse_flags fs) = None) = (\<forall>b. FlagBranch b \<notin> set fs)
   \<and> repo (parse_flags fs) \<noteq> None \<and> template (parse_flags fs) \<noteq> None"
  using foldl_apply_flag [of cli_defaults fs] by (simp add: parse_flags_def cli_defaults_def)

text \<open>
  C17. The \<open>--ts\<close> flag has no effect: dropping an occurrence of it from the flags
  changes nothing in the run, its output or its exit status. The generated project is
  TypeScript whatever the flag says.
\<close>

theorem cli_ts_flag_no_effect:
  "cli_run (fs1 @ FlagTs # fs2) dir w = cli_run (fs1 @ fs2) dir w"
proof -
  have "parse_flags (fs1 @ FlagTs # fs2) =
      (parse_flags (fs1 @ fs2))\<lparr>typescript := True \<or> FlagTs \<in> set fs2\<rparr>"
    using foldl_apply_flag_typescript [where opts = "foldl apply_flag cli_defaults fs1" and b = True and fs = fs2]
    by (simp add: parse_flags_def)
  then show ?thesis by (simp add: cli_run_def cli_action_def createProject_typescript)
qed

end
