(* ===== verification/Argv.thy ===== *)
theory Argv
  imports Cli
begin

text \<open>
  From the argument vector to a run: \<open>program.parse()\<close> (\<open>src/index.ts\<close> line 56)
  hands the arguments to commander, which reads them against the options declared in
  lines 11--25 and calls the action with the first operand as the project directory.
  Commander's option loop is modelled from its documented behaviour: an argument
  \<open>--\<close> ends the options; a declared option that takes a value takes the next
  argument, whatever it looks like; \<open>-yX\<close> is \<open>-y\<close> followed by \<open>-X\<close>;
  \<open>--opt=value\<close> gives a value option its value; any other argument that starts
  with \<open>-\<close> is unknown, and from then on the non-option arguments are set aside with
  it. A value option without a value is an error at once. After the loop, a
  \<open>-h\<close> or \<open>--help\<close> among the unknown arguments prints the help and exits with
  0, and otherwise an unknown option is an error. Errors print a usage error and exit
  with 1; in all three cases the action never runs. The loop puts an argument back when it splits \<open>-yX\<close>, so it is a
  \<open>function\<close> whose termination is proved with a measure on the arguments left.
\<close>

section \<open>The declared options (lines 11--25)\<close>

datatype opt_arity = NoValue cli_flag | TakesValue "string \<Rightarrow> cli_flag"

definition option_decls :: "(string list \<times> opt_arity) list" where
  "option_decls =
    [([''-y'', ''--yes''], NoValue FlagYes),
     ([''--ts'', ''--typescript''], NoValue FlagTs),
     ([''--repo''], TakesValue FlagRepo),
     ([''--template''], TakesValue FlagTemplate),
     ([''--branch''], TakesValue FlagBranch),
     ([''--rpc''], NoValue FlagRpc)]"

definition find_option :: "string \<Rightarrow> opt_arity option" where
  "find_option a = map_option snd (find (\<lambda>(ns, _). a \<in> set ns) option_decls)"

section \<open>Commander's option loop\<close>

datatype argv_error = MissingArgument string | UnknownOption string | HelpRequested

record parse_state =
  ps_operands :: "string list"
  ps_unknown :: "string list"
  ps_to_unknown :: bool
  ps_flags :: "cli_flag list"

definition init_state :: parse_state where
  "init_state = \<lparr>ps_operands = [], ps_unknown = [], ps_to_unknown = False, ps_flags = []\<rparr>"

definition maybe_option :: "string \<Rightarrow> bool" where
  "maybe_option a = (1 < length a \<and> hd a = CHR ''-'')"

definition add_flag :: "cli_flag \<Rightarrow> parse_state \<Rightarrow> parse_state" where
  "add_flag f st = st\<lparr>ps_flags := ps_flags st @ [f]\<rparr>"

text \<open>An argument that is not an option goes to the operands, or to the unknown ones.\<close>

definition push_arg :: "string \<Rightarrow> parse_state \<Rightarrow> parse_state" where
  "push_arg a st =
    (let st' = (if maybe_option a then st\<lparr>ps_to_unknown := True\<rparr> else st) in
     if ps_to_unknown st' then st'\<lparr>ps_unknown := ps_unknown st' @ [a]\<rparr>
     else st'\<lparr>ps_operands := ps_operands st' @ [a]\<rparr>)"

text \<open>\<open>/^--[^=]+=/\<close>: a long option with an attached value.\<close>

definition long_assign :: "string \<Rightarrow> bool" where
  "long_assign a = (take 2 a = ''--'' \<and> drop 2 a \<noteq> [] \<and> hd (drop 2 a) \<noteq> CHR ''='' \<and> CHR ''='' \<in> set (drop 2 a))"

definition short_option :: "string \<Rightarrow> opt_arity option" where
  "short_option a =
    (if 2 < length a \<and> a ! 0 = CHR ''-'' \<and> a ! 1 \<noteq> CHR ''-'' then find_option [CHR ''-'', a ! 1] else None)"

definition assigned_value_option :: "string \<Rightarrow> (string \<Rightarrow> cli_flag) option" where
  "assigned_value_option a =
    (if long_assign a then
       (case find_option (takeWhile (\<lambda>c. c \<noteq> CHR ''='') a) of Some (TakesValue f) \<Rightarrow> Some f | _ \<Rightarrow> None)
     else None)"

definition args_weight :: "string list \<Rightarrow> nat" where
  "args_weight args = sum_list (map (\<lambda>a. Suc (length a)) args)"

function parse_options :: "parse_state \<Rightarrow> string list \<Rightarrow> argv_error + parse_state" where
  "parse_options st [] = Inr st"
| "parse_options st (a # args) =
    (if a = ''--'' then
       Inr (if ps_to_unknown st then st\<lparr>ps_unknown := ps_unknown st @ a # args\<rparr>
            else st\<lparr>ps_operands := ps_operands st @ args\<rparr>)
     else case (if maybe_option a then find_option a else None) of
       Some (TakesValue f) \<Rightarrow>
         (case args of
           [] \<Rightarrow> Inl (MissingArgument a)
         | v # rest \<Rightarrow> parse_options (add_flag (f v) st) rest)
     | Some (NoValue f) \<Rightarrow> parse_options (add_flag f st) args
     | None \<Rightarrow>
         (case short_option a of
           Some (TakesValue f) \<Rightarrow> parse_options (add_flag (f (drop 2 a)) st) args
         | Some (NoValue f) \<Rightarrow> parse_options (add_flag f st) ((CHR ''-'' # drop 2 a) # args)
         | None \<Rightarrow>
             (case assigned_value_option a of
               Some f \<Rightarrow> parse_options (add_flag (f (drop 1 (dropWhile (\<lambda>c. c \<noteq> CHR ''='') a))) st) args
             | None \<Rightarrow> parse_options (push_arg a st) args)))"
  by pat_completeness auto
termination
  by (relation "measure (\<lambda>(st, args). args_weight args)") (auto simp: args_weight_def short_option_def split: if_splits)

text \<open>
  After the loop, a help flag among the unknown arguments stops the program with the
  help; otherwise the first unknown option is reported; otherwise the action gets the
  first operand as \<open>projectDirectory\<close> (the empty string when there is none, which
  the code treats like \<open>undefined\<close>) and the options.
\<close>

definition commander_parse :: "string list \<Rightarrow> argv_error + (string \<times> cli_flag list)" where
  "commander_parse argv =
    (case parse_options init_state argv of
      Inl e \<Rightarrow> Inl e
    | Inr st \<Rightarrow>
        if ''-h'' \<in> set (ps_unknown st) \<or> ''--help'' \<in> set (ps_unknown st) then Inl HelpRequested
        else (case ps_unknown st of
          u # _ \<Rightarrow> Inl (UnknownOption u)
        | [] \<Rightarrow> Inr (case ps_operands st of d # _ \<Rightarrow> d | [] \<Rightarrow> [], ps_flags st)))"

definition usage_message :: "argv_error \<Rightarrow> message" where
  "usage_message e = (case e of
      MissingArgument a \<Rightarrow> MsgMissingArgument a | UnknownOption a \<Rightarrow> MsgUnknownOption a | HelpRequested \<Rightarrow> MsgHelp)"

definition stop_status :: "argv_error \<Rightarrow> nat" where
  "stop_status e = (case e of HelpRequested \<Rightarrow> 0 | _ \<Rightarrow> 1)"

definition cli_main :: "string list \<Rightarrow> world \<Rightarrow> nat option \<times> world" where
  "cli_main argv w =
    (case commander_parse argv of
      Inl e \<Rightarrow> (Some (stop_status e), log_msg (usage_message e) w)
    | Inr (dir, fs) \<Rightarrow> cli_run fs dir w)"

section \<open>Writing options as arguments\<close>

fun render_flag :: "cli_flag \<Rightarrow> string list" where
  "render_flag FlagYes = [''--yes'']"
| "render_flag FlagTs = [''--typescript'']"
| "render_flag (FlagRepo r) = [''--repo'', r]"
| "render_flag (FlagTemplate t) = [''--template'', t]"
| "render_flag (FlagBranch b) = [''--branch'', b]"
| "render_flag FlagRpc = [''--rpc'']"

definition render_argv :: "string \<Rightarrow> cli_flag list \<Rightarrow> string list" where
  "render_argv dir fs = concat (map render_flag fs) @ (if dir = [] then [] else [''--'', dir])"

section \<open>Properties\<close>

lemma find_option_simps [simp]:
  "find_option ''--yes'' = Some (NoValue FlagYes)" "find_option ''--typescript'' = Some (NoValue FlagTs)"
  "find_option ''--repo'' = Some (TakesValue FlagRepo)" "find_option ''--template'' = Some (TakesValue FlagTemplate)"
  "find_option ''--branch'' = Some (TakesValue FlagBranch)" "find_option ''--rpc'' = Some (NoValue FlagRpc)"
  by (simp_all add: find_option_def option_decls_def)

lemma parse_render_flags:
  "parse_options st (concat (map render_flag fs) @ rest) = parse_options (st\<lparr>ps_flags := ps_flags st @ fs\<rparr>) rest"
proof (induction fs arbitrary: st)
  case (Cons f fs)
  then show ?case by (cases f) (simp_all add: maybe_option_def add_flag_def)
qed simp

text \<open>
  C26. Writing a directory and a list of flags as arguments (each flag by its long
  name, value options followed by their value, the directory after \<open>--\<close>) and
  reading them back with commander gives the same directory and flags, in order;
  so the program runs exactly the action for them. A value option takes the next
  argument whatever it is: \<open>--branch --yes\<close> is the branch \<open>--yes\<close>, not the flag.
\<close>

theorem commander_parse_roundtrip:
  "commander_parse (render_argv dir fs) = Inr (dir, fs)
   \<and> cli_main (render_argv dir fs) w = cli_run fs dir w"
proof -
  have "commander_parse (render_argv dir fs) = Inr (dir, fs)"
    using parse_render_flags [where rest = "[]"]
    by (cases "dir = []") (simp_all add: commander_parse_def render_argv_def parse_render_flags init_state_def)
  then show ?thesis by (simp add: cli_main_def)
qed

text \<open>
  C27. A value option given last, after any flags, has no value: commander reports
  the missing argument and the program exits with status 1 before the action runs,
  so nothing but the usage error is printed and no file is touched.
\<close>

theorem cli_missing_argument:
  assumes "find_option opt = Some (TakesValue f)"
  shows "cli_main (render_argv [] fs @ [opt]) w = (Some 1, log_msg (MsgMissingArgument opt) w)"
proof -
  have "maybe_option opt" "opt \<noteq> ''--''"
    using assms by (auto simp: find_option_def option_decls_def maybe_option_def split: if_splits)
  then have "parse_options init_state (render_argv [] fs @ [opt]) = Inl (MissingArgument opt)"
    using assms by (simp add: render_argv_def parse_render_flags)
  then show ?thesis by (simp add: cli_main_def commander_parse_def usage_message_def stop_status_def)
qed

theorem cli_missing_argument_witness:
  "cli_main (render_argv [] [FlagYes] @ [''--repo'']) \<lparr>files = [([], Dir)], cwd = [], answers = [],
      remote = (\<lambda>_. None), tools = (\<lambda>_. True), trace = []\<rparr> =
   (Some 1, log_msg (MsgMissingArgument ''--repo'') \<lparr>files = [([], Dir)], cwd = [], answers = [],
      remote = (\<lambda>_. None), tools = (\<lambda>_. True), trace = []\<rparr>)"
  by (rule cli_missing_argument) simp

text \<open>
  A property of the parse state that setting an option, setting an argument aside and
  the two updates at \<open>--\<close> keep holds at the end of every run of the loop that does
  not stop with an error.
\<close>

lemma parse_options_preserves:
  assumes add: "\<And>f st. Q st \<Longrightarrow> Q (add_flag f st)"
    and push: "\<And>a st. Q st \<Longrightarrow> Q (push_arg a st)"
    and dd: "\<And>st xs. Q st \<Longrightarrow> Q (st\<lparr>ps_unknown := ps_unknown st @ xs\<rparr>)"
      "\<And>st xs. Q st \<Longrightarrow> Q (st\<lparr>ps_operands := ps_operands st @ xs\<rparr>)"
  shows "Q st \<Longrightarrow> (case parse_options st args of Inl _ \<Rightarrow> True | Inr st' \<Rightarrow> Q st')"
proof (induction st args rule: parse_options.induct)
  case (2 st a args)
  show ?case
  proof (cases "a = ''--''")
    case True
    then show ?thesis using "2.prems" dd by simp
  next
    case False
    show ?thesis
    proof (cases "if maybe_option a then find_option a else None")
      case None
      show ?thesis
      proof (cases "short_option a")
        case sNone: None
        show ?thesis
        proof (cases "assigned_value_option a")
          case aNone: None
          have "Q (push_arg a st)" using "2.prems" by (rule push)
          then show ?thesis using "2.IH"(1) [OF False None sNone aNone] False None sNone aNone by simp
        next
          case (Some g)
          have "Q (add_flag (g (drop 1 (dropWhile (\<lambda>c. c \<noteq> CHR ''='') a))) st)" using "2.prems" by (rule add)
          then show ?thesis using "2.IH"(2) [OF False None sNone Some] False None sNone Some by simp
        qed
      next
        case (Some k)
        show ?thesis
        proof (cases k)
          case (NoValue f)
          have "Q (add_flag f st)" using "2.prems" by (rule add)
          then show ?thesis using "2.IH"(3) [OF False None Some NoValue] False None Some NoValue by simp
        next
          case (TakesValue f)
          have "Q (add_flag (f (drop 2 a)) st)" using "2.prems" by (rule add)
          then show ?thesis using "2.IH"(4) [OF False None Some TakesValue] False None Some TakesValue by simp
        qed
      qed
    next
      case (Some k)
      show ?thesis
      proof (cases k)
        case (NoValue f)
        have "Q (add_flag f st)" using "2.prems" by (rule add)
        then show ?thesis using "2.IH"(5) [OF False Some NoValue] False Some NoValue by simp
      next
        case (TakesValue f)
        show ?thesis
        proof (cases args)
          case Nil
          then show ?thesis using False Some TakesValue by simp
        next
          case (Cons v rest)
          have "Q (add_flag (f v) st)" using "2.prems" by (rule add)
          then show ?thesis using "2.IH"(6) [OF False Some TakesValue Cons] False Some TakesValue Cons by simp
        qed
      qed
    qed
  qed
qed simp

text \<open>
  C28. An argument that starts with \<open>-\<close> and that commander cannot read as a declared
  option, a combined short flag, an attached value or \<open>--\<close> stops the program
  before the action, whatever follows it: it is set aside as unknown and stays first
  among the unknown arguments, so commander exits with the help, a missing value or
  that unknown option, and nothing else happens.
\<close>

theorem cli_unknown_option_stops:
  assumes "maybe_option u" "u \<noteq> ''--''" "find_option u = None" "short_option u = None"
    "assigned_value_option u = None"
  shows "\<exists>e. commander_parse (render_argv [] fs @ u # rest) = Inl e
    \<and> cli_main (render_argv [] fs @ u # rest) w = (Some (stop_status e), log_msg (usage_message e) w)"
proof -
  let ?st = "init_state\<lparr>ps_flags := fs\<rparr>"
  have pu: "ps_unknown (push_arg u ?st) = [u]"
    using assms(1) by (simp add: push_arg_def init_state_def)
  have "parse_options init_state (render_argv [] fs @ u # rest) = parse_options (push_arg u ?st) rest"
    using assms by (simp add: render_argv_def parse_render_flags init_state_def)
  moreover have q0: "\<exists>us. ps_unknown (push_arg u ?st) = u # us" using pu by simp
  moreover have "case parse_options (push_arg u ?st) rest of
      Inl _ \<Rightarrow> True | Inr st' \<Rightarrow> (\<exists>us. ps_unknown st' = u # us)"
    by (rule parse_options_preserves [where Q = "\<lambda>st. \<exists>us. ps_unknown st = u # us", OF _ _ _ _ q0])
      (auto simp: add_flag_def push_arg_def Let_def)
  ultimately have "\<exists>e. commander_parse (render_argv [] fs @ u # rest) = Inl e"
    by (auto simp: commander_parse_def split: sum.splits)
  then show ?thesis by (auto simp: cli_main_def)
qed

theorem cli_unknown_option_stops_witness:
  "\<exists>e. commander_parse (render_argv [] [FlagYes] @ ''--bogus'' # [''my-app'']) = Inl e
    \<and> cli_main (render_argv [] [FlagYes] @ ''--bogus'' # [''my-app''])
        \<lparr>files = [([], Dir)], cwd = [], answers = [], remote = (\<lambda>_. None), tools = (\<lambda>_. True), trace = []\<rparr>
      = (Some (stop_status e), log_msg (usage_message e)
        \<lparr>files = [([], Dir)], cwd = [], answers = [], remote = (\<lambda>_. None), tools = (\<lambda>_. True), trace = []\<rparr>)"
  by (rule cli_unknown_option_stops)
    (simp_all add: maybe_option_def find_option_def option_decls_def short_option_def
      assigned_value_option_def long_assign_def)

end
