(* ===== verification/PromptOrder.thy ===== *)
theory PromptOrder
  imports Workflow
begin

text \<open>
  The order of the questions. The specification describes the workflow as a linear
  sequence of resolve-or-cancel steps that never revisits an earlier step; the
  abstract form of that promise is the sequence of prompt names below, one per step
  that may ask. Every run of \<open>createProject\<close> refines it: the prompts it shows,
  identified by their \<open>name\<close> field, are a subsequence of that sequence.
\<close>

definition prompt_key :: "prompt \<Rightarrow> string" where
  "prompt_key q = (case q of
      TextPrompt n _ \<Rightarrow> n
    | SelectPrompt n _ _ \<Rightarrow> n
    | ConfirmPrompt n _ \<Rightarrow> n)"

definition workflow_prompt_order :: "string list" where
  "workflow_prompt_order = [''projectName'', ''template'', ''overwrite'', ''useRpc'', ''initGit'', ''installDeps'']"

definition prompts_within :: "string list \<Rightarrow> world \<Rightarrow> world \<Rightarrow> bool" where
  "prompts_within ks w w' =
    (\<exists>ps. prompts_of (trace w') = prompts_of (trace w) @ ps \<and> subseq (map prompt_key ps) ks)"

section \<open>Composing the steps\<close>

lemma prompts_within_refl [simp]: "prompts_within ks w w"
  unfolding prompts_within_def by (rule exI [of _ "[]"]) simp

lemma prompts_within_append:
  assumes "prompts_within a w1 w2" and "prompts_within b w2 w3"
  shows "prompts_within (a @ b) w1 w3"
proof -
  obtain ps qs where "prompts_of (trace w2) = prompts_of (trace w1) @ ps" "subseq (map prompt_key ps) a"
    and "prompts_of (trace w3) = prompts_of (trace w2) @ qs" "subseq (map prompt_key qs) b"
    using assms unfolding prompts_within_def by blast
  then show ?thesis
    unfolding prompts_within_def by (intro exI [of _ "ps @ qs"]) (simp add: list_emb_append_mono)
qed

lemma prompts_within_bind:
  assumes "act_keeps (prompts_within a) m" and "\<And>x. act_keeps (prompts_within b) (f x)"
  shows "act_keeps (prompts_within (a @ b)) (bind_act m f)"
proof (rule act_keepsI)
  fix s
  obtain r s' where ms: "m s = (r, s')" by (cases "m s")
  have 1: "prompts_within a s s'" using act_keepsD [OF assms(1), of s] ms by simp
  show "prompts_within (a @ b) s (snd (bind_act m f s))"
  proof (cases r)
    case (Done x)
    then have "bind_act m f s = f x s'" using ms by (simp add: bind_act_def)
    moreover have "prompts_within b s' (snd (f x s'))" by (rule act_keepsD [OF assms(2)])
    ultimately show ?thesis using prompts_within_append [OF 1] by simp
  qed (use ms 1 prompts_within_append [OF 1 prompts_within_refl] in \<open>simp_all add: bind_act_def\<close>)
qed

lemma same_prompts_within: "act_keeps same_prompts m \<Longrightarrow> act_keeps (prompts_within []) m"
  unfolding act_keeps_def same_prompts_def prompts_within_def by simp

lemma ask_prompts: "ask q w = (a, w') \<Longrightarrow> prompts_of (trace w') = prompts_of (trace w) @ [q]"
  by (auto simp: ask_def emit_def split: list.splits)

lemma prompt_steps_within:
  "prompt_text n i w = (r, w') \<Longrightarrow> prompts_within [n] w w'"
  "prompt_select n cs j w = (r', w') \<Longrightarrow> prompts_within [n] w w'"
  "prompt_confirm n b w = (r'', w') \<Longrightarrow> prompts_within [n] w w'"
  by (auto simp: prompt_text_def prompt_select_def prompt_confirm_def prompts_within_def prompt_key_def
      dest!: ask_prompts split: prod.splits)

lemma prompts_within_frame [simp]:
  "prompts_within ks w (log_msg m w') = prompts_within ks w w'"
  "prompts_within ks w (w'\<lparr>files := f\<rparr>) = prompts_within ks w w'"
  by (simp_all add: prompts_within_def log_msg_def emit_def)

lemma prompts_within_keeps:
  "prompts_within ks w w' \<Longrightarrow> act_keeps same_prompts m \<Longrightarrow> prompts_within ks w (snd (m w'))"
  using act_keepsD [of same_prompts m w'] by (simp add: prompts_within_def same_prompts_def)

section \<open>One question per step\<close>

lemma resolve_name_within: "act_keeps (prompts_within [''projectName'']) (resolve_name dir opts)"
proof (rule act_keepsI)
  fix w
  obtain r w' where pt: "prompt_text ''projectName'' default_name w = (r, w')" by (cases "prompt_text ''projectName'' default_name w")
  have "prompts_within [''projectName''] w w'" by (rule prompt_steps_within(1) [OF pt])
  then show "prompts_within [''projectName''] w (snd (resolve_name dir opts w))"
    by (cases r) (simp_all add: resolve_name_def pt cancel_with_msg_def return_act_def)
qed

lemma resolve_template_within: "act_keeps (prompts_within [''template'']) (resolve_template opts)"
proof (rule act_keepsI)
  fix w
  obtain r w' where pt: "prompt_select ''template'' template_choices 0 w = (r, w')"
    by (cases "prompt_select ''template'' template_choices 0 w")
  have "prompts_within [''template''] w w'" by (rule prompt_steps_within(2) [OF pt])
  then show "prompts_within [''template''] w (snd (resolve_template opts w))"
    by (cases r) (simp_all add: resolve_template_def pt cancel_with_msg_def return_act_def)
qed

lemma check_existing_within: "act_keeps (prompts_within [''overwrite'']) (check_existing p opts)"
proof (rule act_keepsI)
  fix w
  obtain r w' where pt: "prompt_confirm ''overwrite'' False w = (r, w')"
    by (cases "prompt_confirm ''overwrite'' False w")
  have "prompts_within [''overwrite''] w w'" by (rule prompt_steps_within(3) [OF pt])
  then have "prompts_within [''overwrite''] w (snd (confirm_overwrite p w))"
    by (simp add: confirm_overwrite_def pt cancel_with_msg_def split: option.splits bool.splits)
  then show "prompts_within [''overwrite''] w (snd (check_existing p opts w))"
    by (simp add: check_existing_def split: sum.splits)
qed

lemma prepare_dir_within: "act_keeps (prompts_within [''overwrite'']) (prepare_dir name opts)"
proof -
  have "act_keeps (prompts_within ([''overwrite''] @ [] @ [])) (prepare_dir name opts)"
    unfolding prepare_dir_def Let_def
    by (rule act_keeps_inspect, intro prompts_within_bind check_existing_within same_prompts_within
        keeps_prompts_prims keeps_intros) simp
  then show ?thesis by simp
qed

lemma rpc_step_within: "act_keeps (prompts_within [''useRpc'']) (rpc_step p choice opts)"
proof (rule act_keepsI)
  fix w
  obtain r w' where pt: "prompt_confirm ''useRpc'' False w = (r, w')"
    by (cases "prompt_confirm ''useRpc'' False w")
  have pw: "prompts_within [''useRpc''] w w'" by (rule prompt_steps_within(3) [OF pt])
  have "prompts_within [''useRpc''] w (snd (run_patch p choice w'))"
    by (rule prompts_within_keeps [OF pw run_patch_keeps_prompts])
  moreover have "prompts_within [''useRpc''] w (snd (run_patch p choice w))"
    by (rule prompts_within_keeps [OF prompts_within_refl run_patch_keeps_prompts])
  ultimately show "prompts_within [''useRpc''] w (snd (rpc_step p choice opts w))"
    using pw by (simp add: rpc_step_def pt cancel_with_msg_def return_act_def split: option.splits)
qed

lemma git_deps_within:
  "act_keeps (prompts_within [''initGit'']) (git_step opts)"
  "act_keeps (prompts_within [''installDeps'']) (deps_step opts)"
proof (rule_tac [!] act_keepsI)
  fix w
  obtain r w' where pt: "prompt_confirm ''initGit'' True w = (r, w')"
    by (cases "prompt_confirm ''initGit'' True w")
  have pw: "prompts_within [''initGit''] w w'" by (rule prompt_steps_within(3) [OF pt])
  show "prompts_within [''initGit''] w (snd (git_step opts w))"
    using prompts_within_keeps [OF pw try_git_init_keeps_prompts]
      prompts_within_keeps [OF prompts_within_refl try_git_init_yes_keeps_prompts, of "[''initGit'']" w] pw
    by (simp add: git_step_def pt split: option.splits bool.splits)
next
  fix w
  obtain r w' where pt: "prompt_confirm ''installDeps'' True w = (r, w')"
    by (cases "prompt_confirm ''installDeps'' True w")
  have pw: "prompts_within [''installDeps''] w w'" by (rule prompt_steps_within(3) [OF pt])
  show "prompts_within [''installDeps''] w (snd (deps_step opts w))"
    using prompts_within_keeps [OF pw install_deps_keeps_prompts]
      prompts_within_keeps [OF prompts_within_refl install_deps_yes_keeps_prompts, of "[''installDeps'']" w] pw
    by (simp add: deps_step_def pt split: option.splits bool.splits)
qed

section \<open>The refinement\<close>

text \<open>
  C20. Every run of \<open>createProject\<close>, successful, cancelled or failing, shows its
  prompts in the order of the specification's steps (name, template, overwrite, RPC,
  git, dependencies), each at most once: the workflow is linear and never asks an
  earlier question again.
\<close>

theorem createProject_prompt_order:
  "\<exists>ps. prompts_of (trace (snd (createProject dir opts w))) = prompts_of (trace w) @ ps
      \<and> subseq (map prompt_key ps) workflow_prompt_order"
proof -
  have "act_keeps (prompts_within ([''projectName''] @ [''template''] @ [''overwrite''] @ [] @ [] @ [] @
      [''useRpc''] @ [''initGit''] @ [''installDeps''] @ [])) (createProject dir opts)"
    unfolding createProject_def setup_project_def download_def
    by (intro prompts_within_bind resolve_name_within resolve_template_within prepare_dir_within
        rpc_step_within git_deps_within same_prompts_within keeps_prompts_prims
        rename_package_keeps_prompts remove_git_keeps_prompts keeps_intros) simp
  then show ?thesis
    using act_keepsD by (fastforce simp: prompts_within_def workflow_prompt_order_def)
qed

end
