(* ===== verification/CommandOrder.thy ===== *)
theory CommandOrder
  imports Workflow
begin

text \<open>
  The order of the external commands. The specification's steps run in a fixed order:
  the RPC patch (which may install \<open>hono\<close>), then \<open>git init\<close>, then the
  dependency installation with its fallback. The abstract form of that promise is the
  command sequence \<open>workflow_command_order\<close>; every run of \<open>createProject\<close> refines
  it: the commands it runs, read off the trace, are a subsequence of that sequence, so
  no command runs twice and none runs before one listed earlier.
\<close>

definition execs_of :: "event list \<Rightarrow> string list list" where
  "execs_of es = concat (map (\<lambda>e. case e of EvExec c \<Rightarrow> [c] | _ \<Rightarrow> []) es)"

definition workflow_command_order :: "string list list" where
  "workflow_command_order =
    [[''bun'', ''install'', ''hono''], [''git'', ''init''], [''bun'', ''install''], [''npm'', ''install'']]"

definition cmds_within :: "string list list \<Rightarrow> world \<Rightarrow> world \<Rightarrow> bool" where
  "cmds_within ks w w' = (\<exists>cs. execs_of (trace w') = execs_of (trace w) @ cs \<and> subseq cs ks)"

definition same_execs :: "world \<Rightarrow> world \<Rightarrow> bool" where
  "same_execs w w' = (execs_of (trace w') = execs_of (trace w))"

section \<open>Composing the steps\<close>

lemma execs_of_simps [simp]:
  "execs_of [] = []" "execs_of (es @ es') = execs_of es @ execs_of es'"
  "execs_of [EvExec c] = [c]" "execs_of [EvLog m] = []" "execs_of [EvPrompt q] = []"
  "execs_of [EvFetch u] = []"
  by (simp_all add: execs_of_def)

lemma same_execs_order [simp]: "reflp same_execs" "transp same_execs"
  by (auto simp: same_execs_def reflp_def transp_def)

lemma cmds_within_refl [simp]: "cmds_within ks w w"
  unfolding cmds_within_def by (rule exI [of _ "[]"]) simp

lemma cmds_within_append:
  assumes "cmds_within a w1 w2" and "cmds_within b w2 w3"
  shows "cmds_within (a @ b) w1 w3"
proof -
  obtain cs ds where "execs_of (trace w2) = execs_of (trace w1) @ cs" "subseq cs a"
    and "execs_of (trace w3) = execs_of (trace w2) @ ds" "subseq ds b"
    using assms unfolding cmds_within_def by blast
  then show ?thesis
    unfolding cmds_within_def by (intro exI [of _ "cs @ ds"]) (simp add: list_emb_append_mono)
qed

lemma cmds_within_bind:
  assumes "act_keeps (cmds_within a) m" and "\<And>x. act_keeps (cmds_within b) (f x)"
  shows "act_keeps (cmds_within (a @ b)) (bind_act m f)"
proof (rule act_keepsI)
  fix s
  obtain r s' where ms: "m s = (r, s')" by (cases "m s")
  have 1: "cmds_within a s s'" using act_keepsD [OF assms(1), of s] ms by simp
  show "cmds_within (a @ b) s (snd (bind_act m f s))"
  proof (cases r)
    case (Done x)
    then have "bind_act m f s = f x s'" using ms by (simp add: bind_act_def)
    moreover have "cmds_within b s' (snd (f x s'))" by (rule act_keepsD [OF assms(2)])
    ultimately show ?thesis using cmds_within_append [OF 1] by simp
  qed (use ms 1 cmds_within_append [OF 1 cmds_within_refl] in \<open>simp_all add: bind_act_def\<close>)
qed

lemma same_execs_within: "act_keeps same_execs m \<Longrightarrow> act_keeps (cmds_within ks) m"
  unfolding act_keeps_def same_execs_def cmds_within_def by (metis append_Nil2 list_emb_Nil)

lemma cmds_within_frame [simp]:
  "cmds_within ks w (log_msg m w') = cmds_within ks w w'"
  "cmds_within ks w (w'\<lparr>files := f\<rparr>) = cmds_within ks w w'"
  by (simp_all add: cmds_within_def log_msg_def emit_def)

lemma run_cmd_within: "cmds_within [c] w (snd (run_cmd c w))"
  unfolding cmds_within_def by (intro exI [of _ "[c]"]) (simp add: run_cmd_def emit_def)

lemma prompt_execs:
  "execs_of (trace (snd (prompt_text n i w))) = execs_of (trace w)"
  "execs_of (trace (snd (prompt_select n cs j w))) = execs_of (trace w)"
  "execs_of (trace (snd (prompt_confirm n b w))) = execs_of (trace w)"
  by (simp_all add: prompt_text_def prompt_select_def prompt_confirm_def ask_def emit_def
      split: prod.splits list.splits)

lemma keeps_execs_prims [keeps_intros]:
  "act_keeps same_execs (read_json_act p)"
  "act_keeps same_execs (write_act p c)"
  "act_keeps same_execs (ensure_dir_act p)"
  "act_keeps same_execs (clone_act u p)"
  "act_keeps same_execs (pure_act r)"
  "act_keeps same_execs (log_act m)"
  "act_keeps same_execs cancel_with_msg"
  by (auto simp: act_keeps_def same_execs_def read_json_act_def w_read_json_def write_act_def
      w_write_def ensure_dir_act_def w_ensure_dir_def clone_act_def w_clone_def pure_act_def
      log_act_def log_msg_def cancel_with_msg_def Let_def split: sum.splits option.splits prod.splits)

lemma cmds_within_order [simp]: "reflp (cmds_within ks)"
  by (simp add: reflp_def)

lemma cmds_within_mono: "subseq a b \<Longrightarrow> cmds_within a w w' \<Longrightarrow> cmds_within b w w'"
  unfolding cmds_within_def using subseq_order.order_trans by blast

lemma exec_act_within: "act_keeps (cmds_within [c]) (exec_act c)"
  unfolding act_keeps_def cmds_within_def by (auto simp: exec_act_def emit_def)

lemma bind_same_left:
  "act_keeps same_execs m \<Longrightarrow> (\<And>x. act_keeps (cmds_within b) (f x)) \<Longrightarrow> act_keeps (cmds_within b) (bind_act m f)"
  using cmds_within_bind [of "[]" m b f] same_execs_within [of m "[]"] by simp

lemma bind_same_right:
  assumes "act_keeps (cmds_within a) m" and "\<And>x. act_keeps same_execs (f x)"
  shows "act_keeps (cmds_within a) (bind_act m f)"
proof -
  have "act_keeps (cmds_within (a @ [])) (bind_act m f)"
    by (rule cmds_within_bind [OF assms(1)]) (rule same_execs_within [OF assms(2)])
  then show ?thesis by simp
qed

section \<open>The commands of each step\<close>

lemma prompt_steps_same:
  "act_keeps same_execs (resolve_name dir opts)"
  "act_keeps same_execs (resolve_template opts)"
  "act_keeps same_execs (confirm_overwrite p)"
proof (rule_tac [!] act_keepsI)
  fix w
  show "same_execs w (snd (resolve_name dir opts w))"
    using prompt_execs(1) [of "''projectName''" default_name w]
    by (auto simp: resolve_name_def same_execs_def cancel_with_msg_def log_msg_def
        split: prod.splits option.splits)
next
  fix w
  show "same_execs w (snd (resolve_template opts w))"
    using prompt_execs(2) [of "''template''" template_choices 0 w]
    by (auto simp: resolve_template_def same_execs_def cancel_with_msg_def log_msg_def
        split: prod.splits option.splits)
next
  fix w
  show "same_execs w (snd (confirm_overwrite p w))"
    using prompt_execs(3) [of "''overwrite''" False w]
    by (auto simp: confirm_overwrite_def same_execs_def cancel_with_msg_def log_msg_def
        split: prod.splits option.splits bool.splits)
qed

lemma fs_steps_same:
  "act_keeps same_execs (prepare_dir name opts)"
  "act_keeps same_execs (download p choice opts)"
  "act_keeps same_execs (rename_package p name)"
  "act_keeps same_execs (remove_git p)"
proof -
  have ce: "act_keeps same_execs (check_existing q opts)" for q
    unfolding check_existing_def
    by (rule act_keepsI) (use act_keepsD [OF prompt_steps_same(3)] in
        \<open>auto simp: same_execs_def split: sum.splits\<close>)
  show "act_keeps same_execs (prepare_dir name opts)"
    unfolding prepare_dir_def Let_def by (rule act_keeps_inspect, intro keeps_intros ce) simp_all
  show "act_keeps same_execs (download p choice opts)"
    unfolding download_def by (rule keeps_execs_prims)
  show "act_keeps same_execs (rename_package p name)"
    unfolding rename_package_def by (rule act_keeps_guard, intro keeps_intros) simp_all
  show "act_keeps same_execs (remove_git p)"
    by (rule act_keepsI) (simp add: remove_git_def same_execs_def log_msg_def)
qed

lemma cmds_within_shift:
  "execs_of (trace w') = execs_of (trace w) \<Longrightarrow> cmds_within ks w w'' = cmds_within ks w' w''"
  by (simp add: cmds_within_def)

lemma client_step_within: "act_keeps (cmds_within [[''bun'', ''install'', ''hono'']]) (rpc_client_pkg_step p)"
  unfolding rpc_client_pkg_step_def
  apply (rule bind_same_left [OF keeps_execs_prims(1)])
  apply (rule bind_same_left [OF keeps_execs_prims(5)])
  apply (rule bind_same_right [OF act_keeps_if [OF act_keeps_return exec_act_within]])
   apply simp
  apply (rule keeps_execs_prims(2))
  done

lemma patch_within: "cmds_within [[''bun'', ''install'', ''hono'']] w (snd (patchFilesForRPC p choice w))"
proof -
  have "act_keeps (cmds_within [[''bun'', ''install'', ''hono'']]) (rpc_steps p choice)"
    unfolding rpc_steps_def rpc_server_pkg_step_def
    by (rule bind_same_right [OF client_step_within]) (intro keeps_intros; simp)
  then have "cmds_within [[''bun'', ''install'', ''hono'']] w (snd (rpc_steps p choice w))"
    by (rule act_keepsD)
  then show ?thesis by (cases "rpc_steps p choice w") (auto simp: patchFilesForRPC_def split: outcome.splits)
qed

lemma rpc_step_cmds_within: "act_keeps (cmds_within [[''bun'', ''install'', ''hono'']]) (rpc_step p choice opts)"
proof (rule act_keepsI)
  fix w
  show "cmds_within [[''bun'', ''install'', ''hono'']] w (snd (rpc_step p choice opts w))"
  proof (cases "\<not> yes opts \<and> \<not> rpc opts")
    case True
    obtain r w' where pt: "prompt_confirm ''useRpc'' False w = (r, w')"
      by (cases "prompt_confirm ''useRpc'' False w")
    have sh: "cmds_within ks w w'' = cmds_within ks w' w''" for ks w''
      using prompt_execs(3) [of "''useRpc''" False w] pt by (intro cmds_within_shift) simp
    show ?thesis
      using True patch_within [of w' p choice] sh
      by (simp add: rpc_step_def pt cancel_with_msg_def run_patch_def split: option.splits)
  next
    case False
    then show ?thesis using patch_within [of w p choice] by (auto simp: rpc_step_def run_patch_def)
  qed
qed

lemma git_deps_cmds:
  "cmds_within [[''git'', ''init'']] w (snd (try_git_init w))"
  "cmds_within [[''git'', ''init'']] w (snd (try_git_init_yes w))"
  "cmds_within [[''bun'', ''install''], [''npm'', ''install'']] w (snd (install_deps w))"
  "cmds_within [[''bun'', ''install''], [''npm'', ''install'']] w (snd (install_deps_yes w))"
  by (auto simp: try_git_init_def try_git_init_yes_def install_deps_def install_deps_yes_def
      run_cmd_def cmds_within_def log_msg_def emit_def execs_of_def split: bool.splits)

lemma git_deps_step_within:
  "act_keeps (cmds_within [[''git'', ''init'']]) (git_step opts)"
  "act_keeps (cmds_within [[''bun'', ''install''], [''npm'', ''install'']]) (deps_step opts)"
proof (rule_tac [!] act_keepsI)
  fix w
  obtain r w' where pt: "prompt_confirm ''initGit'' True w = (r, w')"
    by (cases "prompt_confirm ''initGit'' True w")
  have sh: "cmds_within ks w w'' = cmds_within ks w' w''" for ks w''
    using prompt_execs(3) [of "''initGit''" True w] pt by (intro cmds_within_shift) simp
  show "cmds_within [[''git'', ''init'']] w (snd (git_step opts w))"
  proof (cases "yes opts")
    case False
    then show ?thesis using git_deps_cmds(1) [of w'] sh
      by (simp add: git_step_def pt split: option.splits bool.splits)
  qed (simp add: git_step_def git_deps_cmds(2))
next
  fix w
  obtain r w' where pt: "prompt_confirm ''installDeps'' True w = (r, w')"
    by (cases "prompt_confirm ''installDeps'' True w")
  have sh: "cmds_within ks w w'' = cmds_within ks w' w''" for ks w''
    using prompt_execs(3) [of "''installDeps''" True w] pt by (intro cmds_within_shift) simp
  show "cmds_within [[''bun'', ''install''], [''npm'', ''install'']] w (snd (deps_step opts w))"
  proof (cases "yes opts")
    case False
    then show ?thesis using git_deps_cmds(3) [of w'] sh
      by (simp add: deps_step_def pt split: option.splits bool.splits)
  qed (simp add: deps_step_def git_deps_cmds(4))
qed

section \<open>The refinement\<close>

text \<open>
  C30. Every run of \<open>createProject\<close>, successful, cancelled or failing, runs its
  external commands in the order of the specification's steps: \<open>bun install hono\<close>
  (RPC patch), \<open>git init\<close>, \<open>bun install\<close>, \<open>npm install\<close>, each at most
  once, so the dependencies are never installed before the repository is initialised
  and the fallback never runs before the first attempt.
\<close>

theorem createProject_command_order:
  "\<exists>cs. execs_of (trace (snd (createProject dir opts w))) = execs_of (trace w) @ cs
      \<and> subseq cs workflow_command_order"
proof -
  have "act_keeps (cmds_within ([[''bun'', ''install'', ''hono'']] @ [[''git'', ''init'']] @
      [[''bun'', ''install''], [''npm'', ''install'']])) (createProject dir opts)"
    unfolding createProject_def setup_project_def
    apply (rule bind_same_left [OF prompt_steps_same(1)])
    apply (rule bind_same_left [OF prompt_steps_same(2)])
    apply (rule bind_same_left [OF fs_steps_same(1)])
    apply (rule bind_same_left [OF fs_steps_same(2)])
    apply (rule bind_same_left [OF fs_steps_same(3)])
    apply (rule bind_same_left [OF fs_steps_same(4)])
    apply (rule cmds_within_bind [OF rpc_step_cmds_within])
    apply (rule cmds_within_bind [OF git_deps_step_within(1)])
    apply (rule bind_same_right [OF git_deps_step_within(2)])
    apply (rule act_keeps_return, simp)
    done
  then show ?thesis
    using act_keepsD by (fastforce simp: cmds_within_def workflow_command_order_def)
qed

end
