(* ===== verification/Progress.thy ===== *)
theory Progress
  imports Workflow
begin

text \<open>
  Progress of a non-interactive run: when the target directory is new and can be
  created, the download succeeds with a well-formed tree and the fetched manifest is
  absent or a JSON object, \<open>createProject\<close> completes with a result. Every later
  step (the \<open>.git\<close> removal, the RPC patch, \<open>git init\<close>, the installation) then
  completes whatever the tools do.
\<close>

section \<open>Steps that always complete with \<open>--yes\<close>\<close>

lemma late_steps_complete:
  assumes "yes opts"
  shows "act_completes (remove_git p)" "act_completes (rpc_step p choice opts)"
    "act_completes (git_step opts)" "act_completes (deps_step opts)"
  using assms
  by (auto simp: act_completes_def remove_git_def rpc_step_def run_patch_def return_act_def
      git_step_def try_git_init_yes_def deps_step_def install_deps_yes_def
      split: prod.splits bool.splits)

lemma tree_ok_keys: "tree_ok seen es \<Longrightarrow> r \<in> set (map fst es) \<Longrightarrow> r \<noteq> []"
  by (induction seen es rule: tree_ok.induct) (auto split: if_splits)

lemma map_of_placed_prefix: "map_of (placed d es) (d @ x) = map_of es x"
  by (induction es) (auto simp: placed_def)

lemma map_of_placed_self: "tree_ok seen es \<Longrightarrow> map_of (placed d es) d = None"
  using map_of_placed_prefix [of d es "[]"] by simp (metis tree_ok_keys map_of_eq_None_iff image_set)

section \<open>A fresh directory, a good download\<close>

lemma fresh_below:
  assumes wf: "fs_wf f" and fresh: "fs_lookup f p = None" and r: "r \<noteq> []"
  shows "fs_lookup f (p @ r) = None"
proof (rule ccontr)
  assume "fs_lookup f (p @ r) \<noteq> None"
  then have "fs_lookup f p = Some Dir"
    using fs_wf_prefix_dir [OF wf] r by (simp add: strict_prefix_def)
  with fresh show False by simp
qed

lemma rename_package_completes:
  assumes pd: "fs_lookup (files w) p = Some Dir"
    and pkg: "fs_lookup (files w) (pkg_json_path p) = None \<or>
      (\<exists>kvs. fs_lookup (files w) (pkg_json_path p) = Some (File (JsonDoc (JObj kvs))))"
  shows "\<exists>w'. rename_package p name w = (Done (), w')"
  using pkg
proof
  assume "fs_lookup (files w) (pkg_json_path p) = None"
  then show ?thesis by (simp add: rename_package_def fs_exists_def)
next
  assume "\<exists>kvs. fs_lookup (files w) (pkg_json_path p) = Some (File (JsonDoc (JObj kvs)))"
  then obtain kvs where lk: "fs_lookup (files w) (pkg_json_path p) = Some (File (JsonDoc (JObj kvs)))" by blast
  have wr: "write_file (files w) (pkg_json_path p) (JsonDoc (JObj (AList.update ''name'' (JStr name) kvs))) =
      Inr (AList.update (pkg_json_path p) (File (JsonDoc (JObj (AList.update ''name'' (JStr name) kvs)))) (files w))"
    using pd lk by (intro write_file_fresh) (simp_all add: pkg_json_path_def)
  show ?thesis
    using lk wr
    by (simp add: rename_package_def fs_exists_def bind_act_def read_json_act_def w_read_json_def
        read_json_def write_act_def w_write_def lift_err_def)
qed

text \<open>
  C22. With \<open>--yes\<close>, a target directory that does not exist yet but whose parent
  does, a download that returns a well-formed tree, and a fetched \<open>package.json\<close>
  that is absent or a JSON object, the run completes with a result: no later step
  can cancel or abort it.
\<close>

theorem createProject_yes_completes:
  assumes yes: "yes opts" and wf: "fs_wf (files w)"
    and fresh: "fs_lookup (files w) (resolve_path (cwd w) (if dir = [] then default_name else dir)) = None"
    and par: "fs_lookup (files w) (butlast (resolve_path (cwd w) (if dir = [] then default_name else dir))) = Some Dir"
    and fetch: "remote w (repo_url opts (js_or (template opts) ''default'')) = Some t"
    and tree: "tree_ok [] t"
    and pkg: "map_of t [''package.json''] = None \<or> (\<exists>kvs. map_of t [''package.json''] = Some (File (JsonDoc (JObj kvs))))"
  shows "\<exists>r. fst (createProject dir opts w) = Done r"
proof -
  define name where "name = (if dir = [] then default_name else dir)"
  define choice where "choice = js_or (template opts) ''default''"
  define p where "p = resolve_path (cwd w) name"
  have p0: "p \<noteq> []" using fresh wf by (auto simp: p_def name_def fs_wf_def)
  have rn: "resolve_name dir opts w = (Done name, w)"
    using yes by (simp add: resolve_name_def name_def return_act_def)
  have rt: "resolve_template opts w = (Done choice, w)"
    using yes by (simp add: resolve_template_def choice_def return_act_def)
  obtain f1 where ens: "ensure_dir (files w) p = Inr f1"
    and lk1: "\<forall>x. fs_lookup f1 x = (if x = p then Some Dir else fs_lookup (files w) x)"
    using ensure_dir_fresh [OF wf _ p0] fresh par by (auto simp: p_def name_def)
  define w1 where "w1 = w\<lparr>files := f1\<rparr>"
  have pd: "prepare_dir name opts w = (Done p, w1)"
    using fresh ens
    by (simp add: prepare_dir_def Let_def check_existing_def fs_exists_def bind_act_def ensure_dir_act_def
        lift_err_def w_ensure_dir_def return_act_def w1_def p_def name_def)
  have wf1: "fs_wf f1" using ensure_dir_wf [OF wf ens] .
  have none: "\<forall>r\<in>set (map fst t). fs_lookup f1 (p @ r) = None"
    using lk1 fresh_below [OF wf] fresh tree_ok_keys [OF tree] by (auto simp: p_def name_def)
  obtain f2 where ext: "extract_tree f1 p t = (Inr (), f2)"
    and lk2: "\<forall>x. fs_lookup f2 x = (case map_of (placed p t) x of Some n \<Rightarrow> Some n | None \<Rightarrow> fs_lookup f1 x)"
    using extract_tree_ok [OF wf1 _ _ none tree] lk1 by auto
  define w2 where "w2 = (emit (EvFetch (repo_url opts choice)) w1)\<lparr>files := f2\<rparr>"
  have dl: "download p choice opts w1 = (Done (), w2)"
    using fetch ext
    by (simp add: download_def clone_act_def lift_err_def w_clone_def Let_def w1_def w2_def choice_def emit_def)
  have pkg2: "fs_lookup (files w2) p = Some Dir \<and> (fs_lookup (files w2) (pkg_json_path p) = None \<or>
      (\<exists>kvs. fs_lookup (files w2) (pkg_json_path p) = Some (File (JsonDoc (JObj kvs)))))"
    using lk2 lk1 pkg map_of_placed_self [OF tree, of p] map_of_placed_prefix [of p t "[''package.json'']"]
      fresh_below [OF wf fresh [folded name_def p_def], of "[''package.json'']"]
    by (auto simp: w2_def pkg_json_path_def)
  obtain w3 where rp: "rename_package p name w2 = (Done (), w3)"
    using rename_package_completes pkg2 by blast
  have rest: "act_completes (bind_act (remove_git p) (\<lambda>_. bind_act (rpc_step p choice opts) (\<lambda>_.
      bind_act (git_step opts) (\<lambda>g. bind_act (deps_step opts) (\<lambda>d.
      return_act \<lparr>projectName = name, gitInitialized = g, dependenciesInstalled = d, result_template = choice\<rparr>)))))"
    by (intro act_completes_bind late_steps_complete [OF yes] act_completes_return)
  have "createProject dir opts w = bind_act (remove_git p) (\<lambda>_. bind_act (rpc_step p choice opts) (\<lambda>_.
      bind_act (git_step opts) (\<lambda>g. bind_act (deps_step opts) (\<lambda>d.
      return_act \<lparr>projectName = name, gitInitialized = g, dependenciesInstalled = d, result_template = choice\<rparr>)))) w3"
    by (simp add: createProject_def setup_project_def bind_act_def rn rt pd dl rp)
  then show ?thesis using rest by (simp add: act_completes_def)
qed

theorem createProject_yes_completes_witness:
  "\<exists>r. fst (createProject ''my-app'' \<lparr>yes = True, typescript = False, repo = Some DEFAULT_REPO, template = Some ''default'', branch = None, rpc = False\<rparr>
     \<lparr>files = [([], Dir)], cwd = [], answers = [],
      remote = (\<lambda>u. if u = ''stevedylandev/bhvr-forge#main'' then Some
        [([''package.json''], File (JsonDoc (JObj [(''name'', JStr ''bhvr'')]))), ([''src''], Dir),
         ([''src'', ''main.ts''], File (TextDoc ''main''))] else None),
      tools = (\<lambda>_. False), trace = []\<rparr>) = Done r"
proof (rule createProject_yes_completes)
  show "yes \<lparr>yes = True, typescript = False, repo = Some DEFAULT_REPO, template = Some ''default'', branch = None, rpc = False\<rparr>" by simp
  show "fs_wf (files \<lparr>files = [([], Dir)], cwd = [], answers = [],
      remote = (\<lambda>u. if u = ''stevedylandev/bhvr-forge#main'' then Some
        [([''package.json''], File (JsonDoc (JObj [(''name'', JStr ''bhvr'')]))), ([''src''], Dir),
         ([''src'', ''main.ts''], File (TextDoc ''main''))] else None),
      tools = (\<lambda>_. False), trace = []\<rparr>)"
    by (simp add: fs_wf_def fs_lookup_def)
  show "fs_lookup (files \<lparr>files = [([], Dir)], cwd = [], answers = [],
      remote = (\<lambda>u. if u = ''stevedylandev/bhvr-forge#main'' then Some
        [([''package.json''], File (JsonDoc (JObj [(''name'', JStr ''bhvr'')]))), ([''src''], Dir),
         ([''src'', ''main.ts''], File (TextDoc ''main''))] else None),
      tools = (\<lambda>_. False), trace = []\<rparr>)
      (resolve_path (cwd \<lparr>files = [([], Dir)], cwd = [], answers = [],
      remote = (\<lambda>u. if u = ''stevedylandev/bhvr-forge#main'' then Some
        [([''package.json''], File (JsonDoc (JObj [(''name'', JStr ''bhvr'')]))), ([''src''], Dir),
         ([''src'', ''main.ts''], File (TextDoc ''main''))] else None),
      tools = (\<lambda>_. False), trace = []\<rparr>) (if ''my-app'' = [] then default_name else ''my-app'')) = None"
    by (simp add: fs_lookup_def resolve_path_def)
  show "fs_lookup (files \<lparr>files = [([], Dir)], cwd = [], answers = [],
      remote = (\<lambda>u. if u = ''stevedylandev/bhvr-forge#main'' then Some
        [([''package.json''], File (JsonDoc (JObj [(''name'', JStr ''bhvr'')]))), ([''src''], Dir),
         ([''src'', ''main.ts''], File (TextDoc ''main''))] else None),
      tools = (\<lambda>_. False), trace = []\<rparr>)
      (butlast (resolve_path (cwd \<lparr>files = [([], Dir)], cwd = [], answers = [],
      remote = (\<lambda>u. if u = ''stevedylandev/bhvr-forge#main'' then Some
        [([''package.json''], File (JsonDoc (JObj [(''name'', JStr ''bhvr'')]))), ([''src''], Dir),
         ([''src'', ''main.ts''], File (TextDoc ''main''))] else None),
      tools = (\<lambda>_. False), trace = []\<rparr>) (if ''my-app'' = [] then default_name else ''my-app''))) = Some Dir"
    by (simp add: fs_lookup_def resolve_path_def)
  show "remote \<lparr>files = [([], Dir)], cwd = [], answers = [],
      remote = (\<lambda>u. if u = ''stevedylandev/bhvr-forge#main'' then Some
        [([''package.json''], File (JsonDoc (JObj [(''name'', JStr ''bhvr'')]))), ([''src''], Dir),
         ([''src'', ''main.ts''], File (TextDoc ''main''))] else None),
      tools = (\<lambda>_. False), trace = []\<rparr>
      (repo_url \<lparr>yes = True, typescript = False, repo = Some DEFAULT_REPO, template = Some ''default'', branch = None, rpc = False\<rparr> (js_or (template \<lparr>yes = True, typescript = False, repo = Some DEFAULT_REPO, template = Some ''default'', branch = None, rpc = False\<rparr>) ''default'')) = Some [([''package.json''], File (JsonDoc (JObj [(''name'', JStr ''bhvr'')]))), ([''src''], Dir),
         ([''src'', ''main.ts''], File (TextDoc ''main''))]"
    by (simp add: repo_url_def resolve_branch_def template_config_def templates_index_def TEMPLATES_def DEFAULT_REPO_def)
  show "tree_ok [] [([''package.json''], File (JsonDoc (JObj [(''name'', JStr ''bhvr'')]))), ([''src''], Dir),
         ([''src'', ''main.ts''], File (TextDoc ''main''))]" by simp
  show "map_of [([''package.json''], File (JsonDoc (JObj [(''name'', JStr ''bhvr'')]))), ([''src''], Dir),
         ([''src'', ''main.ts''], File (TextDoc ''main''))] [''package.json''] = None \<or>
      (\<exists>kvs. map_of [([''package.json''], File (JsonDoc (JObj [(''name'', JStr ''bhvr'')]))), ([''src''], Dir),
         ([''src'', ''main.ts''], File (TextDoc ''main''))] [''package.json''] = Some (File (JsonDoc (JObj kvs))))" by simp
qed

end
