(* ===== verification/JsonDocs.thy ===== *)
theory JsonDocs
  imports Cli
begin

text \<open>
  The manifests stay parsed JSON. Every JSON document on disk and in every tree the
  remote can return is well formed (no object with a repeated key, as
  \<open>JSON.parse\<close> guarantees); the workflow only ever writes JSON values it read and
  changed by property assignments. The lemmas below show that every file-system
  primitive and every workflow step keeps the property (\<open>steps_keep_json_workflow\<close>).
\<close>

fun node_ok :: "node \<Rightarrow> bool" where
  "node_ok (File (JsonDoc v)) = json_wf v"
| "node_ok _ = True"

definition json_docs_ok :: "fsys \<Rightarrow> bool" where
  "json_docs_ok f = list_all (\<lambda>(_, n). node_ok n) f"

definition json_world_ok :: "world \<Rightarrow> bool" where
  "json_world_ok w = (json_docs_ok (files w) \<and> (\<forall>u t. remote w u = Some t \<longrightarrow> json_docs_ok t))"

definition json_kept :: "world \<Rightarrow> world \<Rightarrow> bool" where
  "json_kept w w' = (json_world_ok w \<longrightarrow> json_world_ok w')"

section \<open>File-system operations\<close>

lemma json_kept_order [simp]: "reflp json_kept" "transp json_kept"
  by (auto simp: json_kept_def reflp_def transp_def)

lemma json_docs_ok_simps [simp]:
  "json_docs_ok []" "json_docs_ok ((q, n) # f) = (node_ok n \<and> json_docs_ok f)"
  by (simp_all add: json_docs_ok_def)

lemma docs_ok_lookup: "json_docs_ok f \<Longrightarrow> fs_lookup f p = Some n \<Longrightarrow> node_ok n"
  by (auto simp: json_docs_ok_def fs_lookup_def list_all_iff dest!: map_of_SomeD)

lemma docs_ok_update: "json_docs_ok f \<Longrightarrow> node_ok n \<Longrightarrow> json_docs_ok (AList.update p n f)"
  using set_update_subset [of p n f] by (auto simp: json_docs_ok_def list_all_iff)

lemma docs_ok_filter: "json_docs_ok f \<Longrightarrow> json_docs_ok (filter P f)"
  by (auto simp: json_docs_ok_def list_all_iff)

lemma docs_ok_ensure: "ensure_dir f p = Inr f' \<Longrightarrow> json_docs_ok f \<Longrightarrow> json_docs_ok f'"
  using ensure_dir_Inr(3) [of f p f'] by (auto simp: json_docs_ok_def list_all_iff)

lemma docs_ok_write: "write_file f p c = Inr f' \<Longrightarrow> json_docs_ok f \<Longrightarrow> node_ok (File c) \<Longrightarrow> json_docs_ok f'"
  using write_file_Inr [of f p c f'] by (auto intro: docs_ok_update)

lemma docs_ok_extract: "json_docs_ok f \<Longrightarrow> json_docs_ok t \<Longrightarrow> json_docs_ok (snd (extract_tree f d t))"
proof (induction f d t rule: extract_tree.induct)
  case (2 f d r es)
  then show ?case by (auto split: sum.splits dest: docs_ok_ensure)
next
  case (3 f d r c es)
  then show ?case by (auto split: sum.splits dest: docs_ok_write)
qed simp

lemma clone_json_kept [keeps_intros]: "act_keeps json_kept (clone_act u p)"
proof (rule act_keepsI)
  fix s
  show "json_kept s (snd (clone_act u p s))"
  proof (cases "remote s u")
    case (Some t)
    obtain r f where ex: "extract_tree (files (emit (EvFetch u) s)) p t = (r, f)" by (cases "extract_tree (files (emit (EvFetch u) s)) p t")
    have "json_world_ok s \<Longrightarrow> json_docs_ok f"
      using docs_ok_extract [of "files s" t p] ex Some by (simp add: json_world_ok_def emit_def)
    then show ?thesis
      using Some ex by (simp add: json_kept_def json_world_ok_def clone_act_def w_clone_def lift_err_def Let_def
          emit_def split: sum.splits)
  qed (simp add: json_kept_def json_world_ok_def clone_act_def w_clone_def lift_err_def Let_def emit_def)
qed

lemma keeps_json_prims [keeps_intros]:
  "act_keeps json_kept (read_json_act p)"
  "act_keeps json_kept (ensure_dir_act p)"
  "act_keeps json_kept (pure_act r)"
  "act_keeps json_kept (exec_act cmd)"
  "act_keeps json_kept (log_act m)"
  by (auto simp: act_keeps_def json_kept_def json_world_ok_def read_json_act_def w_read_json_def
      ensure_dir_act_def w_ensure_dir_def pure_act_def exec_act_def log_act_def log_msg_def emit_def
      lift_err_def intro: docs_ok_ensure split: sum.splits)

lemma write_act_json_kept: "node_ok (File c) \<Longrightarrow> act_keeps json_kept (write_act p c)"
  by (auto simp: act_keeps_def json_kept_def json_world_ok_def write_act_def w_write_def lift_err_def
      intro: docs_ok_write split: sum.splits)

lemma read_json_act_wf:
  "json_world_ok w \<Longrightarrow> read_json_act p w = (Done v, w') \<Longrightarrow> json_wf v \<and> w' = w"
  by (auto simp: read_json_act_def w_read_json_def lift_err_def json_world_ok_def
      dest!: read_json_Inr docs_ok_lookup split: sum.splits)

lemma keeps_bind_read:
  "(\<And>v. json_wf v \<Longrightarrow> act_keeps json_kept (f v)) \<Longrightarrow> act_keeps json_kept (bind_act (read_json_act p) f)"
proof (rule act_keepsI)
  fix w
  assume f: "\<And>v. json_wf v \<Longrightarrow> act_keeps json_kept (f v)"
  show "json_kept w (snd (bind_act (read_json_act p) f w))"
  proof (cases "json_world_ok w")
    case True
    obtain r w' where rd: "read_json_act p w = (r, w')" by (cases "read_json_act p w")
    show ?thesis
    proof (cases r)
      case (Done v)
      with read_json_act_wf [OF True] rd have "json_wf v" "w' = w" by auto
      then show ?thesis using act_keepsD [OF f [OF \<open>json_wf v\<close>], of w] rd Done by (simp add: bind_act_def)
    qed (use rd in \<open>auto simp: bind_act_def json_kept_def read_json_act_def lift_err_def w_read_json_def
        split: sum.splits\<close>)
  qed (simp add: json_kept_def)
qed

lemma keeps_bind_pure:
  "(\<And>x. r = Inr x \<Longrightarrow> act_keeps json_kept (f x)) \<Longrightarrow> act_keeps json_kept (bind_act (pure_act r) f)"
  by (cases r) (simp_all add: act_keeps_def bind_act_def json_kept_def)

lemma steps_keep_json:
  "act_keeps json_kept (rename_package p name)"
  "act_keeps json_kept (rpc_client_pkg_step p)"
  "act_keeps json_kept (rpc_server_pkg_step p)"
proof -
  show "act_keeps json_kept (rename_package p name)"
    unfolding rename_package_def
    by (rule act_keeps_guard, rule keeps_bind_read, rule keeps_bind_pure)
      (auto intro!: write_act_json_kept elim!: prop_set_wf [rotated 2])
  show "act_keeps json_kept (rpc_client_pkg_step p)"
    unfolding rpc_client_pkg_step_def
    by (rule keeps_bind_read, rule keeps_bind_pure)
      (intro keeps_intros keeps_json_prims write_act_json_kept; simp)
  show "act_keeps json_kept (rpc_server_pkg_step p)"
    unfolding rpc_server_pkg_step_def
    by (rule keeps_bind_read, rule keeps_bind_pure)
      (auto intro!: write_act_json_kept elim!: prop_set2_wf [rotated 2])
qed

lemma json_world_ok_frame [simp]:
  "json_world_ok (log_msg m w) = json_world_ok w"
  "json_world_ok (w\<lparr>files := f\<rparr>) = (json_docs_ok f \<and> (\<forall>u t. remote w u = Some t \<longrightarrow> json_docs_ok t))"
  by (auto simp: json_world_ok_def log_msg_def emit_def)

lemma run_patch_json_kept: "act_keeps json_kept (run_patch p choice)"
proof -
  have "act_keeps json_kept (rpc_steps p choice)"
    unfolding rpc_steps_def
    by (intro keeps_intros steps_keep_json write_act_json_kept; simp)
  then show ?thesis
    by (auto simp: act_keeps_def run_patch_def patchFilesForRPC_def json_kept_def
        split: prod.splits outcome.splits)
qed

lemma steps_keep_json_workflow:
  "act_keeps json_kept (resolve_name dir opts)"
  "act_keeps json_kept (resolve_template opts)"
  "act_keeps json_kept (prepare_dir name opts)"
  "act_keeps json_kept (remove_git p)"
  "act_keeps json_kept (rpc_step p choice opts)"
  "act_keeps json_kept (git_step opts)"
  "act_keeps json_kept (deps_step opts)"
proof -
  have pf: "prompt_text n i w = (r, w') \<Longrightarrow> json_kept w w'"
    "prompt_select n cs j w = (r', w') \<Longrightarrow> json_kept w w'"
    "prompt_confirm n b w = (r'', w') \<Longrightarrow> json_kept w w'" for n i w r w' cs j r' b r''
    by (auto simp: json_kept_def json_world_ok_def dest: prompt_frame prompt_remote)
  show "act_keeps json_kept (resolve_name dir opts)"
    unfolding resolve_name_def
    by (auto simp: act_keeps_def cancel_with_msg_def json_kept_def dest!: pf
        split: prod.splits option.splits if_splits)
  show "act_keeps json_kept (resolve_template opts)"
    unfolding resolve_template_def
    by (auto simp: act_keeps_def cancel_with_msg_def json_kept_def dest!: pf
        split: prod.splits option.splits)
  have co: "act_keeps json_kept (confirm_overwrite q)" for q
  proof (rule act_keepsI)
    fix w
    obtain r w' where pc: "prompt_confirm ''overwrite'' False w = (r, w')"
      by (cases "prompt_confirm ''overwrite'' False w")
    have k: "json_kept w w'" by (rule pf(3) [OF pc])
    have "json_world_ok w' \<Longrightarrow> json_world_ok (w'\<lparr>files := empty_dir (files w') q\<rparr>)"
      unfolding empty_dir_def json_world_ok_frame by (auto simp: json_world_ok_def intro: docs_ok_filter)
    with k show "json_kept w (snd (confirm_overwrite q w))"
      by (cases r) (auto simp: confirm_overwrite_def pc cancel_with_msg_def json_kept_def
          split: bool.splits)
  qed
  have ce: "act_keeps json_kept (check_existing q opts)" for q
    using co by (auto simp: act_keeps_def check_existing_def json_kept_def split: sum.splits)
  show "act_keeps json_kept (prepare_dir name opts)"
    unfolding prepare_dir_def Let_def
    by (rule act_keeps_inspect) (intro keeps_intros ce keeps_json_prims; simp)
  show "act_keeps json_kept (remove_git p)"
    by (auto simp: act_keeps_def json_kept_def remove_git_def remove_tree_def json_world_ok_def
        log_msg_def emit_def intro: docs_ok_filter)
  show "act_keeps json_kept (rpc_step p choice opts)"
    unfolding rpc_step_def
  proof (intro act_keeps_if run_patch_json_kept act_keeps_return json_kept_order(1))
    show "act_keeps json_kept (\<lambda>w. case prompt_confirm ''useRpc'' False w of
        (None, w') \<Rightarrow> cancel_with_msg w'
      | (Some b, w') \<Rightarrow> if b then run_patch p choice w' else (Done (), w'))"
    proof (rule act_keeps_after [OF pf(3) _ json_kept_order(2)])
      fix r show "act_keeps json_kept (\<lambda>w'. case r of None \<Rightarrow> cancel_with_msg w'
          | Some b \<Rightarrow> if b then run_patch p choice w' else (Done (), w'))"
        using run_patch_json_kept
        by (cases r) (auto simp: act_keeps_def cancel_with_msg_def json_kept_def)
    qed
  qed
  have cmds: "act_keeps json_kept try_git_init" "act_keeps json_kept try_git_init_yes"
    "act_keeps json_kept install_deps" "act_keeps json_kept install_deps_yes"
    by (auto simp: act_keeps_def json_kept_def json_world_ok_def try_git_init_def try_git_init_yes_def
        install_deps_def install_deps_yes_def run_cmd_def log_msg_def emit_def split: bool.splits)
  show "act_keeps json_kept (git_step opts)"
    unfolding git_step_def
  proof (intro act_keeps_if cmds)
    show "act_keeps json_kept (\<lambda>w. case prompt_confirm ''initGit'' True w of
        (Some True, w') \<Rightarrow> try_git_init w' | (_, w') \<Rightarrow> (Done False, w'))"
    proof (rule act_keeps_after [OF pf(3) _ json_kept_order(2)])
      fix r show "act_keeps json_kept (\<lambda>w'. case r of Some True \<Rightarrow> try_git_init w' | _ \<Rightarrow> (Done False, w'))"
        using cmds(1) by (cases r) (auto simp: act_keeps_def json_kept_def split: bool.splits)
    qed
  qed
  show "act_keeps json_kept (deps_step opts)"
    unfolding deps_step_def
  proof (intro act_keeps_if cmds)
    show "act_keeps json_kept (\<lambda>w. case prompt_confirm ''installDeps'' True w of
        (Some True, w') \<Rightarrow> install_deps w' | (_, w') \<Rightarrow> (Done False, w'))"
    proof (rule act_keeps_after [OF pf(3) _ json_kept_order(2)])
      fix r show "act_keeps json_kept (\<lambda>w'. case r of Some True \<Rightarrow> install_deps w' | _ \<Rightarrow> (Done False, w'))"
        using cmds(3) by (cases r) (auto simp: act_keeps_def json_kept_def split: bool.splits)
    qed
  qed
qed

end
