(* ===== verification/EnterDefaults.thy ===== *)
theory EnterDefaults
  imports Workflow
begin

text \<open>
  Pressing Enter at every question. Each prompt of \<open>createProject\<close> has an
  \<open>initial\<close> value, and those values are the choices the non-interactive mode makes:
  the default name, the first template (\<open>default\<close>), no RPC client, \<open>git init\<close>,
  installing the dependencies. An interactive run in which the user accepts every
  default is therefore the same run as with \<open>--yes\<close>, as long as no overwrite
  question comes up. The proof is a simulation: the two runs are related step by
  step by equal file systems, working directories, remotes and tools, while the
  interactive run consumes one Enter per question.
\<close>

definition same_env :: "world \<Rightarrow> world \<Rightarrow> bool" where
  "same_env wi wy = (files wi = files wy \<and> cwd wi = cwd wy \<and> remote wi = remote wy \<and> tools wi = tools wy)"

definition enter_sim :: "nat \<Rightarrow> nat \<Rightarrow> (world, 'a) act \<Rightarrow> (world, 'a) act \<Rightarrow> bool" where
  "enter_sim n n' m m' =
    (\<forall>wi wy. same_env wi wy \<and> answers wi = replicate n Enter \<longrightarrow>
       fst (m wi) = fst (m' wy) \<and> same_env (snd (m wi)) (snd (m' wy)) \<and>
       (\<forall>x. fst (m wi) = Done x \<longrightarrow> answers (snd (m wi)) = replicate n' Enter))"

section \<open>Composing simulations\<close>

lemma enter_sim_bind:
  assumes m: "enter_sim n1 n2 m m'" and f: "\<And>x. enter_sim n2 n3 (f x) (f' x)"
  shows "enter_sim n1 n3 (bind_act m f) (bind_act m' f')"
  unfolding enter_sim_def
proof (intro allI impI)
  fix wi wy assume s: "same_env wi wy \<and> answers wi = replicate n1 Enter"
  obtain r wi' where mi: "m wi = (r, wi')" by (cases "m wi")
  obtain r' wy' where my: "m' wy = (r', wy')" by (cases "m' wy")
  have h: "fst (m wi) = fst (m' wy) \<and> same_env (snd (m wi)) (snd (m' wy)) \<and>
      (\<forall>x. fst (m wi) = Done x \<longrightarrow> answers (snd (m wi)) = replicate n2 Enter)"
    using m s unfolding enter_sim_def by blast
  then have rr: "r' = r" and se: "same_env wi' wy'"
    and an: "\<And>x. r = Done x \<Longrightarrow> answers wi' = replicate n2 Enter"
    using mi my by auto
  show "fst (bind_act m f wi) = fst (bind_act m' f' wy) \<and>
      same_env (snd (bind_act m f wi)) (snd (bind_act m' f' wy)) \<and>
      (\<forall>x. fst (bind_act m f wi) = Done x \<longrightarrow> answers (snd (bind_act m f wi)) = replicate n3 Enter)"
  proof (cases r)
    case (Done x)
    with f [of x] se an [OF Done] show ?thesis
      unfolding enter_sim_def by (simp add: bind_act_def mi my rr)
  qed (simp_all add: bind_act_def mi my rr se)
qed

lemma enter_sim_return: "enter_sim n n (return_act x) (return_act x)"
  by (simp add: enter_sim_def return_act_def)

text \<open>Steps that neither ask nor depend on the mode run alike from related worlds.\<close>

definition env_only :: "(world, 'a) act \<Rightarrow> bool" where
  "env_only m = (\<forall>wi wy. same_env wi wy \<longrightarrow>
     fst (m wi) = fst (m wy) \<and> same_env (snd (m wi)) (snd (m wy)) \<and> answers (snd (m wi)) = answers wi)"

lemma env_only_sim: "env_only m \<Longrightarrow> enter_sim n n m m"
  unfolding env_only_def enter_sim_def
proof (intro allI impI)
  fix wi wy
  assume e: "\<forall>wi wy. same_env wi wy \<longrightarrow>
      fst (m wi) = fst (m wy) \<and> same_env (snd (m wi)) (snd (m wy)) \<and> answers (snd (m wi)) = answers wi"
    and s: "same_env wi wy \<and> answers wi = replicate n Enter"
  then have "fst (m wi) = fst (m wy) \<and> same_env (snd (m wi)) (snd (m wy)) \<and> answers (snd (m wi)) = answers wi"
    by blast
  with s show "fst (m wi) = fst (m wy) \<and> same_env (snd (m wi)) (snd (m wy)) \<and>
      (\<forall>x. fst (m wi) = Done x \<longrightarrow> answers (snd (m wi)) = replicate n Enter)"
    by simp
qed

lemma env_only_bind:
  assumes m: "env_only m" and f: "\<And>x. env_only (f x)"
  shows "env_only (bind_act m f)"
  unfolding env_only_def
proof (intro allI impI)
  fix wi wy assume s: "same_env wi wy"
  obtain r wi' where mi: "m wi = (r, wi')" by (cases "m wi")
  obtain r2 wy' where my: "m wy = (r2, wy')" by (cases "m wy")
  have "fst (m wi) = fst (m wy) \<and> same_env (snd (m wi)) (snd (m wy)) \<and> answers (snd (m wi)) = answers wi"
    using m s unfolding env_only_def by blast
  then have rr: "r2 = r" and se: "same_env wi' wy'" and an: "answers wi' = answers wi"
    using mi my by auto
  show "fst (bind_act m f wi) = fst (bind_act m f wy) \<and>
      same_env (snd (bind_act m f wi)) (snd (bind_act m f wy)) \<and>
      answers (snd (bind_act m f wi)) = answers wi"
  proof (cases r)
    case (Done x)
    have "fst (f x wi') = fst (f x wy') \<and> same_env (snd (f x wi')) (snd (f x wy')) \<and>
        answers (snd (f x wi')) = answers wi'"
      using f [of x] se unfolding env_only_def by blast
    then show ?thesis using Done rr an mi my by (simp add: bind_act_def)
  qed (use rr se an mi my in \<open>simp_all add: bind_act_def\<close>)
qed

lemma env_only_prims:
  "env_only (read_json_act p)" "env_only (write_act p c)" "env_only (ensure_dir_act p)"
  "env_only (clone_act u p)" "env_only (pure_act r)" "env_only (exec_act cmd)"
  "env_only (return_act x)"
  by (auto simp: env_only_def same_env_def read_json_act_def w_read_json_def write_act_def w_write_def
      ensure_dir_act_def w_ensure_dir_def clone_act_def w_clone_def pure_act_def exec_act_def
      return_act_def lift_err_def emit_def Let_def split: sum.splits prod.splits option.splits)

lemma env_only_guard:
  assumes m: "env_only m"
  shows "env_only (\<lambda>w. if P (files w) then m w else (Done (), w))"
  unfolding env_only_def
proof (intro allI impI)
  fix wi wy assume s: "same_env wi wy"
  then have f: "files wi = files wy" by (simp add: same_env_def)
  show "fst (if P (files wi) then m wi else (Done (), wi)) = fst (if P (files wy) then m wy else (Done (), wy)) \<and>
      same_env (snd (if P (files wi) then m wi else (Done (), wi))) (snd (if P (files wy) then m wy else (Done (), wy))) \<and>
      answers (snd (if P (files wi) then m wi else (Done (), wi))) = answers wi"
    using m s unfolding env_only_def f by simp
qed

lemma env_only_steps:
  "env_only (download p choice opts)" "env_only (rename_package p name)" "env_only (remove_git p)"
proof -
  show "env_only (download p choice opts)" by (simp add: download_def env_only_prims)
  have "env_only (\<lambda>w. if fs_exists (files w) (pkg_json_path p) then
       bind_act (read_json_act (pkg_json_path p)) (\<lambda>pkg.
       bind_act (pure_act (prop_set pkg ''name'' (JStr name))) (\<lambda>pkg'.
       write_act (pkg_json_path p) (JsonDoc pkg'))) w
     else (Done (), w))"
    by (rule env_only_guard [where P = "\<lambda>f. fs_exists f (pkg_json_path p)"])
      (intro env_only_bind env_only_prims)
  then show "env_only (rename_package p name)" by (simp add: rename_package_def)
  show "env_only (remove_git p)"
    unfolding env_only_def
  proof (intro allI impI)
    fix wi wy assume s: "same_env wi wy"
    then have f: "files wi = files wy" by (simp add: same_env_def)
    show "fst (remove_git p wi) = fst (remove_git p wy) \<and> same_env (snd (remove_git p wi)) (snd (remove_git p wy))
        \<and> answers (snd (remove_git p wi)) = answers wi"
      using s by (simp add: remove_git_def f same_env_def log_msg_def emit_def)
  qed
qed

section \<open>The questions answered with Enter\<close>

lemma prompt_confirm_Enter:
  "answers w = Enter # as \<Longrightarrow>
     prompt_confirm n b w = (Some b, emit (EvPrompt (ConfirmPrompt n b)) (w\<lparr>answers := as\<rparr>))"
  by (simp add: prompt_confirm_def ask_def confirm_value_def)

lemma emit_other_fields [simp]:
  "answers (emit e w) = answers w" "tools (emit e w) = tools w" "remote (emit e w) = remote w"
  by (simp_all add: emit_def)

lemma same_env_frame [simp]:
  "same_env (emit e w) w' = same_env w w'" "same_env (log_msg m w) w' = same_env w w'"
  "same_env w (log_msg m w') = same_env w w'" "same_env (w\<lparr>answers := as\<rparr>) w' = same_env w w'"
  by (simp_all add: same_env_def emit_def log_msg_def)

lemma enter_late_steps:
  assumes "\<not> yes opts" and "\<not> rpc opts"
  shows "enter_sim (Suc n) n (rpc_step p choice opts) (rpc_step p choice (opts\<lparr>yes := True\<rparr>))"
    "enter_sim (Suc n) n (git_step opts) (git_step (opts\<lparr>yes := True\<rparr>))"
    "enter_sim (Suc n) n (deps_step opts) (deps_step (opts\<lparr>yes := True\<rparr>))"
proof -
  have cmd: "same_env wi wy \<Longrightarrow> fst (run_cmd c wi) = fst (run_cmd c wy)
      \<and> same_env (snd (run_cmd c wi)) (snd (run_cmd c wy)) \<and> answers (snd (run_cmd c wi)) = answers wi"
    for c wi wy by (simp add: same_env_def run_cmd_def)
  have git: "same_env wi wy \<Longrightarrow> fst (try_git_init wi) = fst (try_git_init_yes wy)
      \<and> same_env (snd (try_git_init wi)) (snd (try_git_init_yes wy))
      \<and> answers (snd (try_git_init wi)) = answers wi" for wi wy
    by (cases "tools wi [''git'', ''init'']")
      (simp_all add: try_git_init_def try_git_init_yes_def run_cmd_def same_env_def log_msg_def)
  have deps: "same_env wi wy \<Longrightarrow> fst (install_deps wi) = fst (install_deps_yes wy)
      \<and> same_env (snd (install_deps wi)) (snd (install_deps_yes wy))
      \<and> answers (snd (install_deps wi)) = answers wi" for wi wy
    by (cases "tools wi [''bun'', ''install'']"; cases "tools wi [''npm'', ''install'']")
      (simp_all add: install_deps_def install_deps_yes_def run_cmd_def same_env_def log_msg_def)
  show "enter_sim (Suc n) n (rpc_step p choice opts) (rpc_step p choice (opts\<lparr>yes := True\<rparr>))"
    unfolding enter_sim_def
  proof (intro allI impI)
    fix wi wy assume s: "same_env wi wy \<and> answers wi = replicate (Suc n) Enter"
    let ?wi = "emit (EvPrompt (ConfirmPrompt ''useRpc'' False)) (wi\<lparr>answers := replicate n Enter\<rparr>)"
    have "rpc_step p choice opts wi = (Done (), ?wi)" "rpc_step p choice (opts\<lparr>yes := True\<rparr>) wy = (Done (), wy)"
      using assms s by (simp_all add: rpc_step_def prompt_confirm_Enter return_act_def)
    moreover have "same_env ?wi wy" using s by simp
    ultimately show "fst (rpc_step p choice opts wi) = fst (rpc_step p choice (opts\<lparr>yes := True\<rparr>) wy) \<and>
        same_env (snd (rpc_step p choice opts wi)) (snd (rpc_step p choice (opts\<lparr>yes := True\<rparr>) wy)) \<and>
        (\<forall>x. fst (rpc_step p choice opts wi) = Done x \<longrightarrow> answers (snd (rpc_step p choice opts wi)) = replicate n Enter)"
      by simp
  qed
  show "enter_sim (Suc n) n (git_step opts) (git_step (opts\<lparr>yes := True\<rparr>))"
    unfolding enter_sim_def
  proof (intro allI impI)
    fix wi wy assume s: "same_env wi wy \<and> answers wi = replicate (Suc n) Enter"
    let ?wi = "emit (EvPrompt (ConfirmPrompt ''initGit'' True)) (wi\<lparr>answers := replicate n Enter\<rparr>)"
    have "git_step opts wi = try_git_init ?wi" "git_step (opts\<lparr>yes := True\<rparr>) wy = try_git_init_yes wy"
      using assms s by (simp_all add: git_step_def prompt_confirm_Enter)
    moreover have "same_env ?wi wy" using s by simp
    ultimately show "fst (git_step opts wi) = fst (git_step (opts\<lparr>yes := True\<rparr>) wy) \<and>
        same_env (snd (git_step opts wi)) (snd (git_step (opts\<lparr>yes := True\<rparr>) wy)) \<and>
        (\<forall>x. fst (git_step opts wi) = Done x \<longrightarrow> answers (snd (git_step opts wi)) = replicate n Enter)"
      using git [of ?wi wy] by simp
  qed
  show "enter_sim (Suc n) n (deps_step opts) (deps_step (opts\<lparr>yes := True\<rparr>))"
    unfolding enter_sim_def
  proof (intro allI impI)
    fix wi wy assume s: "same_env wi wy \<and> answers wi = replicate (Suc n) Enter"
    let ?wi = "emit (EvPrompt (ConfirmPrompt ''installDeps'' True)) (wi\<lparr>answers := replicate n Enter\<rparr>)"
    have "deps_step opts wi = install_deps ?wi" "deps_step (opts\<lparr>yes := True\<rparr>) wy = install_deps_yes wy"
      using assms s by (simp_all add: deps_step_def prompt_confirm_Enter)
    moreover have "same_env ?wi wy" using s by simp
    ultimately show "fst (deps_step opts wi) = fst (deps_step (opts\<lparr>yes := True\<rparr>) wy) \<and>
        same_env (snd (deps_step opts wi)) (snd (deps_step (opts\<lparr>yes := True\<rparr>) wy)) \<and>
        (\<forall>x. fst (deps_step opts wi) = Done x \<longrightarrow> answers (snd (deps_step opts wi)) = replicate n Enter)"
      using deps [of ?wi wy] by simp
  qed
qed

lemma download_yes: "download p choice (opts\<lparr>yes := b\<rparr>) = download p choice opts"
  by (simp add: download_def repo_url_def)

lemma setup_project_enter_sim:
  assumes "\<not> yes opts" and "\<not> rpc opts"
  shows "enter_sim (Suc (Suc (Suc 0))) 0 (setup_project p name choice opts)
           (setup_project p name choice (opts\<lparr>yes := True\<rparr>))"
  unfolding setup_project_def download_yes
  apply (rule enter_sim_bind)
   apply (rule env_only_sim)
   apply (rule env_only_steps)
  apply (rule enter_sim_bind)
   apply (rule env_only_sim)
   apply (rule env_only_steps)
  apply (rule enter_sim_bind)
   apply (rule env_only_sim)
   apply (rule env_only_steps)
  apply (rule enter_sim_bind)
   apply (rule enter_late_steps(1) [OF assms])
  apply (rule enter_sim_bind)
   apply (rule enter_late_steps(2) [OF assms])
  apply (rule enter_sim_bind)
   apply (rule enter_late_steps(3) [OF assms])
  apply (rule enter_sim_return)
  done

lemma check_existing_no_question:
  "\<forall>e es. readdir (files w) p \<noteq> Inr (e # es) \<Longrightarrow>
     check_existing p opts w = (if fs_exists (files w) p then
        (case readdir (files w) p of Inl e \<Rightarrow> (Thrown e, w) | Inr _ \<Rightarrow> (Done (), w)) else (Done (), w))"
  by (auto simp: check_existing_def neq_Nil_conv split: sum.splits)

lemma prepare_dir_enter_sim:
  assumes s: "same_env wi wy"
    and ne: "\<forall>e es. readdir (files wi) (resolve_path (cwd wi) name) \<noteq> Inr (e # es)"
  shows "fst (prepare_dir name opts wi) = fst (prepare_dir name opts' wy)
    \<and> same_env (snd (prepare_dir name opts wi)) (snd (prepare_dir name opts' wy))
    \<and> answers (snd (prepare_dir name opts wi)) = answers wi"
proof -
  let ?p = "resolve_path (cwd wi) name"
  have fc: "files wy = files wi" "cwd wy = cwd wi" using s by (simp_all add: same_env_def)
  have ci: "check_existing ?p opts wi = (if fs_exists (files wi) ?p then
        (case readdir (files wi) ?p of Inl e \<Rightarrow> (Thrown e, wi) | Inr _ \<Rightarrow> (Done (), wi)) else (Done (), wi))"
    using ne by (rule check_existing_no_question)
  have cy: "check_existing ?p opts' wy = (if fs_exists (files wi) ?p then
        (case readdir (files wi) ?p of Inl e \<Rightarrow> (Thrown e, wy) | Inr _ \<Rightarrow> (Done (), wy)) else (Done (), wy))"
    using ne fc check_existing_no_question [of wy ?p opts'] by simp
  have rest: "env_only (bind_act (ensure_dir_act ?p) (\<lambda>_. return_act ?p))"
    by (intro env_only_bind env_only_prims)
  then have r: "fst (bind_act (ensure_dir_act ?p) (\<lambda>_. return_act ?p) wi) = fst (bind_act (ensure_dir_act ?p) (\<lambda>_. return_act ?p) wy)
      \<and> same_env (snd (bind_act (ensure_dir_act ?p) (\<lambda>_. return_act ?p) wi)) (snd (bind_act (ensure_dir_act ?p) (\<lambda>_. return_act ?p) wy))
      \<and> answers (snd (bind_act (ensure_dir_act ?p) (\<lambda>_. return_act ?p) wi)) = answers wi"
    using s unfolding env_only_def by blast
  let ?rest = "\<lambda>_. bind_act (ensure_dir_act ?p) (\<lambda>_. return_act ?p)"
  have pi: "prepare_dir name opts wi = bind_act (check_existing ?p opts) ?rest wi"
    by (simp add: prepare_dir_def Let_def)
  have py: "prepare_dir name opts' wy = bind_act (check_existing ?p opts') ?rest wy"
    by (simp add: prepare_dir_def Let_def fc)
  show ?thesis
  proof (cases "fs_exists (files wi) ?p")
    case True
    show ?thesis
    proof (cases "readdir (files wi) ?p")
      case (Inl e)
      then show ?thesis using True s by (simp add: pi py ci cy bind_act_def)
    next
      case (Inr es)
      then show ?thesis using True r by (simp add: pi py ci cy bind_act_def)
    qed
  next
    case False
    then show ?thesis using r by (simp add: pi py ci cy bind_act_def)
  qed
qed

section \<open>The equivalence\<close>

text \<open>
  C23. An interactive run without a directory argument, \<open>--rpc\<close> or \<open>--branch\<close>
  and with the \<open>default\<close> template, in which the user presses Enter at each of the
  five questions, ends with the same outcome and the same file system as the run
  with \<open>--yes\<close>, provided the default target is not a non-empty directory (which
  would add the overwrite question, whose default declines).
\<close>

theorem enter_defaults_match_yes:
  assumes ny: "\<not> yes opts" and nr: "\<not> rpc opts" and nb: "\<not> str_truthy (branch opts)"
    and tpl: "js_or (template opts) ''default'' = ''default''"
    and ans: "answers w = [Enter, Enter, Enter, Enter, Enter]"
    and ne: "\<forall>e es. readdir (files w) (resolve_path (cwd w) default_name) \<noteq> Inr (e # es)"
  shows "fst (createProject [] opts w) = fst (createProject [] (opts\<lparr>yes := True\<rparr>) w)
    \<and> files (snd (createProject [] opts w)) = files (snd (createProject [] (opts\<lparr>yes := True\<rparr>) w))"
proof -
  let ?y = "opts\<lparr>yes := True\<rparr>"
  define w1 where "w1 = emit (EvPrompt (TextPrompt ''projectName'' default_name))
      (w\<lparr>answers := [Enter, Enter, Enter, Enter]\<rparr>)"
  define w2 where "w2 = emit (EvPrompt (SelectPrompt ''template'' template_choices 0))
      (w1\<lparr>answers := [Enter, Enter, Enter]\<rparr>)"
  have rn: "resolve_name [] opts w = (Done default_name, w1)"
    using ny ans by (simp add: resolve_name_def prompt_text_def ask_def text_value_def w1_def default_name_def)
  have rn': "resolve_name [] ?y w = (Done default_name, w)"
    by (simp add: resolve_name_def return_act_def)
  have rt: "resolve_template opts w1 = (Done ''default'', w2)"
    using ny nb by (simp add: resolve_template_def prompt_select_def ask_def select_value_def w1_def w2_def
        template_choices_def TEMPLATES_def)
  have rt': "resolve_template ?y w = (Done ''default'', w)"
    using tpl by (simp add: resolve_template_def return_act_def)
  have se: "same_env w2 w" by (simp add: w1_def w2_def same_env_def)
  have ne2: "\<forall>e es. readdir (files w2) (resolve_path (cwd w2) default_name) \<noteq> Inr (e # es)"
    using ne by (simp add: w1_def w2_def)
  obtain r w3 where pd: "prepare_dir default_name opts w2 = (r, w3)"
    by (cases "prepare_dir default_name opts w2")
  obtain r' w3' where pd': "prepare_dir default_name ?y w = (r', w3')"
    by (cases "prepare_dir default_name ?y w")
  have "r' = r" "same_env w3 w3'" "answers w3 = replicate (Suc (Suc (Suc 0))) Enter"
    using prepare_dir_enter_sim [OF se ne2, of opts ?y] pd pd' by (simp_all add: w1_def w2_def)
  note sim = this
  have ci: "createProject [] opts w = (case r of
      Done p \<Rightarrow> setup_project p default_name ''default'' opts w3
    | Cancelled \<Rightarrow> (Cancelled, w3) | Thrown e \<Rightarrow> (Thrown e, w3))"
    by (simp add: createProject_def bind_act_def rn rt pd)
  have cy: "createProject [] ?y w = (case r of
      Done p \<Rightarrow> setup_project p default_name ''default'' ?y w3'
    | Cancelled \<Rightarrow> (Cancelled, w3') | Thrown e \<Rightarrow> (Thrown e, w3'))"
    by (simp add: createProject_def bind_act_def rn' rt' pd' sim(1))
  show ?thesis
  proof (cases r)
    case (Done p)
    have "fst (setup_project p default_name ''default'' opts w3) = fst (setup_project p default_name ''default'' ?y w3')
      \<and> same_env (snd (setup_project p default_name ''default'' opts w3)) (snd (setup_project p default_name ''default'' ?y w3'))"
      using setup_project_enter_sim [OF ny nr, of p default_name "''default''"] sim(2,3)
      unfolding enter_sim_def by blast
    then show ?thesis using Done ci cy by (simp add: same_env_def)
  qed (use ci cy sim(2) in \<open>simp_all add: same_env_def\<close>)
qed

theorem enter_defaults_match_yes_witness:
  "fst (createProject [] \<lparr>yes = False, typescript = False, repo = Some DEFAULT_REPO, template = Some ''default'', branch = None, rpc = False\<rparr> \<lparr>files = [([], Dir)], cwd = [], answers = [Enter, Enter, Enter, Enter, Enter],
      remote = (\<lambda>u. if u = ''stevedylandev/bhvr-forge#main'' then Some
        [([''package.json''], File (JsonDoc (JObj [(''name'', JStr ''bhvr'')])))] else None),
      tools = (\<lambda>_. True), trace = []\<rparr>)
     = fst (createProject [] (\<lparr>yes = False, typescript = False, repo = Some DEFAULT_REPO, template = Some ''default'', branch = None, rpc = False\<rparr>\<lparr>yes := True\<rparr>) \<lparr>files = [([], Dir)], cwd = [], answers = [Enter, Enter, Enter, Enter, Enter],
      remote = (\<lambda>u. if u = ''stevedylandev/bhvr-forge#main'' then Some
        [([''package.json''], File (JsonDoc (JObj [(''name'', JStr ''bhvr'')])))] else None),
      tools = (\<lambda>_. True), trace = []\<rparr>)
   \<and> files (snd (createProject [] \<lparr>yes = False, typescript = False, repo = Some DEFAULT_REPO, template = Some ''default'', branch = None, rpc = False\<rparr> \<lparr>files = [([], Dir)], cwd = [], answers = [Enter, Enter, Enter, Enter, Enter],
      remote = (\<lambda>u. if u = ''stevedylandev/bhvr-forge#main'' then Some
        [([''package.json''], File (JsonDoc (JObj [(''name'', JStr ''bhvr'')])))] else None),
      tools = (\<lambda>_. True), trace = []\<rparr>))
     = files (snd (createProject [] (\<lparr>yes = False, typescript = False, repo = Some DEFAULT_REPO, template = Some ''default'', branch = None, rpc = False\<rparr>\<lparr>yes := True\<rparr>) \<lparr>files = [([], Dir)], cwd = [], answers = [Enter, Enter, Enter, Enter, Enter],
      remote = (\<lambda>u. if u = ''stevedylandev/bhvr-forge#main'' then Some
        [([''package.json''], File (JsonDoc (JObj [(''name'', JStr ''bhvr'')])))] else None),
      tools = (\<lambda>_. True), trace = []\<rparr>))"
  by (rule enter_defaults_match_yes) (simp_all add: readdir_def resolve_path_def default_name_def fs_lookup_def)

end
