(* ===== verification/SourceLinks.thy ===== *)
theory SourceLinks
  imports RpcPatch
begin

text \<open>
  What the fixed source texts of \<open>templates.ts\<close> say once the RPC patch has written
  them into a project. A light reading of TypeScript source by lines, enough for the
  lines these texts have: \<open>code_lines\<close> (trimmed, non-blank lines),
  \<open>imports_from\<close> (the names an \<open>import ... from "m"\<close> line binds),
  \<open>exported_names\<close> (the names of \<open>export const\<close>, \<open>type\<close>,
  \<open>function\<close> and \<open>default\<close> lines), and
  \<open>statement_starts_with_dot\<close>: a line ending with \<open>;\<close> followed by one
  starting with \<open>.\<close>. A \<open>;\<close> ends a statement and no statement, expression or
  declaration begins with \<open>.\<close>, so outside comments and multi-line literals (which
  these texts have none of) such a pair is a syntax error. The theorems evaluate these
  readings on the texts the patch leaves on disk.
\<close>

section \<open>Reading TypeScript source lines\<close>

definition is_space :: "char \<Rightarrow> bool" where
  "is_space c = (c = CHR '' '' \<or> c = CHR 0x09)"

definition trim :: "string \<Rightarrow> string" where
  "trim s = rev (dropWhile is_space (rev (dropWhile is_space s)))"

definition code_lines :: "string \<Rightarrow> string list" where
  "code_lines t = filter (\<lambda>l. l \<noteq> []) (map trim (split_lines t))"

definition starts_with :: "string \<Rightarrow> string \<Rightarrow> bool" where
  "starts_with pre s = (take (length pre) s = pre)"

definition after :: "string \<Rightarrow> string \<Rightarrow> string" where
  "after pre s = drop (length pre) s"

definition ident_chars :: string where
  "ident_chars = ''abcdefghijklmnopqrstuvwxyzABCDEFGHIJKLMNOPQRSTUVWXYZ0123456789_$''"

definition ident :: "string \<Rightarrow> string" where
  "ident s = takeWhile (\<lambda>c. c \<in> set ident_chars) s"

fun split_on :: "char \<Rightarrow> string \<Rightarrow> string list" where
  "split_on d [] = [[]]"
| "split_on d (c # cs) =
    (if c = d then [] # split_on d cs
     else (case split_on d cs of l # ls \<Rightarrow> (c # l) # ls | [] \<Rightarrow> [[c]]))"

fun dot_after_semicolon :: "string list \<Rightarrow> bool" where
  "dot_after_semicolon (a # b # ls) =
    ((last a = CHR '';'' \<and> hd b = CHR ''.'') \<or> dot_after_semicolon (b # ls))"
| "dot_after_semicolon _ = False"

definition statement_starts_with_dot :: "string \<Rightarrow> bool" where
  "statement_starts_with_dot t = dot_after_semicolon (code_lines t)"

definition quoted :: "string \<Rightarrow> string" where
  "quoted s = (case dropWhile (\<lambda>c. c \<noteq> CHR 0x22 \<and> c \<noteq> CHR 0x27) s of
      q # r \<Rightarrow> takeWhile (\<lambda>c. c \<noteq> q) r
    | [] \<Rightarrow> [])"

definition import_clause :: "string \<Rightarrow> string" where
  "import_clause l = (let b = after ''import '' l in if starts_with ''type '' b then after ''type '' b else b)"

definition import_names :: "string \<Rightarrow> string list" where
  "import_names l = (let b = import_clause l in
     if starts_with ''{'' b then map trim (split_on (CHR '','') (takeWhile (\<lambda>c. c \<noteq> CHR ''}'') (drop 1 b)))
     else [ident b])"

definition imports_from :: "string \<Rightarrow> string \<Rightarrow> string list" where
  "imports_from m t =
    concat (map import_names (filter (\<lambda>l. starts_with ''import '' l \<and> quoted l = m) (code_lines t)))"

definition export_name :: "string \<Rightarrow> string list" where
  "export_name l =
    (if starts_with ''export default '' l then [''default'']
     else if starts_with ''export const '' l then [ident (after ''export const '' l)]
     else if starts_with ''export type '' l then [ident (after ''export type '' l)]
     else if starts_with ''export function '' l then [ident (after ''export function '' l)]
     else [])"

definition exported_names :: "string \<Rightarrow> string list" where
  "exported_names t = concat (map export_name (code_lines t))"

lemmas source_eval = code_lines_def trim_def is_space_def starts_with_def quoted_def import_names_def
  import_clause_def after_def ident_def ident_chars_def imports_from_def exported_names_def export_name_def
  statement_starts_with_dot_def

lemmas text_eval = source_eval template_split honoRpcTemplate_lines_def honoClientTemplate_lines_def
  defaultTemplate_lines_def tailwindTemplate_lines_def shadcnTemplate_lines_def

lemmas patch_eval = patchFilesForRPC_def rpc_steps_def rpc_client_pkg_step_def rpc_server_pkg_step_def
  client_pkg_path_def server_pkg_path_def server_index_path_def server_client_path_def app_tsx_path_def
  bind_act_def read_json_act_def w_read_json_def read_json_def write_act_def w_write_def write_file_def
  fs_lookup_def pure_act_def exec_act_def prop_get2_def prop_set2_def

lemma patch_example_succeeds: "fst (patchFilesForRPC [''app''] ''tailwind'' \<lparr>files = [([], Dir), ([''app''], Dir), ([''app'', ''client''], Dir),
        ([''app'', ''client'', ''package.json''], File (JsonDoc (JObj [(''dependencies'', JObj [(''hono'', JStr ''^4'')])]))),
        ([''app'', ''client'', ''src''], Dir), ([''app'', ''server''], Dir),
        ([''app'', ''server'', ''package.json''], File (JsonDoc (JObj [(''scripts'', JObj [(''dev'', JStr ''bun run'')])]))),
        ([''app'', ''server'', ''src''], Dir)],
      cwd = [], answers = [], remote = (\<lambda>_. None), tools = (\<lambda>_. False), trace = []\<rparr>)"
  by (simp add: patch_eval)

section \<open>The texts the RPC patch writes\<close>

text \<open>
  C24. Of the three source files a successful RPC patch writes, the server entry
  \<open>server/src/index.ts\<close> (\<open>honoRpcTemplate\<close>) has a line ending with
  \<open>;\<close> followed by a line starting with \<open>.\<close>: the \<open>/hello\<close> route ends the
  chain of route calls with \<open>});\<close> and the \<open>/contracts/:address/counter\<close> route
  starts a new statement with \<open>.get(\<close>, which TypeScript does not parse. The client
  helper and the \<open>App.tsx\<close> variant written beside it have no such line.
\<close>

theorem rpc_patch_server_chain_broken:
  assumes "fst (patchFilesForRPC p choice w)"
  shows "\<exists>S C A. fs_lookup (files (snd (patchFilesForRPC p choice w))) (server_index_path p) = Some (File (TextDoc S))
    \<and> fs_lookup (files (snd (patchFilesForRPC p choice w))) (server_client_path p) = Some (File (TextDoc C))
    \<and> fs_lookup (files (snd (patchFilesForRPC p choice w))) (app_tsx_path p) = Some (File (TextDoc A))
    \<and> statement_starts_with_dot S \<and> \<not> statement_starts_with_dot C \<and> \<not> statement_starts_with_dot A"
proof -
  have "statement_starts_with_dot honoRpcTemplate" "\<not> statement_starts_with_dot honoClientTemplate"
    by (simp_all add: text_eval)
  moreover have "\<not> statement_starts_with_dot (app_template choice)"
    by (rule app_template_cases) (simp_all add: text_eval)
  ultimately show ?thesis using patch_true_texts [OF assms] by blast
qed

theorem rpc_patch_server_chain_broken_witness:
  "\<exists>S C A. fs_lookup (files (snd (patchFilesForRPC [''app''] ''tailwind'' \<lparr>files = [([], Dir), ([''app''], Dir), ([''app'', ''client''], Dir),
        ([''app'', ''client'', ''package.json''], File (JsonDoc (JObj [(''dependencies'', JObj [(''hono'', JStr ''^4'')])]))),
        ([''app'', ''client'', ''src''], Dir), ([''app'', ''server''], Dir),
        ([''app'', ''server'', ''package.json''], File (JsonDoc (JObj [(''scripts'', JObj [(''dev'', JStr ''bun run'')])]))),
        ([''app'', ''server'', ''src''], Dir)],
      cwd = [], answers = [], remote = (\<lambda>_. None), tools = (\<lambda>_. False), trace = []\<rparr>))) (server_index_path [''app'']) = Some (File (TextDoc S))
    \<and> fs_lookup (files (snd (patchFilesForRPC [''app''] ''tailwind'' \<lparr>files = [([], Dir), ([''app''], Dir), ([''app'', ''client''], Dir),
        ([''app'', ''client'', ''package.json''], File (JsonDoc (JObj [(''dependencies'', JObj [(''hono'', JStr ''^4'')])]))),
        ([''app'', ''client'', ''src''], Dir), ([''app'', ''server''], Dir),
        ([''app'', ''server'', ''package.json''], File (JsonDoc (JObj [(''scripts'', JObj [(''dev'', JStr ''bun run'')])]))),
        ([''app'', ''server'', ''src''], Dir)],
      cwd = [], answers = [], remote = (\<lambda>_. None), tools = (\<lambda>_. False), trace = []\<rparr>))) (server_client_path [''app'']) = Some (File (TextDoc C))
    \<and> fs_lookup (files (snd (patchFilesForRPC [''app''] ''tailwind'' \<lparr>files = [([], Dir), ([''app''], Dir), ([''app'', ''client''], Dir),
        ([''app'', ''client'', ''package.json''], File (JsonDoc (JObj [(''dependencies'', JObj [(''hono'', JStr ''^4'')])]))),
        ([''app'', ''client'', ''src''], Dir), ([''app'', ''server''], Dir),
        ([''app'', ''server'', ''package.json''], File (JsonDoc (JObj [(''scripts'', JObj [(''dev'', JStr ''bun run'')])]))),
        ([''app'', ''server'', ''src''], Dir)],
      cwd = [], answers = [], remote = (\<lambda>_. None), tools = (\<lambda>_. False), trace = []\<rparr>))) (app_tsx_path [''app'']) = Some (File (TextDoc A))
    \<and> statement_starts_with_dot S \<and> \<not> statement_starts_with_dot C \<and> \<not> statement_starts_with_dot A"
  by (rule rpc_patch_server_chain_broken) (rule patch_example_succeeds)

text \<open>
  C25. The files a successful RPC patch writes refer to each other consistently:
  the client helper \<open>server/src/client.ts\<close> imports from \<open>./index\<close>, which is the
  server entry \<open>server/src/index.ts\<close> written beside it, and every name it imports
  from there is exported by that entry; the \<open>App.tsx\<close> variant imports from
  \<open>server/dist/client\<close> (the helper's build output), and every name it imports
  from there is exported by the helper. Neither import list is empty.
\<close>

theorem rpc_patch_sources_link:
  assumes "fst (patchFilesForRPC p choice w)"
  shows "\<exists>S C A. fs_lookup (files (snd (patchFilesForRPC p choice w))) (server_index_path p) = Some (File (TextDoc S))
    \<and> fs_lookup (files (snd (patchFilesForRPC p choice w))) (server_client_path p) = Some (File (TextDoc C))
    \<and> fs_lookup (files (snd (patchFilesForRPC p choice w))) (app_tsx_path p) = Some (File (TextDoc A))
    \<and> butlast (server_client_path p) @ [''index.ts''] = server_index_path p
    \<and> imports_from ''./index'' C \<noteq> [] \<and> set (imports_from ''./index'' C) \<subseteq> set (exported_names S)
    \<and> imports_from ''server/dist/client'' A \<noteq> []
    \<and> set (imports_from ''server/dist/client'' A) \<subseteq> set (exported_names C)"
proof -
  have "imports_from ''./index'' honoClientTemplate = [''app'']"
    "set [''app''] \<subseteq> set (exported_names honoRpcTemplate)"
    "set [''hcWithType''] \<subseteq> set (exported_names honoClientTemplate)"
    by (simp_all add: text_eval)
  moreover have "imports_from ''server/dist/client'' (app_template choice) = [''hcWithType'']"
    by (rule app_template_cases) (simp_all add: text_eval)
  moreover have "butlast (server_client_path p) @ [''index.ts''] = server_index_path p"
    by (simp add: server_client_path_def server_index_path_def butlast_append)
  ultimately show ?thesis using patch_true_texts [OF assms] by auto
qed

theorem rpc_patch_sources_link_witness:
  "\<exists>S C A. fs_lookup (files (snd (patchFilesForRPC [''app''] ''tailwind'' \<lparr>files = [([], Dir), ([''app''], Dir), ([''app'', ''client''], Dir),
        ([''app'', ''client'', ''package.json''], File (JsonDoc (JObj [(''dependencies'', JObj [(''hono'', JStr ''^4'')])]))),
        ([''app'', ''client'', ''src''], Dir), ([''app'', ''server''], Dir),
        ([''app'', ''server'', ''package.json''], File (JsonDoc (JObj [(''scripts'', JObj [(''dev'', JStr ''bun run'')])]))),
        ([''app'', ''server'', ''src''], Dir)],
      cwd = [], answers = [], remote = (\<lambda>_. None), tools = (\<lambda>_. False), trace = []\<rparr>))) (server_index_path [''app'']) = Some (File (TextDoc S))
    \<and> fs_lookup (files (snd (patchFilesForRPC [''app''] ''tailwind'' \<lparr>files = [([], Dir), ([''app''], Dir), ([''app'', ''client''], Dir),
        ([''app'', ''client'', ''package.json''], File (JsonDoc (JObj [(''dependencies'', JObj [(''hono'', JStr ''^4'')])]))),
        ([''app'', ''client'', ''src''], Dir), ([''app'', ''server''], Dir),
        ([''app'', ''server'', ''package.json''], File (JsonDoc (JObj [(''scripts'', JObj [(''dev'', JStr ''bun run'')])]))),
        ([''app'', ''server'', ''src''], Dir)],
      cwd = [], answers = [], remote = (\<lambda>_. None), tools = (\<lambda>_. False), trace = []\<rparr>))) (server_client_path [''app'']) = Some (File (TextDoc C))
    \<and> fs_lookup (files (snd (patchFilesForRPC [''app''] ''tailwind'' \<lparr>files = [([], Dir), ([''app''], Dir), ([''app'', ''client''], Dir),
        ([''app'', ''client'', ''package.json''], File (JsonDoc (JObj [(''dependencies'', JObj [(''hono'', JStr ''^4'')])]))),
        ([''app'', ''client'', ''src''], Dir), ([''app'', ''server''], Dir),
        ([''app'', ''server'', ''package.json''], File (JsonDoc (JObj [(''scripts'', JObj [(''dev'', JStr ''bun run'')])]))),
        ([''app'', ''server'', ''src''], Dir)],
      cwd = [], answers = [], remote = (\<lambda>_. None), tools = (\<lambda>_. False), trace = []\<rparr>))) (app_tsx_path [''app'']) = Some (File (TextDoc A))
    \<and> butlast (server_client_path [''app'']) @ [''index.ts''] = server_index_path [''app'']
    \<and> imports_from ''./index'' C \<noteq> [] \<and> set (imports_from ''./index'' C) \<subseteq> set (exported_names S)
    \<and> imports_from ''server/dist/client'' A \<noteq> []
    \<and> set (imports_from ''server/dist/client'' A) \<subseteq> set (exported_names C)"
  by (rule rpc_patch_sources_link) (rule patch_example_succeeds)

end
