(* ===== verification/RunEffects.thy ===== *)
theory RunEffects
  imports Workflow
begin

text \<open>
  What the steps of \<open>createProject\<close> (\<open>src/utils/helpers.ts\<close>) do to the project
  directory, over arbitrary worlds: the rewrite of the fetched \<open>package.json\<close>
  (lines 206--212), the error it raises on a manifest that is not JSON, the
  overwrite followed by a failed download (lines 171--204), and the name a successful
  run leaves in the manifest.
\<close>

section \<open>File-system facts\<close>

text \<open>\<open>ensureDirSync\<close> on an existing directory of a well-formed file system changes nothing.\<close>

lemma ensure_dir_existing:
  assumes wf: "fs_wf f" and d: "fs_lookup f p = Some Dir"
  shows "ensure_dir f p = Inr f"
proof -
  have pre: "fs_lookup f q = Some Dir" if "strict_prefix q p" for q
    using fs_wf_prefix_dir [OF wf, of p q] d that by simp
  have "\<not> list_ex (\<lambda>q. is_file (fs_lookup f q)) (butlast (prefixes p))"
    by (auto simp: list_ex_iff set_butlast_prefixes pre)
  moreover have "filter (\<lambda>q. fs_lookup f q = None) (prefixes p) = []"
  proof -
    have "fs_lookup f q \<noteq> None" if "prefix q p" for q
      using that d pre by (cases "q = p") (auto simp: strict_prefix_def)
    then show ?thesis by (auto simp: filter_empty_conv)
  qed
  ultimately show ?thesis using d by (simp add: ensure_dir_def)
qed

lemma empty_dir_lookup:
  "fs_lookup (empty_dir f p) q = (if is_below p q then None else fs_lookup f q)"
  by (simp add: empty_dir_def fs_lookup_def map_of_filter_fst)

lemma readdir_Inr_dir: "readdir f p = Inr es \<Longrightarrow> fs_lookup f p = Some Dir"
  by (auto simp: readdir_def split: option.splits node.splits)

lemma child_is_below: "is_child p q \<Longrightarrow> is_below p q"
proof -
  assume c: "is_child p q"
  then have "q = p @ [last q]" using append_butlast_last_id [of q] by (simp add: is_child_def)
  then show ?thesis by (metis is_below_def prefix_order.refl strict_prefix_snoc_iff)
qed

lemma readdir_empty_dir:
  assumes "fs_lookup f p = Some Dir"
  shows "readdir (empty_dir f p) p = Inr []"
proof -
  have "fs_lookup (empty_dir f p) p = Some Dir"
    using assms by (simp add: empty_dir_lookup is_below_def)
  moreover have "[q. (q, _) \<leftarrow> empty_dir f p, is_child p q] = []"
    by (auto simp: empty_dir_def dest: child_is_below)
  ultimately show ?thesis by (simp add: readdir_def)
qed

section \<open>Renaming the fetched package\<close>

lemma pkg_json_path_parent: "butlast (pkg_json_path p) = p" "pkg_json_path p \<noteq> []"
  by (simp_all add: pkg_json_path_def)

text \<open>
  \<open>pkgJson.name = projectName\<close> on a manifest that is a JSON object: the file is
  replaced by the object with the assigned field.
\<close>

lemma rename_package_obj:
  assumes wf: "fs_wf (files w)"
    and m: "fs_lookup (files w) (pkg_json_path p) = Some (File (JsonDoc (JObj kvs)))"
  shows "rename_package p name w =
    (Done (), w\<lparr>files := AList.update (pkg_json_path p)
        (File (JsonDoc (JObj (AList.update ''name'' (JStr name) kvs)))) (files w)\<rparr>)"
proof -
  have par: "fs_lookup (files w) (butlast (pkg_json_path p)) = Some Dir"
    using fs_wf_lookup_parent [OF wf m pkg_json_path_parent(2)] .
  have wr: "write_act (pkg_json_path p) (JsonDoc (JObj (AList.update ''name'' (JStr name) kvs))) w =
    (Done (), w\<lparr>files := AList.update (pkg_json_path p)
        (File (JsonDoc (JObj (AList.update ''name'' (JStr name) kvs)))) (files w)\<rparr>)"
    by (rule write_act_Done) (use par m pkg_json_path_parent in simp_all)
  show ?thesis
    using m wr by (simp add: rename_package_def fs_exists_def bind_act_def read_json_act_def
        w_read_json_def read_json_def)
qed

text \<open>A manifest that is not JSON makes \<open>fs.readJson\<close> reject; nothing is written.\<close>

lemma rename_package_text:
  "fs_lookup (files w) (pkg_json_path p) = Some (File (TextDoc s)) \<Longrightarrow>
   rename_package p name w = (Thrown JsonParseError, w)"
  by (simp add: rename_package_def fs_exists_def bind_act_def read_json_act_def
      w_read_json_def read_json_def)

section \<open>The effect of the rename\<close>

text \<open>
  C11. On a well-formed file system whose fetched \<open>package.json\<close> is a JSON object,
  the rename step succeeds and rewrites only that file: the manifest is still an object,
  its \<open>name\<close> is the project name, every other field keeps its value, the fields keep
  their order (\<open>name\<close> goes last when the fetched manifest had none, as
  \<open>JSON.stringify\<close> would print it), and every other path is unchanged.
\<close>

theorem rename_package_effect:
  assumes wf: "fs_wf (files w)"
    and m: "fs_lookup (files w) (pkg_json_path p) = Some (File (JsonDoc (JObj kvs)))"
  shows "fst (rename_package p name w) = Done () \<and>
    (\<exists>kvs'. fs_lookup (files (snd (rename_package p name w))) (pkg_json_path p) = Some (File (JsonDoc (JObj kvs')))
       \<and> map_of kvs' ''name'' = Some (JStr name)
       \<and> (\<forall>k. k \<noteq> ''name'' \<longrightarrow> map_of kvs' k = map_of kvs k)
       \<and> map fst kvs' = (if ''name'' \<in> set (map fst kvs) then map fst kvs else map fst kvs @ [''name''])) \<and>
    (\<forall>q. q \<noteq> pkg_json_path p \<longrightarrow> fs_lookup (files (snd (rename_package p name w))) q = fs_lookup (files w) q)"
proof -
  let ?kvs' = "AList.update ''name'' (JStr name) kvs"
  have keys: "map fst ?kvs' = (if ''name'' \<in> set (map fst kvs) then map fst kvs else map fst kvs @ [''name''])"
    using prop_set_keys [of kvs "''name''" "JStr name" ?kvs'] by simp
  show ?thesis
    using keys by (simp add: rename_package_obj [OF wf m] fs_lookup_update update_conv')
qed

theorem rename_package_effect_witness:
  "fs_wf (files \<lparr>files = [([], Dir), ([''app''], Dir),
      ([''app'', ''package.json''], File (JsonDoc (JObj [(''name'', JStr ''bhvr''), (''private'', JBool True)])))],
      cwd = [], answers = [], remote = (\<lambda>_. None), tools = (\<lambda>_. True), trace = []\<rparr>) \<and>
   fs_lookup (files \<lparr>files = [([], Dir), ([''app''], Dir),
      ([''app'', ''package.json''], File (JsonDoc (JObj [(''name'', JStr ''bhvr''), (''private'', JBool True)])))],
      cwd = [], answers = [], remote = (\<lambda>_. None), tools = (\<lambda>_. True), trace = []\<rparr>) (pkg_json_path [''app'']) =
     Some (File (JsonDoc (JObj [(''name'', JStr ''bhvr''), (''private'', JBool True)]))) \<and>
   fst (rename_package [''app''] ''app'' \<lparr>files = [([], Dir), ([''app''], Dir),
      ([''app'', ''package.json''], File (JsonDoc (JObj [(''name'', JStr ''bhvr''), (''private'', JBool True)])))],
      cwd = [], answers = [], remote = (\<lambda>_. None), tools = (\<lambda>_. True), trace = []\<rparr>) = Done ()"
proof -
  let ?w = "\<lparr>files = [([], Dir), ([''app''], Dir),
      ([''app'', ''package.json''], File (JsonDoc (JObj [(''name'', JStr ''bhvr''), (''private'', JBool True)])))],
      cwd = [], answers = [], remote = (\<lambda>_. None), tools = (\<lambda>_. True), trace = []\<rparr>"
  have h1: "fs_wf (files ?w)" by (simp add: fs_wf_def fs_lookup_def)
  have h2: "fs_lookup (files ?w) (pkg_json_path [''app'']) =
      Some (File (JsonDoc (JObj [(''name'', JStr ''bhvr''), (''private'', JBool True)])))"
    by (simp add: fs_lookup_def pkg_json_path_def)
  show ?thesis using h1 h2 rename_package_effect [OF h1 h2] by simp
qed

section \<open>A manifest that is not JSON\<close>

text \<open>
  C18. The specification says only the download is fatal, but it is not. Whatever
  the options, when the download succeeds and leaves a \<open>package.json\<close> that is not
  valid JSON, \<open>fs.readJson\<close> rejects inside the \<open>try\<close> and \<open>createProject\<close>
  throws a parse error. It throws right after the download: the fetched files stay, and
  no \<open>.git\<close> removal, patch or command follows.
\<close>

theorem setup_project_manifest_not_json:
  assumes dl: "download p choice opts w = (Done (), w')"
    and bad: "fs_lookup (files w') (pkg_json_path p) = Some (File (TextDoc s))"
  shows "setup_project p name choice opts w = (Thrown JsonParseError, w')"
  unfolding setup_project_def
  by (simp only: bind_act_Done [where m = "download p choice opts", OF dl])
    (simp add: rename_package_text [OF bad] bind_act_def)

theorem setup_project_manifest_not_json_witness:
  "download [''my-app''] ''default'' \<lparr>yes = True, typescript = False, repo = None, template = None,
       branch = None, rpc = False\<rparr>
     \<lparr>files = [([], Dir), ([''my-app''], Dir)], cwd = [], answers = [],
      remote = (\<lambda>u. if u = ''stevedylandev/bhvr-forge#main'' then Some
        [([''package.json''], File (TextDoc ''{ broken''))] else None),
      tools = (\<lambda>_. True), trace = []\<rparr> =
   (Done (), \<lparr>files = [([], Dir), ([''my-app''], Dir), ([''my-app'', ''package.json''], File (TextDoc ''{ broken''))],
      cwd = [], answers = [],
      remote = (\<lambda>u. if u = ''stevedylandev/bhvr-forge#main'' then Some
        [([''package.json''], File (TextDoc ''{ broken''))] else None),
      tools = (\<lambda>_. True), trace = [EvFetch ''stevedylandev/bhvr-forge#main'']\<rparr>) \<and>
   setup_project [''my-app''] ''my-app'' ''default'' \<lparr>yes = True, typescript = False, repo = None, template = None,
       branch = None, rpc = False\<rparr>
     \<lparr>files = [([], Dir), ([''my-app''], Dir)], cwd = [], answers = [],
      remote = (\<lambda>u. if u = ''stevedylandev/bhvr-forge#main'' then Some
        [([''package.json''], File (TextDoc ''{ broken''))] else None),
      tools = (\<lambda>_. True), trace = []\<rparr> =
   (Thrown JsonParseError, \<lparr>files = [([], Dir), ([''my-app''], Dir), ([''my-app'', ''package.json''], File (TextDoc ''{ broken''))],
      cwd = [], answers = [],
      remote = (\<lambda>u. if u = ''stevedylandev/bhvr-forge#main'' then Some
        [([''package.json''], File (TextDoc ''{ broken''))] else None),
      tools = (\<lambda>_. True), trace = [EvFetch ''stevedylandev/bhvr-forge#main'']\<rparr>)"
proof -
  let ?o = "\<lparr>yes = True, typescript = False, repo = None, template = None, branch = None, rpc = False\<rparr>"
  let ?r = "\<lambda>u. if u = ''stevedylandev/bhvr-forge#main'' then Some
        [([''package.json''], File (TextDoc ''{ broken''))] else None"
  let ?w' = "\<lparr>files = [([], Dir), ([''my-app''], Dir), ([''my-app'', ''package.json''], File (TextDoc ''{ broken''))],
      cwd = [], answers = [], remote = ?r, tools = (\<lambda>_. True), trace = [EvFetch ''stevedylandev/bhvr-forge#main'']\<rparr>"
  have h1: "download [''my-app''] ''default'' ?o
      \<lparr>files = [([], Dir), ([''my-app''], Dir)], cwd = [], answers = [], remote = ?r,
       tools = (\<lambda>_. True), trace = []\<rparr> = (Done (), ?w')"
    by (simp add: createProject_eval)
  have h2: "fs_lookup (files ?w') (pkg_json_path [''my-app'']) = Some (File (TextDoc ''{ broken''))"
    by (simp add: fs_lookup_def pkg_json_path_def)
  show ?thesis using h1 setup_project_manifest_not_json [OF h1 h2] by simp
qed

section \<open>Confirming the overwrite, then failing to download\<close>

text \<open>
  C19. A case the specification leaves open. In interactive mode on a well-formed file
  system, suppose the target directory is not empty, the user confirms the overwrite,
  and the repository cannot be fetched. Then the run throws the download error, but
  the directory has already been emptied: it still exists and lists no entry, and
  every path that is not below it is as it was.
\<close>

theorem createProject_overwrite_fetch_fails:
  assumes wf: "fs_wf (files w)" and ny: "\<not> yes opts"
    and n: "fst (resolve_name dir opts w) = Done name"
    and t: "fst (resolve_template opts (snd (resolve_name dir opts w))) = Done choice"
    and ne: "readdir (files w) (resolve_path (cwd w) name) = Inr (e # es)"
    and a: "answers (snd (resolve_template opts (snd (resolve_name dir opts w)))) = a # as"
    and c: "confirm_value False a = Some True"
    and f: "remote w (repo_url opts choice) = None"
  shows "fst (createProject dir opts w) = Thrown FetchFailed
    \<and> readdir (files (snd (createProject dir opts w))) (resolve_path (cwd w) name) = Inr []
    \<and> (\<forall>q. \<not> is_below (resolve_path (cwd w) name) q \<longrightarrow>
         fs_lookup (files (snd (createProject dir opts w))) q = fs_lookup (files w) q)"
proof -
  define w2 where "w2 = snd (resolve_template opts (snd (resolve_name dir opts w)))"
  let ?p = "resolve_path (cwd w) name"
  have steps: "createProject dir opts w = bind_act (prepare_dir name opts) (\<lambda>p. setup_project p name choice opts) w2"
    and f2: "files w2 = files w" "cwd w2 = cwd w" "remote w2 = remote w"
    using createProject_resolved [OF n t] by (simp_all add: w2_def)
  have a2: "answers w2 = a # as" using a by (simp add: w2_def)
  have d: "fs_lookup (files w) ?p = Some Dir" using readdir_Inr_dir [OF ne] .
  define w3 where "w3 = (emit (EvPrompt (ConfirmPrompt ''overwrite'' False)) (w2\<lparr>answers := as\<rparr>))
      \<lparr>files := empty_dir (files w) ?p\<rparr>"
  have co: "confirm_overwrite ?p w2 = (Done (), w3)"
    using a2 c f2 by (simp add: confirm_overwrite_def prompt_confirm_def ask_def w3_def)
  have ce: "check_existing ?p opts w2 = (Done (), w3)"
    using ny ne f2 co by (simp add: check_existing_def readdir_Inr_exists)
  have f3: "files w3 = empty_dir (files w) ?p" "remote w3 = remote w"
    using f2 by (simp_all add: w3_def emit_def)
  have ens: "ensure_dir (files w3) ?p = Inr (files w3)"
    by (rule ensure_dir_existing) (use wf d in \<open>simp_all add: f3 empty_dir_wf empty_dir_lookup is_below_def\<close>)
  have pd: "prepare_dir name opts w2 = (Done ?p, w3)"
    by (simp add: prepare_dir_def Let_def f2 bind_act_def ce ensure_dir_act_def w_ensure_dir_def ens)
  have sp: "setup_project ?p name choice opts w3 = (Thrown FetchFailed, emit (EvFetch (repo_url opts choice)) w3)"
    using f f3 by (simp add: setup_project_def download_def clone_act_def w_clone_def bind_act_def)
  have run: "createProject dir opts w = (Thrown FetchFailed, emit (EvFetch (repo_url opts choice)) w3)"
    by (simp add: steps bind_act_Done [where m = "prepare_dir name opts", OF pd] sp)
  show ?thesis
    using run f3 readdir_empty_dir [OF d] by (simp add: empty_dir_lookup)
qed

theorem createProject_overwrite_fetch_fails_witness:
  "fst (createProject ''app'' \<lparr>yes = False, typescript = False, repo = None, template = None, branch = None, rpc = False\<rparr>
     \<lparr>files = [([], Dir), ([''app''], Dir), ([''app'', ''notes.txt''], File (TextDoc ''keep''))],
      cwd = [], answers = [Enter, Confirmed True], remote = (\<lambda>_. None), tools = (\<lambda>_. True), trace = []\<rparr>) =
     Thrown FetchFailed \<and>
   readdir (files (snd (createProject ''app'' \<lparr>yes = False, typescript = False, repo = None, template = None,
       branch = None, rpc = False\<rparr>
     \<lparr>files = [([], Dir), ([''app''], Dir), ([''app'', ''notes.txt''], File (TextDoc ''keep''))],
      cwd = [], answers = [Enter, Confirmed True], remote = (\<lambda>_. None), tools = (\<lambda>_. True), trace = []\<rparr>)))
     [''app''] = Inr []"
proof -
  let ?o = "\<lparr>yes = False, typescript = False, repo = None, template = None, branch = None, rpc = False\<rparr>"
  let ?w = "\<lparr>files = [([], Dir), ([''app''], Dir), ([''app'', ''notes.txt''], File (TextDoc ''keep''))],
      cwd = [], answers = [Enter, Confirmed True], remote = (\<lambda>_. None), tools = (\<lambda>_. True), trace = []\<rparr>"
  have rn: "resolve_name ''app'' ?o ?w = (Done ''app'', ?w)" by (simp add: resolve_name_def)
  have h: "fs_wf (files ?w)" "\<not> yes ?o" "fst (resolve_name ''app'' ?o ?w) = Done ''app''"
      "fst (resolve_template ?o (snd (resolve_name ''app'' ?o ?w))) = Done ''default''"
      "readdir (files ?w) (resolve_path (cwd ?w) ''app'') = Inr ([''app'', ''notes.txt''] # [])"
      "answers (snd (resolve_template ?o (snd (resolve_name ''app'' ?o ?w)))) = Confirmed True # []"
      "confirm_value False (Confirmed True) = Some True"
      "remote ?w (repo_url ?o ''default'') = None"
    by (simp_all add: rn fs_wf_def fs_lookup_def resolve_template_def prompt_select_def ask_def select_value_def
        template_choices_def TEMPLATES_def emit_def readdir_def resolve_path_def is_child_def confirm_value_def)
  show ?thesis using createProject_overwrite_fetch_fails [OF h] by (simp add: resolve_path_def)
qed

section \<open>The name a successful run leaves in the manifest\<close>

text \<open>After a successful rename, a manifest that is an object carries the project name.\<close>

lemma rename_package_Done_at:
  assumes r: "rename_package p name w = (Done x, w')"
    and m: "fs_lookup (files w') (pkg_json_path p) = Some (File (JsonDoc (JObj kvs)))"
  shows "map_of kvs ''name'' = Some (JStr name)"
proof (cases "fs_exists (files w) (pkg_json_path p)")
  case False
  with r have "w' = w" by (simp add: rename_package_def)
  with False m show ?thesis by (simp add: fs_exists_def)
next
  case True
  obtain v where rj: "read_json (files w) (pkg_json_path p) = Inr v"
    using r True by (cases "read_json (files w) (pkg_json_path p)")
      (simp_all add: rename_package_def bind_act_def read_json_act_def w_read_json_def)
  obtain v' where ps: "prop_set v ''name'' (JStr name) = Inr v'"
    and wr: "write_act (pkg_json_path p) (JsonDoc v') w = (Done x, w')"
    using r True rj by (cases "prop_set v ''name'' (JStr name)")
      (simp_all add: rename_package_def bind_act_def read_json_act_def w_read_json_def)
  have "v' = JObj kvs" using write_act_Done_at [OF wr, of "pkg_json_path p"] m by simp
  with ps show ?thesis by (cases v) (auto simp: update_conv')
qed

text \<open>The steps after the rename never touch the project's own \<open>package.json\<close>.\<close>

lemma remove_git_same_at_manifest: "act_keeps (same_at (pkg_json_path p)) (remove_git p)"
proof -
  have "\<not> prefix (git_dir_path p) (pkg_json_path p)"
    by (simp add: git_dir_path_def pkg_json_path_def)
  then show ?thesis
    by (auto simp: act_keeps_def same_at_def remove_git_def remove_tree_def fs_lookup_def map_of_filter_fst)
qed

lemma patch_same_at_manifest: "same_at (pkg_json_path p) w (snd (patchFilesForRPC p choice w))"
proof -
  have "act_keeps (same_at (pkg_json_path p)) (rpc_steps p choice)"
    unfolding rpc_steps_def rpc_client_pkg_step_def rpc_server_pkg_step_def
    by (intro keeps_intros write_act_same_at;
        simp add: pkg_json_path_def client_pkg_path_def server_pkg_path_def server_index_path_def
          server_client_path_def app_tsx_path_def)
  then have "same_at (pkg_json_path p) w (snd (rpc_steps p choice w))" by (rule act_keepsD)
  then show ?thesis
    by (auto simp: patchFilesForRPC_def same_at_def split: prod.splits outcome.splits)
qed

lemma setup_tail_same_at_manifest:
  "act_keeps (same_at (pkg_json_path p)) (rpc_step p choice opts)"
  "act_keeps (same_at (pkg_json_path p)) (git_step opts)"
  "act_keeps (same_at (pkg_json_path p)) (deps_step opts)"
  using patch_same_at_manifest [where p = p and choice = choice]
  by (auto simp: act_keeps_def same_at_def rpc_step_def run_patch_def git_step_def try_git_init_def
        try_git_init_yes_def deps_step_def install_deps_def install_deps_yes_def run_cmd_def
        dest!: prompt_frame cancel_frame split: prod.splits option.splits bool.splits)

lemma setup_project_manifest_name:
  assumes s: "setup_project p name choice opts w = (Done r, w')"
    and m: "fs_lookup (files w') (pkg_json_path p) = Some (File (JsonDoc (JObj kvs)))"
  shows "map_of kvs ''name'' = Some (JStr name)"
proof -
  define tail where "tail = (\<lambda>_ :: unit. bind_act (remove_git p) (\<lambda>_.
    bind_act (rpc_step p choice opts) (\<lambda>_.
    bind_act (git_step opts) (\<lambda>g.
    bind_act (deps_step opts) (\<lambda>d.
    return_act \<lparr>projectName = name, gitInitialized = g,
                dependenciesInstalled = d, result_template = choice\<rparr>)))))"
  have eq: "setup_project p name choice opts = bind_act (download p choice opts) (\<lambda>_.
      bind_act (rename_package p name) tail)"
    by (simp add: setup_project_def tail_def)
  have "fst (bind_act (download p choice opts) (\<lambda>_. bind_act (rename_package p name) tail) w) = Done r"
    using s eq by simp
  then obtain x1 s1 where d: "download p choice opts w = (Done x1, s1)"
    and e1: "bind_act (download p choice opts) (\<lambda>_. bind_act (rename_package p name) tail) w =
      bind_act (rename_package p name) tail s1"
    by (rule bind_act_DoneE)
  have "fst (bind_act (rename_package p name) tail s1) = Done r" using s eq e1 by simp
  then obtain x2 s2 where rn: "rename_package p name s1 = (Done x2, s2)"
    and e2: "bind_act (rename_package p name) tail s1 = tail x2 s2"
    by (rule bind_act_DoneE)
  have w': "w' = snd (tail x2 s2)" using s eq e1 e2 by simp
  have "act_keeps (same_at (pkg_json_path p)) (tail x2)"
    unfolding tail_def
    by (intro keeps_intros remove_git_same_at_manifest setup_tail_same_at_manifest; simp)
  then have "same_at (pkg_json_path p) s2 w'" using w' by (simp add: act_keepsD)
  then show ?thesis using rename_package_Done_at [OF rn] m by (simp add: same_at_def)
qed

text \<open>
  C29. What a successful run writes as the package name. After a successful run, if
  the \<open>package.json\<close> of the project directory is a JSON object, its \<open>name\<close> is
  the reported project name. That name is the directory argument exactly as typed,
  whenever one was given. So the argument \<open>apps/web\<close> becomes the nested
  directory \<open>apps/web\<close> (through \<open>path.resolve\<close>), and it is also written
  verbatim as the package name, which npm rejects as an unscoped name.
\<close>

theorem createProject_manifest_name:
  assumes ok: "fst (createProject dir opts w) = Done r"
    and m: "fs_lookup (files (snd (createProject dir opts w)))
      (pkg_json_path (resolve_path (cwd w) (projectName r))) = Some (File (JsonDoc (JObj kvs)))"
  shows "map_of kvs ''name'' = Some (JStr (projectName r)) \<and> (dir \<noteq> [] \<longrightarrow> projectName r = dir)"
proof -
  from createProject_Done_split [OF ok] obtain name w1 choice w2 p w3
    where n: "resolve_name dir opts w = (Done name, w1)"
      and t: "resolve_template opts w1 = (Done choice, w2)"
      and pd: "prepare_dir name opts w2 = (Done p, w3)"
      and e3: "createProject dir opts w = setup_project p name choice opts w3"
    by blast
  have cw: "cwd w2 = cwd w" using resolve_steps_cwd(1) [OF n] resolve_steps_cwd(2) [OF t] by simp
  have p: "p = resolve_path (cwd w) name" using prepare_dir_Done [OF pd] cw by simp
  have sp: "setup_project p name choice opts w3 = (Done r, snd (createProject dir opts w))"
    using ok e3 by (metis prod.collapse)
  have nm: "projectName r = name" using act_resultD [OF setup_project_name sp] .
  have "map_of kvs ''name'' = Some (JStr name)"
    by (rule setup_project_manifest_name [OF sp]) (use m nm p in simp)
  moreover have "dir \<noteq> [] \<longrightarrow> name = dir"
    using n by (auto simp: resolve_name_def)
  ultimately show ?thesis using nm by simp
qed

theorem createProject_manifest_name_witness:
  "fst (createProject ''apps/web'' \<lparr>yes = True, typescript = False, repo = None, template = None,
       branch = None, rpc = False\<rparr>
     \<lparr>files = [([], Dir)], cwd = [], answers = [],
      remote = (\<lambda>u. if u = ''stevedylandev/bhvr-forge#main'' then Some
        [([''package.json''], File (JsonDoc (JObj [(''name'', JStr ''bhvr'')])))] else None),
      tools = (\<lambda>_. True), trace = []\<rparr>) =
     Done \<lparr>projectName = ''apps/web'', gitInitialized = True, dependenciesInstalled = True,
       result_template = ''default''\<rparr> \<and>
   resolve_path [] ''apps/web'' = [''apps'', ''web''] \<and>
   fs_lookup (files (snd (createProject ''apps/web'' \<lparr>yes = True, typescript = False, repo = None,
       template = None, branch = None, rpc = False\<rparr>
     \<lparr>files = [([], Dir)], cwd = [], answers = [],
      remote = (\<lambda>u. if u = ''stevedylandev/bhvr-forge#main'' then Some
        [([''package.json''], File (JsonDoc (JObj [(''name'', JStr ''bhvr'')])))] else None),
      tools = (\<lambda>_. True), trace = []\<rparr>)))
     (pkg_json_path [''apps'', ''web'']) = Some (File (JsonDoc (JObj [(''name'', JStr ''apps/web'')]))) \<and>
   map_of [(''name'', JStr ''apps/web'')] ''name'' = Some (JStr ''apps/web'')"
proof -
  let ?o = "\<lparr>yes = True, typescript = False, repo = None, template = None, branch = None, rpc = False\<rparr>"
  let ?w = "\<lparr>files = [([], Dir)], cwd = [], answers = [],
      remote = (\<lambda>u. if u = ''stevedylandev/bhvr-forge#main'' then Some
        [([''package.json''], File (JsonDoc (JObj [(''name'', JStr ''bhvr'')])))] else None),
      tools = (\<lambda>_. True), trace = []\<rparr>"
  let ?r = "\<lparr>projectName = ''apps/web'', gitInitialized = True, dependenciesInstalled = True,
       result_template = ''default''\<rparr>"
  have h1: "fst (createProject ''apps/web'' ?o ?w) = Done ?r"
    by (simp add: createProject_eval)
  have rp: "resolve_path [] ''apps/web'' = [''apps'', ''web'']"
    by (simp add: resolve_path_def)
  have h2: "fs_lookup (files (snd (createProject ''apps/web'' ?o ?w)))
      (pkg_json_path (resolve_path (cwd ?w) (projectName ?r))) = Some (File (JsonDoc (JObj [(''name'', JStr ''apps/web'')])))"
    by (simp add: createProject_eval)
  show ?thesis using h1 h2 rp createProject_manifest_name [OF h1 h2] by simp
qed

end
