(* ===== verification/Spec2Isabelle.thy ===== *)
theory Spec2Isabelle
  imports Argv PromptOrder CommandOrder Progress JsonDocs EnterDefaults SourceLinks RunEffects
begin

text \<open>
  \<^bold>\<open>Verification development of create-bhvr-forge.\<close>

  \<^medskip>\<^noindent>\<^bold>\<open>The program.\<close> \<open>src/index.ts\<close> declares the command (flags
  \<open>-y\<close>, \<open>--ts\<close>, \<open>--repo\<close>, \<open>--template\<close>, \<open>--branch\<close>, \<open>--rpc\<close>),
  prints the banner, calls \<open>createProject\<close> of \<open>src/utils/helpers.ts\<close> and prints
  the next steps or the error, choosing the exit status. \<open>createProject\<close> is a
  linear sequence of resolve-or-cancel steps: the name, the template, the target
  directory (with the overwrite question), the \<open>degit\<close> download, the
  normalisation of the fetched tree (\<open>package.json\<close> name, \<open>.git\<close> removal), the
  optional RPC patch \<open>patchFilesForRPC\<close>, \<open>git init\<close> and the dependency
  installation. \<open>src/utils/templates.ts\<close> holds the template registry and the fixed
  source texts the patch writes; \<open>src/types.ts\<close> the option and result records.

  \<^medskip>\<^noindent>\<^bold>\<open>Theories.\<close>
  \<^item> \<open>Prelude\<close>: the outcome of an asynchronous step (a value, \<open>null\<close> as
    \<^const>\<open>Cancelled\<close>, a thrown error), the state-passing combinators
    \<^const>\<open>bind_act\<close> and friends, JavaScript's \<open>||\<close> on strings, and the
    generic frame rules: \<^const>\<open>act_keeps\<close> (a relation between the world before and
    after every step), \<^const>\<open>act_never_throws\<close> and \<^const>\<open>act_result\<close>, each
    closed under \<^const>\<open>bind_act\<close>.
  \<^item> \<open>Json\<close>: JSON values and the property reads and strict-mode assignments the
    code performs on parsed manifests (\<^const>\<open>prop_get\<close>, \<^const>\<open>prop_set\<close>,
    \<^const>\<open>prop_get2\<close>, \<^const>\<open>prop_set2\<close>), with the well-formedness and key-order
    lemmas the workflow's theorems use.
  \<^item> \<open>TemplateTexts\<close>: the five exported source texts of \<open>templates.ts\<close>
    transcribed line by line (\<^const>\<open>honoRpcTemplate_lines\<close> and the
    others), each text the lines joined by newlines, and the round trip that reads the
    lines back (\<^const>\<open>split_lines\<close>).
  \<^item> \<open>Templates\<close>: the records of \<open>types.ts\<close>, \<^const>\<open>TEMPLATES\<close> in key order,
    indexing by an arbitrary string including \<open>Object.prototype\<close> members, the branch
    a template resolves to (C1, C2) and the \<open>App.tsx\<close> variant it selects.
  \<^item> \<open>Runtime\<close>: the world (\<^typ>\<open>world\<close>): the file system as an association
    list from paths to nodes with the invariant \<^const>\<open>fs_wf\<close>, scripted answers to
    prompts, remote trees by URL, whether each command line succeeds, and a trace of
    prompts, commands, downloads and console messages; the library operations the code
    calls (\<open>fs.writeFile\<close>/\<open>writeJson\<close>, \<open>readJson\<close>, \<open>ensureDirSync\<close>,
    \<open>emptyDir\<close>, \<open>remove\<close>, \<open>readdirSync\<close>, \<open>degit\<close> clone, \<open>execa\<close>,
    \<open>prompts\<close>, \<open>path.resolve\<close>) with their error cases; and the lemmas that each
    of them keeps the prompts, the invariant, existing directories and untouched
    entries.
  \<^item> \<open>RpcPatch\<close>: \<open>patchFilesForRPC\<close> as its five steps; it succeeds and writes
    what it should under its preconditions (C9) and never changes the client
    manifest (C10).
  \<^item> \<open>Workflow\<close>: \<open>createProject\<close>, one definition per step in the code's
    order, including the two copies of the git and install code in the interactive and
    \<open>--yes\<close> branches; no prompt with \<open>--yes\<close> (C3), the npm fallback (C4), the
    copies agree (C12), cancellation (C5), exec failures are never fatal (C6), declining
    the overwrite changes nothing (C7), the directory exists after success (C8) and the
    reported template (C21); every run keeps the file-system invariant
    \<^const>\<open>fs_wf\<close> (lemma \<open>createProject_wf\<close>).
  \<^item> \<open>PromptOrder\<close>: the specification's linear step order as the abstract
    sequence \<^const>\<open>workflow_prompt_order\<close> and the refinement theorem that every
    run's prompts are a subsequence of it (C20).
  \<^item> \<open>CommandOrder\<close>: the same refinement for the external commands: the
    commands of every run, read off the trace, are a subsequence of
    \<^const>\<open>workflow_command_order\<close> (\<open>bun install hono\<close>, \<open>git init\<close>,
    \<open>bun install\<close>, \<open>npm install\<close>) (C30).
  \<^item> \<open>Progress\<close>: with \<open>--yes\<close>, a new target directory, a successful
    download of a well-formed tree (\<^const>\<open>tree_ok\<close>: each entry listed after the
    directory holding it) and a manifest that is absent or a JSON object, the run
    completes with a result (C22).
  \<^item> \<open>JsonDocs\<close>: every step of the workflow keeps every JSON document on disk well
    formed (no repeated key) when the disk and the downloads were.
  \<^item> \<open>SourceLinks\<close>: a line-level reading of TypeScript (imports, exports,
    a statement starting with \<open>.\<close>) applied to the texts a successful RPC patch
    leaves on disk: the server entry does not parse (C24), and the three written files
    import only what the others export (C25).
  \<^item> \<open>EnterDefaults\<close>: a simulation (\<^const>\<open>enter_sim\<close>) between an
    interactive run that consumes one Enter per question and the \<open>--yes\<close> run, step
    by step: accepting every prompt's \<open>initial\<close> gives the outcome and the file
    system of \<open>--yes\<close> when no overwrite question comes up (C23).
  \<^item> \<open>Cli\<close>: the options built from the flags with the declared defaults, the
    banner, the action, the next steps and the exit status (C13--C17).
  \<^item> \<open>Argv\<close>: \<open>program.parse()\<close>: the options declared in \<open>index.ts\<close>
    lines 11--25 and commander's option loop over the argument vector, a
    \<open>function\<close> whose termination is proved with a measure
    (\<^const>\<open>args_weight\<close>); reading back written-out flags gives them unchanged (C26); a
    value option without its value exits with 1 before the action (C27); an unknown
    option stops the program before the action whatever follows it, by an invariant of
    the parse state (C28).
  \<^item> \<open>RunEffects\<close>: what the steps do to the project directory over arbitrary
    worlds: the rename of the fetched manifest changes only its \<open>name\<close> (C11); a
    manifest that is not JSON is fatal right after the download, against the
    specification's claim that only the download is (C18); a confirmed overwrite
    followed by a failed download leaves the directory emptied (C19); and the package
    name a successful run writes is the directory argument as typed, even when it is a
    path (C29).

  \<^medskip>\<^noindent>\<^bold>\<open>Modelling choices.\<close> Every \<open>await\<close> of the code is a step
  \<^typ>\<open>world \<Rightarrow> 'a outcome \<times> world\<close>; a \<open>try\<close>/\<open>catch\<close> is a case on the
  outcome. Prompts read the next scripted answer (none left means the input was
  closed: the answer is \<open>undefined\<close>); an empty text answer takes the prompt's
  \<open>initial\<close>. External commands do not change the file system; only their success
  matters to the code. JSON numbers are integers (only their truthiness is read).
  The template texts are strings, transcribed line by line from the source. Console
  output is kept as messages in the trace; the spinner, colours and the figlet art
  are not. The program's own code has no loops; the one loop modelled, commander's
  option loop, is a \<open>function\<close> with a measure, so no fuel or bound is needed; every
  definition is total and executable, and the concrete runs are evaluated by
  \<open>simp\<close>.

  \<^medskip>\<^noindent>\<^bold>\<open>Not modelled.\<close> The text of commander's help and its check for excess operands (an error from commander 13 on, ignored
  before; the model ignores them); the meaning of the template texts beyond their imports, exports and statement starts
  (they are not type-checked); the effect of \<open>git\<close>, \<open>bun\<close> and \<open>npm\<close> on the file system; the timing of
  asynchronous output; the spinner.
\<close>

end
